theory Spec2Isabelle
  imports Main
begin

section \<open>Strings as the detectors see them\<close>

text \<open>
  A source string is modelled as a \<^typ>\<open>string\<close>: a list of 8-bit code units, so
  \<open>length\<close> is the source's \<open>.length\<close> on text whose code units are below 256.
  The white space of \<open>String.prototype.trim\<close> and of the pattern class \<open>\s\<close> in that
  range is TAB, LF, VT, FF, CR, SPACE and NBSP.
\<close>

abbreviation dq :: char where
  "dq \<equiv> CHR 0x22"

abbreviation sq :: char where
  "sq \<equiv> CHR 0x27"

definition isWhiteSpace :: "char \<Rightarrow> bool" where
  "isWhiteSpace c =
     (c = CHR 0x09 \<or> c = CHR 0x0A \<or> c = CHR 0x0B \<or> c = CHR 0x0C \<or> c = CHR 0x0D
      \<or> c = CHR 0x20 \<or> c = CHR 0xA0)"

definition trim :: "string \<Rightarrow> string" where
  "trim s = rev (dropWhile isWhiteSpace (rev (dropWhile isWhiteSpace s)))"

fun startsWith :: "string \<Rightarrow> string \<Rightarrow> bool" where
  "startsWith s [] = True"
| "startsWith [] (p # ps) = False"
| "startsWith (c # cs) (p # ps) = (c = p \<and> startsWith cs ps)"

fun str_includes :: "string \<Rightarrow> string \<Rightarrow> bool" where
  "str_includes [] sub = (sub = [])"
| "str_includes (c # cs) sub = (startsWith (c # cs) sub \<or> str_includes cs sub)"

text \<open>\<open>text.split('\n')\<close>: the pieces between line feeds; never the empty array.\<close>

fun split_lines :: "string \<Rightarrow> string list" where
  "split_lines [] = [[]]"
| "split_lines (c # cs) =
     (if c = CHR 0x0A then [] # split_lines cs
      else (case split_lines cs of
              [] \<Rightarrow> [[c]]
            | l # ls \<Rightarrow> (c # l) # ls))"

section \<open>The issue record\<close>

text \<open>
  \<open>vscode.Range\<close> holds a start and an end position; its constructor swaps the two
  when the start lies after the end.
\<close>

record Range =
  startLine :: nat
  startCharacter :: nat
  endLine :: nat
  endCharacter :: nat

definition vscode_Range :: "nat \<Rightarrow> nat \<Rightarrow> nat \<Rightarrow> nat \<Rightarrow> Range" where
  "vscode_Range sl sc el ec =
     (if el < sl \<or> (el = sl \<and> ec < sc)
      then \<lparr>startLine = el, startCharacter = ec, endLine = sl, endCharacter = sc\<rparr>
      else \<lparr>startLine = sl, startCharacter = sc, endLine = el, endCharacter = ec\<rparr>)"

record AccessibilityIssue =
  line :: nat
  issue :: string
  severity :: string
  range :: Range

text \<open>
  Every family runner fills an array with the detectors' results and pushes the
  non-null ones, in array order, onto the list it returns.
\<close>

fun pushChecks :: "AccessibilityIssue option list \<Rightarrow> AccessibilityIssue list \<Rightarrow> AccessibilityIssue list" where
  "pushChecks [] issues = issues"
| "pushChecks (None # checks) issues = pushChecks checks issues"
| "pushChecks (Some check # checks) issues = pushChecks checks (issues @ [check])"

section \<open>Case mapping\<close>

text \<open>
  In the 8-bit range the lower-case letters are \<open>a\<close> to \<open>z\<close> and 0xE0 to 0xFE
  without 0xF7, the upper-case letters \<open>A\<close> to \<open>Z\<close> and 0xC0 to 0xDE without
  0xD7; a letter and its other case differ by 32, that is in bit 5 of the code unit.
\<close>

fun withBit5 :: "bool \<Rightarrow> char \<Rightarrow> char" where
  "withBit5 b (Char b0 b1 b2 b3 b4 b5 b6 b7) = Char b0 b1 b2 b3 b4 b b6 b7"

definition toLowerCase_char :: "char \<Rightarrow> char" where
  "toLowerCase_char c =
     (let n = (of_char c :: nat) in
      if (65 \<le> n \<and> n \<le> 90) \<or> (192 \<le> n \<and> n \<le> 222 \<and> n \<noteq> 215)
      then withBit5 True c else c)"

definition toUpperCase_char :: "char \<Rightarrow> char" where
  "toUpperCase_char c =
     (let n = (of_char c :: nat) in
      if (97 \<le> n \<and> n \<le> 122) \<or> (224 \<le> n \<and> n \<le> 254 \<and> n \<noteq> 247)
      then withBit5 False c else c)"

definition toLowerCase :: "string \<Rightarrow> string" where
  "toLowerCase s = map toLowerCase_char s"

section \<open>The regular expressions of the detectors\<close>

text \<open>
  The patterns in the source are sequences of single-character atoms, atoms under a
  quantifier (\<open>*\<close>, \<open>*?\<close>, \<open>+\<close>), at most one capture group, and the assertions
  \<open>^\<close> and \<open>$\<close>. A pattern is written as the list of its pieces in source order;
  \<open>matchHere\<close> is the backtracking matcher at one start position: a greedy quantifier
  first takes one more character and gives it back when the rest fails, a lazy one
  first tries the rest.
\<close>

datatype ClassItem = CChar char | CRange char char

datatype Atom =
    Lit char
  | AnyChar
  | Class "ClassItem list"
  | NotClass "ClassItem list"
  | WhiteSpaceClass

datatype Piece =
    One Atom
  | Star Atom
  | LazyStar Atom
  | Plus Atom
  | GroupOpen
  | GroupClose
  | Bol
  | Eol

record RegExp =
  pieces :: "Piece list"
  ignoreCase :: bool

definition inRange :: "char \<Rightarrow> char \<Rightarrow> char \<Rightarrow> bool" where
  "inRange lo hi c = ((of_char lo :: nat) \<le> of_char c \<and> (of_char c :: nat) \<le> of_char hi)"

fun itemMatches :: "bool \<Rightarrow> ClassItem \<Rightarrow> char \<Rightarrow> bool" where
  "itemMatches ic (CChar m) c =
     (if ic then toUpperCase_char m = toUpperCase_char c else m = c)"
| "itemMatches ic (CRange lo hi) c =
     (inRange lo hi c \<or>
      (ic \<and> (inRange lo hi (toUpperCase_char c) \<or> inRange lo hi (toLowerCase_char c))))"

fun atomMatches :: "bool \<Rightarrow> Atom \<Rightarrow> char \<Rightarrow> bool" where
  "atomMatches ic (Lit m) c =
     (if ic then toUpperCase_char m = toUpperCase_char c else m = c)"
| "atomMatches ic AnyChar c = (c \<noteq> CHR 0x0A \<and> c \<noteq> CHR 0x0D)"
| "atomMatches ic (Class items) c = list_ex (\<lambda>i. itemMatches ic i c) items"
| "atomMatches ic (NotClass items) c = (\<not> list_ex (\<lambda>i. itemMatches ic i c) items)"
| "atomMatches ic WhiteSpaceClass c = isWhiteSpace c"

text \<open>
  \<open>matchHere ic ps s pos opn cap\<close>: \<open>s\<close> is the input from the current position
  \<open>pos\<close> on, \<open>opn\<close> the input at the point where the group opened, \<open>cap\<close> the
  text the group captured. The result is the input left after the match, and the capture.
\<close>

fun matchHere :: "bool \<Rightarrow> Piece list \<Rightarrow> string \<Rightarrow> nat \<Rightarrow> string option \<Rightarrow> string option
    \<Rightarrow> (string \<times> string option) option" where
  "matchHere ic [] s pos opn cap = Some (s, cap)"
| "matchHere ic (One a # ps) [] pos opn cap = None"
| "matchHere ic (One a # ps) (c # cs) pos opn cap =
     (if atomMatches ic a c then matchHere ic ps cs (pos + 1) opn cap else None)"
| "matchHere ic (Star a # ps) [] pos opn cap = matchHere ic ps [] pos opn cap"
| "matchHere ic (Star a # ps) (c # cs) pos opn cap =
     (if atomMatches ic a c
      then (case matchHere ic (Star a # ps) cs (pos + 1) opn cap of
              Some r \<Rightarrow> Some r
            | None \<Rightarrow> matchHere ic ps (c # cs) pos opn cap)
      else matchHere ic ps (c # cs) pos opn cap)"
| "matchHere ic (LazyStar a # ps) [] pos opn cap = matchHere ic ps [] pos opn cap"
| "matchHere ic (LazyStar a # ps) (c # cs) pos opn cap =
     (case matchHere ic ps (c # cs) pos opn cap of
        Some r \<Rightarrow> Some r
      | None \<Rightarrow>
          (if atomMatches ic a c then matchHere ic (LazyStar a # ps) cs (pos + 1) opn cap
           else None))"
| "matchHere ic (Plus a # ps) [] pos opn cap = None"
| "matchHere ic (Plus a # ps) (c # cs) pos opn cap =
     (if atomMatches ic a c then matchHere ic (Star a # ps) cs (pos + 1) opn cap else None)"
| "matchHere ic (GroupOpen # ps) s pos opn cap = matchHere ic ps s pos (Some s) cap"
| "matchHere ic (GroupClose # ps) s pos opn cap =
     matchHere ic ps s pos opn
       (case opn of None \<Rightarrow> None | Some s0 \<Rightarrow> Some (take (length s0 - length s) s0))"
| "matchHere ic (Bol # ps) s pos opn cap =
     (if pos = 0 then matchHere ic ps s pos opn cap else None)"
| "matchHere ic (Eol # ps) s pos opn cap =
     (if s = [] then matchHere ic ps s pos opn cap else None)"

text \<open>
  The leftmost match: start positions are tried from left to right, the end of the
  input included. The result is the array of \<open>String.prototype.match\<close> without
  the \<open>g\<close> flag: the matched text, then the capture when the pattern has a group.
\<close>

fun searchFrom :: "bool \<Rightarrow> Piece list \<Rightarrow> string \<Rightarrow> nat \<Rightarrow> string list option" where
  "searchFrom ic ps [] pos =
     (case matchHere ic ps [] pos None None of
        None \<Rightarrow> None
      | Some (rest, cap) \<Rightarrow> Some ([] # (case cap of None \<Rightarrow> [] | Some g \<Rightarrow> [g])))"
| "searchFrom ic ps (c # cs) pos =
     (case matchHere ic ps (c # cs) pos None None of
        None \<Rightarrow> searchFrom ic ps cs (pos + 1)
      | Some (rest, cap) \<Rightarrow>
          Some (take (length (c # cs) - length rest) (c # cs)
                # (case cap of None \<Rightarrow> [] | Some g \<Rightarrow> [g])))"

definition str_match :: "string \<Rightarrow> RegExp \<Rightarrow> string list option" where
  "str_match s re = searchFrom (ignoreCase re) (pieces re) s 0"

definition regexp_test :: "RegExp \<Rightarrow> string \<Rightarrow> bool" where
  "regexp_test re s = (str_match s re \<noteq> None)"

text \<open>
  With the \<open>g\<close> flag \<open>match\<close> returns every match, each search starting where the
  previous match ended (one character further after an empty match); only the number of
  matches is used. \<open>skip\<close> counts the characters still covered by the previous match.
\<close>

fun matchAllCount :: "bool \<Rightarrow> Piece list \<Rightarrow> string \<Rightarrow> nat \<Rightarrow> nat \<Rightarrow> nat" where
  "matchAllCount ic ps [] pos skip =
     (if skip = 0 \<and> matchHere ic ps [] pos None None \<noteq> None then 1 else 0)"
| "matchAllCount ic ps (c # cs) pos skip =
     (if 0 < skip then matchAllCount ic ps cs (pos + 1) (skip - 1)
      else (case matchHere ic ps (c # cs) pos None None of
              None \<Rightarrow> matchAllCount ic ps cs (pos + 1) 0
            | Some (rest, cap) \<Rightarrow>
                1 + matchAllCount ic ps cs (pos + 1) (length (c # cs) - length rest - 1)))"

definition str_match_global_length :: "string \<Rightarrow> RegExp \<Rightarrow> nat" where
  "str_match_global_length s re = matchAllCount (ignoreCase re) (pieces re) s 0 0"

definition lits :: "string \<Rightarrow> Piece list" where
  "lits s = map (\<lambda>c. One (Lit c)) s"

text \<open>
  Whether a pattern has a capture group that closes: then the array of a match has the
  index 1 the detectors read.
\<close>

fun hasGroup :: "Piece list \<Rightarrow> bool" where
  "hasGroup [] = False"
| "hasGroup (GroupOpen # ps) = (GroupClose \<in> set ps \<or> hasGroup ps)"
| "hasGroup (p # ps) = hasGroup ps"

section \<open>ImageChecker\<close>

definition checkImageAltAttributes :: "string \<Rightarrow> nat \<Rightarrow> AccessibilityIssue option" where
  "checkImageAltAttributes ln lineNumber =
     (let trimmedLine = trim ln in
      if str_includes trimmedLine ''<img'' \<and> \<not> str_includes trimmedLine ''alt=''
      then Some \<lparr>line = lineNumber + 1,
                 issue = ''Missing alt attribute on image....'',
                 severity = ''HIGH'',
                 range = vscode_Range lineNumber 0 lineNumber (length ln)\<rparr>
      else None)"

definition checkEmptyAltAttributes :: "string \<Rightarrow> nat \<Rightarrow> AccessibilityIssue option" where
  "checkEmptyAltAttributes ln lineNumber =
     (let trimmedLine = trim ln in
      if str_includes trimmedLine (''alt='' @ [dq, dq]) \<or> str_includes trimmedLine (''alt='' @ [sq, sq])
      then Some \<lparr>line = lineNumber + 1,
                 issue = ''Empty alt attribute - consider if image is decorative or needs description'',
                 severity = ''MEDIUM'',
                 range = vscode_Range lineNumber 0 lineNumber (length ln)\<rparr>
      else None)"

definition checkImages :: "string \<Rightarrow> nat \<Rightarrow> AccessibilityIssue list" where
  "checkImages ln lineNumber =
     pushChecks [checkImageAltAttributes ln lineNumber,
                 checkEmptyAltAttributes ln lineNumber] []"

section \<open>AriaLabelRoleChecker\<close>

definition VALID_ROLES :: "string list" where
  "VALID_ROLES =
    [''alert'', ''alertdialog'', ''application'', ''article'', ''banner'', ''button'', ''cell'', ''checkbox'',
     ''columnheader'', ''combobox'', ''complementary'', ''contentinfo'', ''definition'', ''dialog'', ''directory'',
     ''document'', ''feed'', ''figure'', ''form'', ''grid'', ''gridcell'', ''group'', ''heading'', ''img'', ''link'',
     ''list'', ''listbox'', ''listitem'', ''log'', ''main'', ''marquee'', ''math'', ''menu'', ''menubar'', ''menuitem'',
     ''menuitemcheckbox'', ''menuitemradio'', ''navigation'', ''none'', ''note'', ''option'', ''presentation'',
     ''progressbar'', ''radio'', ''radiogroup'', ''region'', ''row'', ''rowgroup'', ''rowheader'', ''scrollbar'',
     ''search'', ''separator'', ''slider'', ''spinbutton'', ''status'', ''switch'', ''tab'', ''table'', ''tablist'',
     ''tabpanel'', ''textbox'', ''timer'', ''toolbar'', ''tooltip'', ''tree'', ''treegrid'', ''treeitem'']"

definition INTERACTIVE_ELEMENTS :: "string list" where
  "INTERACTIVE_ELEMENTS =
    [''button'', ''input'', ''select'', ''textarea'', ''a'', ''area'', ''summary'']"

text \<open>The two character classes of the attribute patterns: \<open>["']\<close> and \<open>[^"']+\<close>.\<close>

abbreviation quoteChar :: Piece where
  "quoteChar \<equiv> One (Class [CChar dq, CChar sq])"

abbreviation notQuotePlus :: Piece where
  "notQuotePlus \<equiv> Plus (NotClass [CChar dq, CChar sq])"

text \<open>\<open>/<button[^>]*>(.*?)<\/button>/\<close>\<close>

definition re_button_content :: RegExp where
  "re_button_content =
     \<lparr>pieces = lits ''<button'' @ [Star (NotClass [CChar (CHR ''>'')]), One (Lit (CHR ''>'')),
                 GroupOpen, LazyStar AnyChar, GroupClose] @ lits ''</button>'',
      ignoreCase = False\<rparr>"

text \<open>\<open>/<a[^>]*>(.*?)<\/a>/\<close>\<close>

definition re_link_content :: RegExp where
  "re_link_content =
     \<lparr>pieces = lits ''<a'' @ [Star (NotClass [CChar (CHR ''>'')]), One (Lit (CHR ''>'')),
                 GroupOpen, LazyStar AnyChar, GroupClose] @ lits ''</a>'',
      ignoreCase = False\<rparr>"

text \<open>\<open>/>([^<]+)</\<close>\<close>

definition re_text_between_tags :: RegExp where
  "re_text_between_tags =
     \<lparr>pieces = [One (Lit (CHR ''>'')), GroupOpen, Plus (NotClass [CChar (CHR ''<'')]), GroupClose,
                 One (Lit (CHR ''<''))],
      ignoreCase = False\<rparr>"

text \<open>\<open>/role=["']([^"']+)["']/\<close>\<close>

definition re_role :: RegExp where
  "re_role =
     \<lparr>pieces = lits ''role='' @ [quoteChar, GroupOpen, notQuotePlus, GroupClose, quoteChar],
      ignoreCase = False\<rparr>"

text \<open>\<open>/aria-labelledby=["']([^"']+)["']/\<close>\<close>

definition re_aria_labelledby :: RegExp where
  "re_aria_labelledby =
     \<lparr>pieces = lits ''aria-labelledby='' @ [quoteChar, GroupOpen, notQuotePlus, GroupClose, quoteChar],
      ignoreCase = False\<rparr>"

text \<open>\<open>/aria-describedby=["']([^"']+)["']/\<close>\<close>

definition re_aria_describedby :: RegExp where
  "re_aria_describedby =
     \<lparr>pieces = lits ''aria-describedby='' @ [quoteChar, GroupOpen, notQuotePlus, GroupClose, quoteChar],
      ignoreCase = False\<rparr>"

text \<open>\<open>/aria-expanded=["']([^"']+)["']/\<close>\<close>

definition re_aria_expanded :: RegExp where
  "re_aria_expanded =
     \<lparr>pieces = lits ''aria-expanded='' @ [quoteChar, GroupOpen, notQuotePlus, GroupClose, quoteChar],
      ignoreCase = False\<rparr>"

text \<open>\<open>/^\s*$/\<close>\<close>

definition re_blank :: RegExp where
  "re_blank = \<lparr>pieces = [Bol, Star WhiteSpaceClass, Eol], ignoreCase = False\<rparr>"

definition checkMissingAriaLabel :: "string \<Rightarrow> nat \<Rightarrow> AccessibilityIssue option" where
  "checkMissingAriaLabel ln lineNumber =
     (let trimmedLine = trim ln;
          hasInteractiveElement =
            list_ex (\<lambda>element. str_includes trimmedLine (''<'' @ element)
                              \<or> str_includes trimmedLine (''<'' @ element @ '' ''))
              INTERACTIVE_ELEMENTS
      in if hasInteractiveElement
         then (let hasAriaLabel = (str_includes trimmedLine ''aria-label''
                                   \<or> str_includes trimmedLine ''aria-labelledby'');
                   hasTitle = str_includes trimmedLine ''title='';
                   hasAlt = str_includes trimmedLine ''alt='';
                   buttonText =
                     (if str_includes trimmedLine ''<button''
                      then (case str_match trimmedLine re_button_content of
                              None \<Rightarrow> False
                            | Some buttonMatch \<Rightarrow> 0 < length (trim (buttonMatch ! 1)))
                      else False);
                   linkText =
                     (if str_includes trimmedLine ''<a''
                      then (case str_match trimmedLine re_link_content of
                              None \<Rightarrow> False
                            | Some linkMatch \<Rightarrow> 0 < length (trim (linkMatch ! 1)))
                      else False);
                   hasVisibleText = (buttonText \<or> linkText);
                   hasAccessibleName = (hasAriaLabel \<or> hasTitle \<or> hasAlt \<or> hasVisibleText)
               in if \<not> hasAccessibleName
                  then Some \<lparr>line = lineNumber + 1,
                             issue = ''Interactive element missing accessible name (aria-label, aria-labelledby, or visible text)'',
                             severity = ''HIGH'',
                             range = vscode_Range lineNumber 0 lineNumber (length ln)\<rparr>
                  else None)
         else None)"

definition checkEmptyAriaLabel :: "string \<Rightarrow> nat \<Rightarrow> AccessibilityIssue option" where
  "checkEmptyAriaLabel ln lineNumber =
     (let trimmedLine = trim ln in
      if str_includes trimmedLine (''aria-label='' @ [dq, dq])
         \<or> str_includes trimmedLine (''aria-label='' @ [sq, sq])
         \<or> str_includes trimmedLine (''aria-label='' @ [dq, CHR '' '', dq])
         \<or> str_includes trimmedLine (''aria-label='' @ [sq, CHR '' '', sq])
      then Some \<lparr>line = lineNumber + 1,
                 issue = ''Empty or whitespace-only aria-label provides no accessible name'',
                 severity = ''HIGH'',
                 range = vscode_Range lineNumber 0 lineNumber (length ln)\<rparr>
      else None)"

definition checkRedundantAriaLabel :: "string \<Rightarrow> nat \<Rightarrow> AccessibilityIssue option" where
  "checkRedundantAriaLabel ln lineNumber =
     (let trimmedLine = trim ln in
      if (str_includes trimmedLine ''<button'' \<or> str_includes trimmedLine ''<a'')
         \<and> str_includes trimmedLine ''aria-label''
         \<and> str_includes trimmedLine ''>''
         \<and> str_includes trimmedLine ''</''
      then (case str_match trimmedLine re_text_between_tags of
              None \<Rightarrow> None
            | Some textMatch \<Rightarrow>
                if 0 < length (trim (textMatch ! 1))
                then Some \<lparr>line = lineNumber + 1,
                           issue = ''Redundant aria-label when visible text already provides accessible name'',
                           severity = ''MEDIUM'',
                           range = vscode_Range lineNumber 0 lineNumber (length ln)\<rparr>
                else None)
      else None)"

definition checkInvalidRole :: "string \<Rightarrow> nat \<Rightarrow> AccessibilityIssue option" where
  \<open>checkInvalidRole ln lineNumber =
     (let trimmedLine = trim ln in
      if str_includes trimmedLine ''role=''
      then (case str_match trimmedLine re_role of
              None \<Rightarrow> None
            | Some roleMatch \<Rightarrow>
                (let role = toLowerCase (roleMatch ! 1) in
                 if role \<notin> set VALID_ROLES
                 then Some \<lparr>line = lineNumber + 1,
                            issue = ''Invalid ARIA role "'' @ role @ ''" - not a valid ARIA role'',
                            severity = ''HIGH'',
                            range = vscode_Range lineNumber 0 lineNumber (length ln)\<rparr>
                 else None))
      else None)\<close>

definition checkRedundantRole :: "string \<Rightarrow> nat \<Rightarrow> AccessibilityIssue option" where
  \<open>checkRedundantRole ln lineNumber =
     (let trimmedLine = trim ln in
      if str_includes trimmedLine ''role=''
      then (case str_match trimmedLine re_role of
              None \<Rightarrow> None
            | Some roleMatch \<Rightarrow>
                (let role = toLowerCase (roleMatch ! 1) in
                 if (str_includes trimmedLine ''<button'' \<and> role = ''button'')
                    \<or> (str_includes trimmedLine ''<nav'' \<and> role = ''navigation'')
                    \<or> (str_includes trimmedLine ''<main'' \<and> role = ''main'')
                    \<or> (str_includes trimmedLine ''<header'' \<and> role = ''banner'')
                    \<or> (str_includes trimmedLine ''<footer'' \<and> role = ''contentinfo'')
                    \<or> (str_includes trimmedLine ''<section'' \<and> role = ''region'')
                    \<or> (str_includes trimmedLine ''<article'' \<and> role = ''article'')
                    \<or> (str_includes trimmedLine ''<aside'' \<and> role = ''complementary'')
                 then Some \<lparr>line = lineNumber + 1,
                            issue = ''Redundant role="'' @ role @ ''" on semantic element - element already has implicit role'',
                            severity = ''LOW'',
                            range = vscode_Range lineNumber 0 lineNumber (length ln)\<rparr>
                 else None))
      else None)\<close>

definition checkMissingAriaLabelledbyReference :: "string \<Rightarrow> nat \<Rightarrow> string \<Rightarrow> AccessibilityIssue option" where
  \<open>checkMissingAriaLabelledbyReference ln lineNumber fullText =
     (let trimmedLine = trim ln in
      if str_includes trimmedLine ''aria-labelledby=''
      then (case str_match trimmedLine re_aria_labelledby of
              None \<Rightarrow> None
            | Some labelledbyMatch \<Rightarrow>
                (let referencedId = labelledbyMatch ! 1 in
                 if \<not> str_includes fullText (''id="'' @ referencedId @ ''"'')
                    \<and> \<not> str_includes fullText (''id='' @ [sq] @ referencedId @ [sq])
                 then Some \<lparr>line = lineNumber + 1,
                            issue = ''aria-labelledby references non-existent element with id="'' @ referencedId @ ''"'',
                            severity = ''HIGH'',
                            range = vscode_Range lineNumber 0 lineNumber (length ln)\<rparr>
                 else None))
      else None)\<close>

definition checkMissingAriaDescribedbyReference :: "string \<Rightarrow> nat \<Rightarrow> string \<Rightarrow> AccessibilityIssue option" where
  \<open>checkMissingAriaDescribedbyReference ln lineNumber fullText =
     (let trimmedLine = trim ln in
      if str_includes trimmedLine ''aria-describedby=''
      then (case str_match trimmedLine re_aria_describedby of
              None \<Rightarrow> None
            | Some describedbyMatch \<Rightarrow>
                (let referencedId = describedbyMatch ! 1 in
                 if \<not> str_includes fullText (''id="'' @ referencedId @ ''"'')
                    \<and> \<not> str_includes fullText (''id='' @ [sq] @ referencedId @ [sq])
                 then Some \<lparr>line = lineNumber + 1,
                            issue = ''aria-describedby references non-existent element with id="'' @ referencedId @ ''"'',
                            severity = ''HIGH'',
                            range = vscode_Range lineNumber 0 lineNumber (length ln)\<rparr>
                 else None))
      else None)\<close>

definition checkMissingAriaExpanded :: "string \<Rightarrow> nat \<Rightarrow> AccessibilityIssue option" where
  \<open>checkMissingAriaExpanded ln lineNumber =
     (let trimmedLine = trim ln in
      if (str_includes trimmedLine ''role="button"'' \<or> str_includes trimmedLine ''role="menuitem"'')
         \<and> str_includes trimmedLine ''onclick''
         \<and> \<not> str_includes trimmedLine ''aria-expanded''
      then Some \<lparr>line = lineNumber + 1,
                 issue = ''Collapsible element missing aria-expanded attribute'',
                 severity = ''MEDIUM'',
                 range = vscode_Range lineNumber 0 lineNumber (length ln)\<rparr>
      else None)\<close>

definition checkIncorrectAriaExpanded :: "string \<Rightarrow> nat \<Rightarrow> AccessibilityIssue option" where
  \<open>checkIncorrectAriaExpanded ln lineNumber =
     (let trimmedLine = trim ln in
      if str_includes trimmedLine ''aria-expanded=''
      then (case str_match trimmedLine re_aria_expanded of
              None \<Rightarrow> None
            | Some expandedMatch \<Rightarrow>
                (let v = toLowerCase (expandedMatch ! 1) in
                 if v \<noteq> ''true'' \<and> v \<noteq> ''false''
                 then Some \<lparr>line = lineNumber + 1,
                            issue = ''Invalid aria-expanded value "'' @ v @ ''" - must be "true" or "false"'',
                            severity = ''HIGH'',
                            range = vscode_Range lineNumber 0 lineNumber (length ln)\<rparr>
                 else None))
      else None)\<close>

definition checkMissingAriaHiddenOnDecorative :: "string \<Rightarrow> nat \<Rightarrow> AccessibilityIssue option" where
  \<open>checkMissingAriaHiddenOnDecorative ln lineNumber =
     (let trimmedLine = trim ln in
      if str_includes trimmedLine ''<img''
         \<and> (str_includes trimmedLine ''decorative'' \<or> str_includes trimmedLine ''ornament''
              \<or> str_includes trimmedLine ''spacer'' \<or> str_includes trimmedLine ''divider'')
         \<and> \<not> str_includes trimmedLine ''aria-hidden="true"''
      then Some \<lparr>line = lineNumber + 1,
                 issue = ''Decorative image should have aria-hidden="true"'',
                 severity = ''MEDIUM'',
                 range = vscode_Range lineNumber 0 lineNumber (length ln)\<rparr>
      else None)\<close>

definition checkConflictingAriaHiddenAndRole :: "string \<Rightarrow> nat \<Rightarrow> AccessibilityIssue option" where
  \<open>checkConflictingAriaHiddenAndRole ln lineNumber =
     (let trimmedLine = trim ln in
      if str_includes trimmedLine ''aria-hidden="true"'' \<and> str_includes trimmedLine ''role=''
      then Some \<lparr>line = lineNumber + 1,
                 issue = ''Element with aria-hidden="true" should not have a role attribute'',
                 severity = ''HIGH'',
                 range = vscode_Range lineNumber 0 lineNumber (length ln)\<rparr>
      else None)\<close>

definition checkMissingAriaDisabled :: "string \<Rightarrow> nat \<Rightarrow> AccessibilityIssue option" where
  \<open>checkMissingAriaDisabled ln lineNumber =
     (let trimmedLine = trim ln in
      if (str_includes trimmedLine ''disabled'' \<or> str_includes trimmedLine ''readonly'')
         \<and> \<not> str_includes trimmedLine ''aria-disabled''
         \<and> (str_includes trimmedLine ''<input'' \<or> str_includes trimmedLine ''<button''
              \<or> str_includes trimmedLine ''<select'')
      then Some \<lparr>line = lineNumber + 1,
                 issue = ''Disabled element should have aria-disabled="true" for screen readers'',
                 severity = ''MEDIUM'',
                 range = vscode_Range lineNumber 0 lineNumber (length ln)\<rparr>
      else None)\<close>

definition checkMissingAriaRequired :: "string \<Rightarrow> nat \<Rightarrow> AccessibilityIssue option" where
  \<open>checkMissingAriaRequired ln lineNumber =
     (let trimmedLine = trim ln in
      if (str_includes trimmedLine ''required'' \<or> str_includes trimmedLine ''aria-required="true"'')
         \<and> \<not> str_includes trimmedLine ''aria-required''
         \<and> (str_includes trimmedLine ''<input'' \<or> str_includes trimmedLine ''<select''
              \<or> str_includes trimmedLine ''<textarea'')
      then Some \<lparr>line = lineNumber + 1,
                 issue = ''Required form element should have aria-required="true"'',
                 severity = ''MEDIUM'',
                 range = vscode_Range lineNumber 0 lineNumber (length ln)\<rparr>
      else None)\<close>

definition checkMissingAriaInvalid :: "string \<Rightarrow> nat \<Rightarrow> AccessibilityIssue option" where
  \<open>checkMissingAriaInvalid ln lineNumber =
     (let trimmedLine = trim ln in
      if (str_includes trimmedLine ''error'' \<or> str_includes trimmedLine ''invalid''
          \<or> str_includes trimmedLine ''class="error"'')
         \<and> \<not> str_includes trimmedLine ''aria-invalid''
         \<and> (str_includes trimmedLine ''<input'' \<or> str_includes trimmedLine ''<select''
              \<or> str_includes trimmedLine ''<textarea'')
      then Some \<lparr>line = lineNumber + 1,
                 issue = ''Form element with validation error should have aria-invalid="true"'',
                 severity = ''MEDIUM'',
                 range = vscode_Range lineNumber 0 lineNumber (length ln)\<rparr>
      else None)\<close>

definition checkEmptyButtonElements :: "string \<Rightarrow> nat \<Rightarrow> AccessibilityIssue option" where
  "checkEmptyButtonElements ln lineNumber =
     (let trimmedLine = trim ln in
      if str_includes trimmedLine ''<button'' \<and> str_includes trimmedLine ''</button>''
      then (case str_match trimmedLine re_button_content of
              None \<Rightarrow> None
            | Some buttonMatch \<Rightarrow>
                (let content = trim (buttonMatch ! 1) in
                 if length content = 0 \<or> regexp_test re_blank content
                 then (let hasAccessibleName = (str_includes trimmedLine ''aria-label''
                                                \<or> str_includes trimmedLine ''aria-labelledby''
                                                \<or> str_includes trimmedLine ''title='')
                       in if \<not> hasAccessibleName
                          then Some \<lparr>line = lineNumber + 1,
                                     issue = ''Empty button element needs accessible name (aria-label, aria-labelledby, or visible text)'',
                                     severity = ''HIGH'',
                                     range = vscode_Range lineNumber 0 lineNumber (length ln)\<rparr>
                          else None)
                 else None))
      else None)"

definition checkAriaLabelAndRole :: "string \<Rightarrow> nat \<Rightarrow> string \<Rightarrow> AccessibilityIssue list" where
  "checkAriaLabelAndRole ln lineNumber fullText =
     pushChecks [checkMissingAriaLabel ln lineNumber,
                 checkEmptyAriaLabel ln lineNumber,
                 checkRedundantAriaLabel ln lineNumber,
                 checkInvalidRole ln lineNumber,
                 checkRedundantRole ln lineNumber,
                 checkMissingAriaLabelledbyReference ln lineNumber fullText,
                 checkMissingAriaDescribedbyReference ln lineNumber fullText,
                 checkMissingAriaExpanded ln lineNumber,
                 checkIncorrectAriaExpanded ln lineNumber,
                 checkMissingAriaHiddenOnDecorative ln lineNumber,
                 checkConflictingAriaHiddenAndRole ln lineNumber,
                 checkMissingAriaDisabled ln lineNumber,
                 checkMissingAriaRequired ln lineNumber,
                 checkMissingAriaInvalid ln lineNumber,
                 checkEmptyButtonElements ln lineNumber] []"

section \<open>TabIndexChecker\<close>

definition NATURALLY_FOCUSABLE :: "string list" where
  "NATURALLY_FOCUSABLE =
    [''button'', ''input'', ''select'', ''textarea'', ''a'', ''area'', ''summary'', ''details'']"

definition NON_FOCUSABLE :: "string list" where
  "NON_FOCUSABLE =
    [''div'', ''span'', ''p'', ''h1'', ''h2'', ''h3'', ''h4'', ''h5'', ''h6'', ''img'', ''br'', ''hr'']"

text \<open>\<open>/tabindex=["'](-[0-9]+)["']/\<close>\<close>

definition re_negative_tabindex :: RegExp where
  "re_negative_tabindex =
     \<lparr>pieces = lits ''tabindex='' @ [quoteChar, GroupOpen, One (Lit (CHR ''-'')),
                 Plus (Class [CRange (CHR ''0'') (CHR ''9'')]), GroupClose, quoteChar],
      ignoreCase = False\<rparr>"

text \<open>\<open>/tabindex=["']([1-9][0-9]*)["']/\<close>\<close>

definition re_positive_tabindex :: RegExp where
  "re_positive_tabindex =
     \<lparr>pieces = lits ''tabindex='' @ [quoteChar, GroupOpen,
                 One (Class [CRange (CHR ''1'') (CHR ''9'')]),
                 Star (Class [CRange (CHR ''0'') (CHR ''9'')]), GroupClose, quoteChar],
      ignoreCase = False\<rparr>"

text \<open>\<open>/tabindex=["']([^"']+)["']/\<close>\<close>

definition re_tabindex :: RegExp where
  "re_tabindex =
     \<lparr>pieces = lits ''tabindex='' @ [quoteChar, GroupOpen, notQuotePlus, GroupClose, quoteChar],
      ignoreCase = False\<rparr>"

definition checkNegativeTabIndex :: "string \<Rightarrow> nat \<Rightarrow> AccessibilityIssue option" where
  \<open>checkNegativeTabIndex ln lineNumber =
     (let trimmedLine = trim ln in
      case str_match trimmedLine re_negative_tabindex of
        None \<Rightarrow> None
      | Some negativeTabIndexMatch \<Rightarrow>
          (let tabIndexValue = negativeTabIndexMatch ! 1 in
           Some \<lparr>line = lineNumber + 1,
                 issue = ''Negative tabindex="'' @ tabIndexValue @ ''" removes element from tab order - ensure this is intentional'',
                 severity = ''HIGH'',
                 range = vscode_Range lineNumber 0 lineNumber (length ln)\<rparr>))\<close>

definition checkTabIndexZeroOnNonInteractive :: "string \<Rightarrow> nat \<Rightarrow> AccessibilityIssue option" where
  \<open>checkTabIndexZeroOnNonInteractive ln lineNumber =
     (let trimmedLine = trim ln in
      if str_includes trimmedLine ''tabindex="0"''
         \<or> str_includes trimmedLine (''tabindex='' @ [sq, CHR ''0'', sq])
      then (let isNonInteractive =
                  list_ex (\<lambda>element. str_includes trimmedLine (''<'' @ element)
                                    \<and> \<not> str_includes trimmedLine ''role='')
                    NON_FOCUSABLE
            in if isNonInteractive
               then Some \<lparr>line = lineNumber + 1,
                          issue = ''Non-interactive element with tabindex="0" - add role attribute or use semantic element'',
                          severity = ''HIGH'',
                          range = vscode_Range lineNumber 0 lineNumber (length ln)\<rparr>
               else None)
      else None)\<close>

definition checkMissingTabIndexOnCustomInteractive :: "string \<Rightarrow> nat \<Rightarrow> AccessibilityIssue option" where
  \<open>checkMissingTabIndexOnCustomInteractive ln lineNumber =
     (let trimmedLine = trim ln;
          hasInteractiveRole = (str_includes trimmedLine ''role="button"''
                                \<or> str_includes trimmedLine ''role="link"''
                                \<or> str_includes trimmedLine ''role="menuitem"''
                                \<or> str_includes trimmedLine ''role="tab"''
                                \<or> str_includes trimmedLine ''role="option"''
                                \<or> str_includes trimmedLine ''role="checkbox"'')
      in if hasInteractiveRole \<and> \<not> str_includes trimmedLine ''tabindex=''
         then Some \<lparr>line = lineNumber + 1,
                    issue = ''Custom interactive element missing tabindex - add tabindex="0" for keyboard accessibility'',
                    severity = ''HIGH'',
                    range = vscode_Range lineNumber 0 lineNumber (length ln)\<rparr>
         else None)\<close>

definition checkRedundantTabIndexOnFocusable :: "string \<Rightarrow> nat \<Rightarrow> AccessibilityIssue option" where
  "checkRedundantTabIndexOnFocusable ln lineNumber =
     (let trimmedLine = trim ln;
          isNaturallyFocusable =
            list_ex (\<lambda>element. str_includes trimmedLine (''<'' @ element)) NATURALLY_FOCUSABLE
      in if isNaturallyFocusable \<and> str_includes trimmedLine ''tabindex=''
         then Some \<lparr>line = lineNumber + 1,
                    issue = ''Redundant tabindex on naturally focusable element - remove unless changing tab order'',
                    severity = ''MEDIUM'',
                    range = vscode_Range lineNumber 0 lineNumber (length ln)\<rparr>
         else None)"

definition checkPositiveTabIndex :: "string \<Rightarrow> nat \<Rightarrow> AccessibilityIssue option" where
  \<open>checkPositiveTabIndex ln lineNumber =
     (let trimmedLine = trim ln in
      case str_match trimmedLine re_positive_tabindex of
        None \<Rightarrow> None
      | Some positiveTabIndexMatch \<Rightarrow>
          (let tabIndexValue = positiveTabIndexMatch ! 1 in
           Some \<lparr>line = lineNumber + 1,
                 issue = ''Positive tabindex="'' @ tabIndexValue @ ''" disrupts natural tab order - use tabindex="0" or negative values only'',
                 severity = ''MEDIUM'',
                 range = vscode_Range lineNumber 0 lineNumber (length ln)\<rparr>))\<close>

definition checkMissingTabIndexOnClickable :: "string \<Rightarrow> nat \<Rightarrow> AccessibilityIssue option" where
  \<open>checkMissingTabIndexOnClickable ln lineNumber =
     (let trimmedLine = trim ln in
      if (str_includes trimmedLine ''onclick'' \<or> str_includes trimmedLine ''onkeydown'')
         \<and> \<not> str_includes trimmedLine ''tabindex=''
         \<and> (str_includes trimmedLine ''<div'' \<or> str_includes trimmedLine ''<span'')
      then Some \<lparr>line = lineNumber + 1,
                 issue = ''Clickable element missing tabindex - add tabindex="0" for keyboard accessibility'',
                 severity = ''MEDIUM'',
                 range = vscode_Range lineNumber 0 lineNumber (length ln)\<rparr>
      else None)\<close>

definition checkDisabledElementWithTabIndex :: "string \<Rightarrow> nat \<Rightarrow> AccessibilityIssue option" where
  \<open>checkDisabledElementWithTabIndex ln lineNumber =
     (let trimmedLine = trim ln in
      if (str_includes trimmedLine ''disabled'' \<or> str_includes trimmedLine ''aria-disabled="true"'')
         \<and> str_includes trimmedLine ''tabindex=''
      then Some \<lparr>line = lineNumber + 1,
                 issue = ''Disabled element should not be focusable - remove tabindex or use tabindex="-1"'',
                 severity = ''MEDIUM'',
                 range = vscode_Range lineNumber 0 lineNumber (length ln)\<rparr>
      else None)\<close>

definition checkTabIndexOnHiddenElement :: "string \<Rightarrow> nat \<Rightarrow> AccessibilityIssue option" where
  \<open>checkTabIndexOnHiddenElement ln lineNumber =
     (let trimmedLine = trim ln in
      if (str_includes trimmedLine ''hidden'' \<or> str_includes trimmedLine ''aria-hidden="true"''
          \<or> str_includes trimmedLine ''style="display: none"''
          \<or> str_includes trimmedLine ''style="visibility: hidden"'')
         \<and> str_includes trimmedLine ''tabindex=''
      then Some \<lparr>line = lineNumber + 1,
                 issue = ''Hidden element should not be focusable - remove tabindex or use tabindex="-1"'',
                 severity = ''MEDIUM'',
                 range = vscode_Range lineNumber 0 lineNumber (length ln)\<rparr>
      else None)\<close>

definition checkTabIndexOnDecorativeElement :: "string \<Rightarrow> nat \<Rightarrow> AccessibilityIssue option" where
  \<open>checkTabIndexOnDecorativeElement ln lineNumber =
     (let trimmedLine = trim ln in
      if (str_includes trimmedLine ''decorative'' \<or> str_includes trimmedLine ''ornament''
          \<or> str_includes trimmedLine ''spacer'' \<or> str_includes trimmedLine ''divider'')
         \<and> str_includes trimmedLine ''tabindex=''
      then Some \<lparr>line = lineNumber + 1,
                 issue = ''Decorative element should not be focusable - remove tabindex or use tabindex="-1"'',
                 severity = ''LOW'',
                 range = vscode_Range lineNumber 0 lineNumber (length ln)\<rparr>
      else None)\<close>

definition checkInconsistentTabIndexUsage :: "string \<Rightarrow> nat \<Rightarrow> AccessibilityIssue option" where
  \<open>checkInconsistentTabIndexUsage ln lineNumber =
     (let trimmedLine = trim ln in
      if str_includes trimmedLine ''tabindex=''
      then (case str_match trimmedLine re_tabindex of
              None \<Rightarrow> None
            | Some tabIndexMatch \<Rightarrow>
                (let tabIndexValue = tabIndexMatch ! 1 in
                 if tabIndexValue = ''1'' \<or> tabIndexValue = ''2'' \<or> tabIndexValue = ''3''
                 then Some \<lparr>line = lineNumber + 1,
                            issue = ''Low positive tabindex="'' @ tabIndexValue @ ''" may cause confusion - consider using tabindex="0" or negative values'',
                            severity = ''LOW'',
                            range = vscode_Range lineNumber 0 lineNumber (length ln)\<rparr>
                 else None))
      else None)\<close>

definition checkMissingTabIndexOnModalTrigger :: "string \<Rightarrow> nat \<Rightarrow> AccessibilityIssue option" where
  \<open>checkMissingTabIndexOnModalTrigger ln lineNumber =
     (let trimmedLine = trim ln in
      if (str_includes trimmedLine ''data-toggle="modal"''
          \<or> str_includes trimmedLine ''data-bs-toggle="modal"''
          \<or> (str_includes trimmedLine ''onclick'' \<and> str_includes trimmedLine ''modal''))
         \<and> \<not> str_includes trimmedLine ''tabindex=''
         \<and> (str_includes trimmedLine ''<div'' \<or> str_includes trimmedLine ''<span'')
      then Some \<lparr>line = lineNumber + 1,
                 issue = ''Modal trigger element missing tabindex - add tabindex="0" for keyboard accessibility'',
                 severity = ''MEDIUM'',
                 range = vscode_Range lineNumber 0 lineNumber (length ln)\<rparr>
      else None)\<close>

definition checkTabIndexOnPresentationRole :: "string \<Rightarrow> nat \<Rightarrow> AccessibilityIssue option" where
  \<open>checkTabIndexOnPresentationRole ln lineNumber =
     (let trimmedLine = trim ln in
      if str_includes trimmedLine ''role="presentation"'' \<and> str_includes trimmedLine ''tabindex=''
      then Some \<lparr>line = lineNumber + 1,
                 issue = ''Element with role="presentation" should not be focusable - remove tabindex'',
                 severity = ''HIGH'',
                 range = vscode_Range lineNumber 0 lineNumber (length ln)\<rparr>
      else None)\<close>

definition checkTabIndexOnNoneRole :: "string \<Rightarrow> nat \<Rightarrow> AccessibilityIssue option" where
  \<open>checkTabIndexOnNoneRole ln lineNumber =
     (let trimmedLine = trim ln in
      if str_includes trimmedLine ''role="none"'' \<and> str_includes trimmedLine ''tabindex=''
      then Some \<lparr>line = lineNumber + 1,
                 issue = ''Element with role="none" should not be focusable - remove tabindex'',
                 severity = ''HIGH'',
                 range = vscode_Range lineNumber 0 lineNumber (length ln)\<rparr>
      else None)\<close>

definition checkTabIndexOnAriaHidden :: "string \<Rightarrow> nat \<Rightarrow> AccessibilityIssue option" where
  \<open>checkTabIndexOnAriaHidden ln lineNumber =
     (let trimmedLine = trim ln in
      if str_includes trimmedLine ''aria-hidden="true"'' \<and> str_includes trimmedLine ''tabindex=''
      then Some \<lparr>line = lineNumber + 1,
                 issue = ''Element with aria-hidden="true" should not be focusable - remove tabindex'',
                 severity = ''HIGH'',
                 range = vscode_Range lineNumber 0 lineNumber (length ln)\<rparr>
      else None)\<close>

definition checkMissingTabIndexOnCustomFormControl :: "string \<Rightarrow> nat \<Rightarrow> AccessibilityIssue option" where
  \<open>checkMissingTabIndexOnCustomFormControl ln lineNumber =
     (let trimmedLine = trim ln in
      if (str_includes trimmedLine ''role="combobox"''
          \<or> str_includes trimmedLine ''role="slider"''
          \<or> str_includes trimmedLine ''role="spinbutton"'')
         \<and> \<not> str_includes trimmedLine ''tabindex=''
      then Some \<lparr>line = lineNumber + 1,
                 issue = ''Custom form control missing tabindex - add tabindex="0" for keyboard accessibility'',
                 severity = ''MEDIUM'',
                 range = vscode_Range lineNumber 0 lineNumber (length ln)\<rparr>
      else None)\<close>

definition checkTabIndexOnNonInteractiveElement :: "string \<Rightarrow> nat \<Rightarrow> AccessibilityIssue option" where
  "checkTabIndexOnNonInteractiveElement ln lineNumber =
     (let trimmedLine = trim ln in
      if (str_includes trimmedLine ''<p'' \<or> str_includes trimmedLine ''<h1''
          \<or> str_includes trimmedLine ''<h2'' \<or> str_includes trimmedLine ''<h3''
          \<or> str_includes trimmedLine ''<h4'' \<or> str_includes trimmedLine ''<h5''
          \<or> str_includes trimmedLine ''<h6'' \<or> str_includes trimmedLine ''<img'')
         \<and> str_includes trimmedLine ''tabindex='' \<and> \<not> str_includes trimmedLine ''role=''
      then Some \<lparr>line = lineNumber + 1,
                 issue = ''Non-interactive element with tabindex - consider if this element should be focusable'',
                 severity = ''LOW'',
                 range = vscode_Range lineNumber 0 lineNumber (length ln)\<rparr>
      else None)"

definition checkTabIndex :: "string \<Rightarrow> nat \<Rightarrow> AccessibilityIssue list" where
  "checkTabIndex ln lineNumber =
     pushChecks [checkNegativeTabIndex ln lineNumber,
                 checkTabIndexZeroOnNonInteractive ln lineNumber,
                 checkMissingTabIndexOnCustomInteractive ln lineNumber,
                 checkTabIndexOnPresentationRole ln lineNumber,
                 checkTabIndexOnNoneRole ln lineNumber,
                 checkTabIndexOnAriaHidden ln lineNumber,
                 checkRedundantTabIndexOnFocusable ln lineNumber,
                 checkPositiveTabIndex ln lineNumber,
                 checkMissingTabIndexOnClickable ln lineNumber,
                 checkDisabledElementWithTabIndex ln lineNumber,
                 checkTabIndexOnHiddenElement ln lineNumber,
                 checkMissingTabIndexOnModalTrigger ln lineNumber,
                 checkMissingTabIndexOnCustomFormControl ln lineNumber,
                 checkTabIndexOnDecorativeElement ln lineNumber,
                 checkInconsistentTabIndexUsage ln lineNumber,
                 checkTabIndexOnNonInteractiveElement ln lineNumber] []"

section \<open>FormElementsChecker\<close>

definition checkFormInputLabels :: "string \<Rightarrow> nat \<Rightarrow> AccessibilityIssue option" where
  "checkFormInputLabels ln lineNumber =
     (let trimmedLine = trim ln in
      if (str_includes trimmedLine ''<input'' \<or> str_includes trimmedLine ''<textarea''
          \<or> str_includes trimmedLine ''<select'')
         \<and> \<not> str_includes trimmedLine ''aria-label'' \<and> \<not> str_includes trimmedLine ''aria-labelledby''
         \<and> \<not> str_includes trimmedLine ''id='' \<and> \<not> str_includes trimmedLine ''placeholder=''
      then Some \<lparr>line = lineNumber + 1,
                 issue = ''Form input missing label, aria-label, or aria-labelledby'',
                 severity = ''HIGH'',
                 range = vscode_Range lineNumber 0 lineNumber (length ln)\<rparr>
      else None)"

definition checkFormLabels :: "string \<Rightarrow> nat \<Rightarrow> AccessibilityIssue option" where
  "checkFormLabels ln lineNumber =
     (let trimmedLine = trim ln in
      if str_includes trimmedLine ''<label'' \<and> \<not> str_includes trimmedLine ''for=''
      then Some \<lparr>line = lineNumber + 1,
                 issue = ''Label element missing for attribute'',
                 severity = ''MEDIUM'',
                 range = vscode_Range lineNumber 0 lineNumber (length ln)\<rparr>
      else None)"

definition checkFormElements :: "string \<Rightarrow> nat \<Rightarrow> AccessibilityIssue list" where
  "checkFormElements ln lineNumber =
     pushChecks [checkFormInputLabels ln lineNumber,
                 checkFormLabels ln lineNumber] []"

section \<open>OtherAccessibilityChecker\<close>

definition checkHeadingStructure :: "string \<Rightarrow> nat \<Rightarrow> string \<Rightarrow> AccessibilityIssue option" where
  "checkHeadingStructure ln lineNumber fullText =
     (let trimmedLine = trim ln in
      if str_includes trimmedLine ''<h1>'' \<or> str_includes trimmedLine ''<h2>''
         \<or> str_includes trimmedLine ''<h3>'' \<or> str_includes trimmedLine ''<h4>''
         \<or> str_includes trimmedLine ''<h5>'' \<or> str_includes trimmedLine ''<h6>''
      then (if str_includes trimmedLine ''<h1>'' \<and> \<not> str_includes fullText ''<h1>''
            then Some \<lparr>line = lineNumber + 1,
                       issue = ''Multiple h1 tags found - page should have only one h1'',
                       severity = ''MEDIUM'',
                       range = vscode_Range lineNumber 0 lineNumber (length ln)\<rparr>
            else None)
      else None)"

definition checkHtmlLangAttribute_other :: "string \<Rightarrow> nat \<Rightarrow> AccessibilityIssue option" where
  "checkHtmlLangAttribute_other ln lineNumber =
     (let trimmedLine = trim ln in
      if str_includes trimmedLine ''<html'' \<and> \<not> str_includes trimmedLine ''lang=''
      then Some \<lparr>line = lineNumber + 1,
                 issue = ''Missing lang attribute on html tag'',
                 severity = ''HIGH'',
                 range = vscode_Range lineNumber 0 lineNumber (length ln)\<rparr>
      else None)"

definition checkKeyboardAccessibility_other :: "string \<Rightarrow> nat \<Rightarrow> AccessibilityIssue option" where
  "checkKeyboardAccessibility_other ln lineNumber =
     (let trimmedLine = trim ln in
      if (str_includes trimmedLine ''<div'' \<or> str_includes trimmedLine ''<span'')
         \<and> str_includes trimmedLine ''onclick'' \<and> \<not> str_includes trimmedLine ''tabindex''
         \<and> \<not> str_includes trimmedLine ''role=''
      then Some \<lparr>line = lineNumber + 1,
                 issue = ''Clickable div/span without keyboard accessibility - add tabindex and role'',
                 severity = ''HIGH'',
                 range = vscode_Range lineNumber 0 lineNumber (length ln)\<rparr>
      else None)"

definition checkColorOnlyInformation_other :: "string \<Rightarrow> nat \<Rightarrow> AccessibilityIssue option" where
  "checkColorOnlyInformation_other ln lineNumber =
     (let trimmedLine = trim ln in
      if str_includes trimmedLine ''color:'' \<or> str_includes trimmedLine ''background-color:''
      then Some \<lparr>line = lineNumber + 1,
                 issue = ''Color styling detected - ensure information is not conveyed by color alone'',
                 severity = ''LOW'',
                 range = vscode_Range lineNumber 0 lineNumber (length ln)\<rparr>
      else None)"

definition checkFocusIndicators :: "string \<Rightarrow> nat \<Rightarrow> AccessibilityIssue option" where
  "checkFocusIndicators ln lineNumber =
     (let trimmedLine = trim ln in
      if str_includes trimmedLine '':focus'' \<and> str_includes trimmedLine ''outline: none''
      then Some \<lparr>line = lineNumber + 1,
                 issue = ''Focus outline removed without alternative focus indicator'',
                 severity = ''HIGH'',
                 range = vscode_Range lineNumber 0 lineNumber (length ln)\<rparr>
      else None)"

definition checkOtherAccessibility :: "string \<Rightarrow> nat \<Rightarrow> string \<Rightarrow> AccessibilityIssue list" where
  "checkOtherAccessibility ln lineNumber fullText =
     pushChecks [checkHeadingStructure ln lineNumber fullText,
                 checkHtmlLangAttribute_other ln lineNumber,
                 checkKeyboardAccessibility_other ln lineNumber,
                 checkColorOnlyInformation_other ln lineNumber,
                 checkFocusIndicators ln lineNumber] []"

section \<open>SemanticHtmlChecker\<close>

text \<open>
  \<open>parseInt\<close> on decimal text: leading white space, an optional sign, then the
  longest run of digits; \<open>None\<close> is NaN. (The source passes it the one character matched
  by \<open>[1-6]\<close>, so a radix prefix cannot occur.)
\<close>

definition isDigit :: "char \<Rightarrow> bool" where
  "isDigit c = inRange (CHR ''0'') (CHR ''9'') c"

definition digitsValue :: "string \<Rightarrow> nat" where
  "digitsValue ds = foldl (\<lambda>acc c. 10 * acc + (of_char c - 48)) 0 ds"

definition parseInt :: "string \<Rightarrow> int option" where
  "parseInt s =
     (let t = dropWhile isWhiteSpace s;
          neg = (case t of [] \<Rightarrow> False | c # cs \<Rightarrow> c = CHR ''-'');
          u = (case t of [] \<Rightarrow> [] | c # cs \<Rightarrow> if c = CHR ''-'' \<or> c = CHR ''+'' then cs else t);
          ds = takeWhile isDigit u
      in if ds = [] then None
         else Some (if neg then - int (digitsValue ds) else int (digitsValue ds)))"

fun show_nat :: "nat \<Rightarrow> string" where
  "show_nat n =
     (if n < 10 then [char_of (48 + n)]
      else show_nat (n div 10) @ [char_of (48 + n mod 10)])"

definition show_int :: "int \<Rightarrow> string" where
  "show_int i = (if i < 0 then ''-'' @ show_nat (nat (- i)) else show_nat (nat i))"

text \<open>\<open>/<h1[^>]*>/g\<close>\<close>

definition re_h1_open :: RegExp where
  "re_h1_open =
     \<lparr>pieces = lits ''<h1'' @ [Star (NotClass [CChar (CHR ''>'')]), One (Lit (CHR ''>''))],
      ignoreCase = False\<rparr>"

text \<open>\<open>/<h([1-6])[^>]*>/\<close>\<close>

definition re_heading :: RegExp where
  "re_heading =
     \<lparr>pieces = lits ''<h'' @ [GroupOpen, One (Class [CRange (CHR ''1'') (CHR ''6'')]), GroupClose,
                 Star (NotClass [CChar (CHR ''>'')]), One (Lit (CHR ''>''))],
      ignoreCase = False\<rparr>"

text \<open>\<open>/<button[^>]*>.*<\/button>/\<close>\<close>

definition re_button_element :: RegExp where
  "re_button_element =
     \<lparr>pieces = lits ''<button'' @ [Star (NotClass [CChar (CHR ''>'')]), One (Lit (CHR ''>'')),
                 Star AnyChar] @ lits ''</button>'',
      ignoreCase = False\<rparr>"

text \<open>\<open>/<a[^>]*>.*<\/a>/\<close>\<close>

definition re_link_element :: RegExp where
  "re_link_element =
     \<lparr>pieces = lits ''<a'' @ [Star (NotClass [CChar (CHR ''>'')]), One (Lit (CHR ''>'')),
                 Star AnyChar] @ lits ''</a>'',
      ignoreCase = False\<rparr>"

text \<open>
  The arrow U+2192 in the heading message lies outside the 8-bit range; it is written
  as its three UTF-8 bytes. Nothing in the program reads the message back.
\<close>

definition arrow :: string where
  "arrow = [CHR 0xE2, CHR 0x86, CHR 0x92]"

definition checkHeadingHierarchy :: "string \<Rightarrow> nat \<Rightarrow> string \<Rightarrow> AccessibilityIssue option" where
  "checkHeadingHierarchy ln lineNumber fullText =
     (let trimmedLine = trim ln;
          multipleH1 =
            (if str_includes trimmedLine ''<h1>''
             then (let h1Count = str_match_global_length fullText re_h1_open in
                   if 1 < h1Count
                   then Some \<lparr>line = lineNumber + 1,
                              issue = ''Multiple h1 tags found - page should have only one h1 for proper document structure'',
                              severity = ''HIGH'',
                              range = vscode_Range lineNumber 0 lineNumber (length ln)\<rparr>
                   else None)
             else None)
      in case multipleH1 of
           Some found \<Rightarrow> Some found
         | None \<Rightarrow>
             (case str_match trimmedLine re_heading of
                None \<Rightarrow> None
              | Some headingMatch \<Rightarrow>
                  (case parseInt (headingMatch ! 1) of
                     None \<Rightarrow> None
                   | Some currentLevel \<Rightarrow>
                       if 1 < currentLevel
                       then Some \<lparr>line = lineNumber + 1,
                                  issue = ''Heading h'' @ show_int currentLevel
                                          @ '' detected - ensure proper heading hierarchy (h1 '' @ arrow
                                          @ '' h2 '' @ arrow @ '' h3, etc.)'',
                                  severity = ''MEDIUM'',
                                  range = vscode_Range lineNumber 0 lineNumber (length ln)\<rparr>
                       else None)))"

definition checkHtmlLangAttribute :: "string \<Rightarrow> nat \<Rightarrow> AccessibilityIssue option" where
  "checkHtmlLangAttribute ln lineNumber =
     (let trimmedLine = trim ln in
      if str_includes trimmedLine ''<html'' \<and> \<not> str_includes trimmedLine ''lang=''
      then Some \<lparr>line = lineNumber + 1,
                 issue = ''Missing lang attribute on html tag - required for screen readers and language detection'',
                 severity = ''HIGH'',
                 range = vscode_Range lineNumber 0 lineNumber (length ln)\<rparr>
      else None)"

definition checkListStructure :: "string \<Rightarrow> nat \<Rightarrow> AccessibilityIssue option" where
  "checkListStructure ln lineNumber =
     (let trimmedLine = trim ln in
      if str_includes trimmedLine ''<li>'' \<and> \<not> str_includes trimmedLine ''<ul''
         \<and> \<not> str_includes trimmedLine ''<ol''
      then Some \<lparr>line = lineNumber + 1,
                 issue = ''List item (li) found without proper list container (ul/ol)'',
                 severity = ''HIGH'',
                 range = vscode_Range lineNumber 0 lineNumber (length ln)\<rparr>
      else if str_includes trimmedLine ''<ul'' \<and> str_includes trimmedLine ''<ol''
      then Some \<lparr>line = lineNumber + 1,
                 issue = ''Mixed list types (ul and ol) in same line - ensure proper nesting'',
                 severity = ''MEDIUM'',
                 range = vscode_Range lineNumber 0 lineNumber (length ln)\<rparr>
      else None)"

definition checkTableStructure :: "string \<Rightarrow> nat \<Rightarrow> AccessibilityIssue option" where
  "checkTableStructure ln lineNumber =
     (let trimmedLine = trim ln in
      if str_includes trimmedLine ''<td>'' \<and> \<not> str_includes trimmedLine ''<table''
         \<and> \<not> str_includes trimmedLine ''<tr''
      then Some \<lparr>line = lineNumber + 1,
                 issue = ''Table cell (td) found without proper table structure (table > tr > td)'',
                 severity = ''HIGH'',
                 range = vscode_Range lineNumber 0 lineNumber (length ln)\<rparr>
      else if str_includes trimmedLine ''<th>'' \<and> \<not> str_includes trimmedLine ''<table''
              \<and> \<not> str_includes trimmedLine ''<tr''
      then Some \<lparr>line = lineNumber + 1,
                 issue = ''Table header (th) found without proper table structure (table > tr > th)'',
                 severity = ''HIGH'',
                 range = vscode_Range lineNumber 0 lineNumber (length ln)\<rparr>
      else if str_includes trimmedLine ''<table'' \<and> \<not> str_includes trimmedLine ''caption''
              \<and> \<not> str_includes trimmedLine ''summary''
      then Some \<lparr>line = lineNumber + 1,
                 issue = ''Table missing caption or summary - add caption for table description'',
                 severity = ''MEDIUM'',
                 range = vscode_Range lineNumber 0 lineNumber (length ln)\<rparr>
      else None)"

definition checkFormStructure :: "string \<Rightarrow> nat \<Rightarrow> AccessibilityIssue option" where
  "checkFormStructure ln lineNumber =
     (let trimmedLine = trim ln in
      if (str_includes trimmedLine ''<input'' \<or> str_includes trimmedLine ''<select''
          \<or> str_includes trimmedLine ''<textarea'')
         \<and> \<not> str_includes trimmedLine ''aria-label'' \<and> \<not> str_includes trimmedLine ''aria-labelledby''
         \<and> \<not> str_includes trimmedLine ''<label''
      then Some \<lparr>line = lineNumber + 1,
                 issue = ''Form control missing label - add label, aria-label, or aria-labelledby'',
                 severity = ''HIGH'',
                 range = vscode_Range lineNumber 0 lineNumber (length ln)\<rparr>
      else if str_includes trimmedLine ''<fieldset'' \<and> \<not> str_includes trimmedLine ''<legend''
      then Some \<lparr>line = lineNumber + 1,
                 issue = ''Fieldset missing legend - add legend to describe fieldset purpose'',
                 severity = ''HIGH'',
                 range = vscode_Range lineNumber 0 lineNumber (length ln)\<rparr>
      else None)"

definition checkButtonUsage :: "string \<Rightarrow> nat \<Rightarrow> AccessibilityIssue option" where
  \<open>checkButtonUsage ln lineNumber =
     (let trimmedLine = trim ln in
      if (str_includes trimmedLine ''<div'' \<or> str_includes trimmedLine ''<span'')
         \<and> str_includes trimmedLine ''onclick'' \<and> \<not> str_includes trimmedLine ''role="button"''
      then Some \<lparr>line = lineNumber + 1,
                 issue = ''Use semantic button element instead of div/span with onclick for better accessibility'',
                 severity = ''HIGH'',
                 range = vscode_Range lineNumber 0 lineNumber (length ln)\<rparr>
      else if str_includes trimmedLine ''<button''
              \<and> \<not> str_includes trimmedLine ''aria-label''
              \<and> \<not> str_includes trimmedLine ''aria-labelledby''
              \<and> str_match trimmedLine re_button_element = None
      then Some \<lparr>line = lineNumber + 1,
                 issue = ''Button missing accessible text - add text content or aria-label'',
                 severity = ''HIGH'',
                 range = vscode_Range lineNumber 0 lineNumber (length ln)\<rparr>
      else None)\<close>

definition checkLinkUsage :: "string \<Rightarrow> nat \<Rightarrow> AccessibilityIssue option" where
  \<open>checkLinkUsage ln lineNumber =
     (let trimmedLine = trim ln in
      if str_includes trimmedLine ''<a''
         \<and> \<not> str_includes trimmedLine ''aria-label''
         \<and> \<not> str_includes trimmedLine ''aria-labelledby''
         \<and> str_match trimmedLine re_link_element = None
      then Some \<lparr>line = lineNumber + 1,
                 issue = ''Link missing accessible text - add text content or aria-label'',
                 severity = ''HIGH'',
                 range = vscode_Range lineNumber 0 lineNumber (length ln)\<rparr>
      else if str_includes trimmedLine ''<a''
              \<and> (str_includes trimmedLine ''>click here<'' \<or> str_includes trimmedLine ''>read more<''
                   \<or> str_includes trimmedLine ''>here<'' \<or> str_includes trimmedLine ''>more<'')
      then Some \<lparr>line = lineNumber + 1,
                 issue = ''Link text is not descriptive - use meaningful link text instead of "click here" or "read more"'',
                 severity = ''MEDIUM'',
                 range = vscode_Range lineNumber 0 lineNumber (length ln)\<rparr>
      else None)\<close>

definition checkLandmarkUsage :: "string \<Rightarrow> nat \<Rightarrow> AccessibilityIssue option" where
  \<open>checkLandmarkUsage ln lineNumber =
     (let trimmedLine = trim ln in
      if str_includes trimmedLine ''<body'' \<and> \<not> str_includes trimmedLine ''role="main"''
         \<and> \<not> str_includes trimmedLine ''<main''
      then Some \<lparr>line = lineNumber + 1,
                 issue = ''Page missing main landmark - add <main> or role="main" for primary content'',
                 severity = ''MEDIUM'',
                 range = vscode_Range lineNumber 0 lineNumber (length ln)\<rparr>
      else if str_includes trimmedLine ''<main'' \<or> str_includes trimmedLine ''role="main"''
      then Some \<lparr>line = lineNumber + 1,
                 issue = ''Main landmark detected - ensure only one main landmark per page'',
                 severity = ''MEDIUM'',
                 range = vscode_Range lineNumber 0 lineNumber (length ln)\<rparr>
      else None)\<close>

definition checkSectioningElements :: "string \<Rightarrow> nat \<Rightarrow> AccessibilityIssue option" where
  "checkSectioningElements ln lineNumber =
     (let trimmedLine = trim ln in
      if (str_includes trimmedLine ''<section'' \<or> str_includes trimmedLine ''<article'')
         \<and> \<not> str_includes trimmedLine ''<h1'' \<and> \<not> str_includes trimmedLine ''<h2''
         \<and> \<not> str_includes trimmedLine ''<h3'' \<and> \<not> str_includes trimmedLine ''<h4''
         \<and> \<not> str_includes trimmedLine ''<h5'' \<and> \<not> str_includes trimmedLine ''<h6''
      then Some \<lparr>line = lineNumber + 1,
                 issue = ''Section/article should have a heading to describe its purpose'',
                 severity = ''MEDIUM'',
                 range = vscode_Range lineNumber 0 lineNumber (length ln)\<rparr>
      else None)"

definition checkNavigationStructure :: "string \<Rightarrow> nat \<Rightarrow> AccessibilityIssue option" where
  "checkNavigationStructure ln lineNumber =
     (let trimmedLine = trim ln in
      if str_includes trimmedLine ''<nav'' \<and> \<not> str_includes trimmedLine ''<ul''
         \<and> \<not> str_includes trimmedLine ''<ol''
      then Some \<lparr>line = lineNumber + 1,
                 issue = ''Navigation should use list structure (ul/ol) for better screen reader support'',
                 severity = ''MEDIUM'',
                 range = vscode_Range lineNumber 0 lineNumber (length ln)\<rparr>
      else None)"

definition checkDocumentStructure :: "string \<Rightarrow> nat \<Rightarrow> string \<Rightarrow> AccessibilityIssue option" where
  "checkDocumentStructure ln lineNumber fullText =
     (let trimmedLine = trim ln in
      if str_includes trimmedLine ''<head'' \<and> \<not> str_includes fullText ''<title>''
      then Some \<lparr>line = lineNumber + 1,
                 issue = ''Document missing title element - add <title> for page identification'',
                 severity = ''HIGH'',
                 range = vscode_Range lineNumber 0 lineNumber (length ln)\<rparr>
      else if str_includes trimmedLine ''<head'' \<and> \<not> str_includes fullText ''viewport''
      then Some \<lparr>line = lineNumber + 1,
                 issue = ''Missing viewport meta tag - add for responsive design and mobile accessibility'',
                 severity = ''MEDIUM'',
                 range = vscode_Range lineNumber 0 lineNumber (length ln)\<rparr>
      else None)"

definition checkSemanticHtml :: "string \<Rightarrow> nat \<Rightarrow> string \<Rightarrow> AccessibilityIssue list" where
  "checkSemanticHtml ln lineNumber fullText =
     pushChecks [checkHeadingHierarchy ln lineNumber fullText,
                 checkHtmlLangAttribute ln lineNumber,
                 checkListStructure ln lineNumber,
                 checkTableStructure ln lineNumber,
                 checkFormStructure ln lineNumber,
                 checkButtonUsage ln lineNumber,
                 checkLinkUsage ln lineNumber,
                 checkLandmarkUsage ln lineNumber,
                 checkSectioningElements ln lineNumber,
                 checkNavigationStructure ln lineNumber,
                 checkDocumentStructure ln lineNumber fullText] []"

section \<open>KeyboardNavigationChecker\<close>

text \<open>
  The families from here to the colour contrast checker are not called by the
  aggregator; they are detectors of the same shape. Where two classes of the source use
  one method name, the detector of \<open>OtherAccessibilityChecker\<close> carries the suffix
  \<open>_other\<close>.
\<close>

definition checkKeyboardAccessibility :: "string \<Rightarrow> nat \<Rightarrow> AccessibilityIssue option" where
  "checkKeyboardAccessibility ln lineNumber =
     (let trimmedLine = trim ln in
      if (str_includes trimmedLine ''<div'' \<or> str_includes trimmedLine ''<span'')
         \<and> str_includes trimmedLine ''onclick''
         \<and> \<not> str_includes trimmedLine ''onkeydown''
         \<and> \<not> str_includes trimmedLine ''onkeyup''
         \<and> \<not> str_includes trimmedLine ''onkeypress''
         \<and> \<not> str_includes trimmedLine ''tabindex=''
      then Some \<lparr>line = lineNumber + 1,
                 issue = ''Clickable element missing keyboard support - add onkeydown/onkeyup handlers or use semantic button element'',
                 severity = ''HIGH'',
                 range = vscode_Range lineNumber 0 lineNumber (length ln)\<rparr>
      else None)"

definition checkKeyboardTrap :: "string \<Rightarrow> nat \<Rightarrow> AccessibilityIssue option" where
  \<open>checkKeyboardTrap ln lineNumber =
     (let trimmedLine = trim ln in
      if str_includes trimmedLine ''tabindex=''
         \<and> (str_includes trimmedLine ''tabindex="0"''
              \<or> str_includes trimmedLine (''tabindex='' @ [sq, CHR ''0'', sq]))
      then (if str_includes trimmedLine ''role="dialog"'' \<or> str_includes trimmedLine ''role="alertdialog"''
               \<or> str_includes trimmedLine ''modal'' \<or> str_includes trimmedLine ''popup''
            then Some \<lparr>line = lineNumber + 1,
                       issue = ''Modal/dialog element detected - ensure keyboard trap is properly managed with Escape key'',
                       severity = ''HIGH'',
                       range = vscode_Range lineNumber 0 lineNumber (length ln)\<rparr>
            else None)
      else None)\<close>

definition checkMissingKeyboardHandlers :: "string \<Rightarrow> nat \<Rightarrow> AccessibilityIssue option" where
  "checkMissingKeyboardHandlers ln lineNumber =
     (let trimmedLine = trim ln in
      if str_includes trimmedLine ''onclick''
         \<and> \<not> str_includes trimmedLine ''onkeydown''
         \<and> \<not> str_includes trimmedLine ''onkeyup''
         \<and> \<not> str_includes trimmedLine ''onkeypress''
         \<and> (str_includes trimmedLine ''<div'' \<or> str_includes trimmedLine ''<span'')
      then Some \<lparr>line = lineNumber + 1,
                 issue = ''Interactive element missing keyboard event handlers - add onkeydown/onkeyup for accessibility'',
                 severity = ''HIGH'',
                 range = vscode_Range lineNumber 0 lineNumber (length ln)\<rparr>
      else None)"

definition checkKeyboardNavigationOrder :: "string \<Rightarrow> nat \<Rightarrow> AccessibilityIssue option" where
  \<open>checkKeyboardNavigationOrder ln lineNumber =
     (let trimmedLine = trim ln in
      case str_match trimmedLine re_positive_tabindex of
        None \<Rightarrow> None
      | Some positiveTabIndexMatch \<Rightarrow>
          (let tabIndexValue = positiveTabIndexMatch ! 1 in
           Some \<lparr>line = lineNumber + 1,
                 issue = ''Positive tabindex="'' @ tabIndexValue @ ''" disrupts natural keyboard navigation order - use tabindex="0" or negative values'',
                 severity = ''HIGH'',
                 range = vscode_Range lineNumber 0 lineNumber (length ln)\<rparr>))\<close>

definition checkMissingSkipLinks :: "string \<Rightarrow> nat \<Rightarrow> string \<Rightarrow> AccessibilityIssue option" where
  "checkMissingSkipLinks ln lineNumber fullText =
     (let trimmedLine = trim ln in
      if str_includes trimmedLine ''<body'' \<and> \<not> str_includes fullText ''skip''
         \<and> \<not> str_includes fullText ''skip-link''
      then Some \<lparr>line = lineNumber + 1,
                 issue = ''Page missing skip links - add skip links for keyboard navigation to main content'',
                 severity = ''MEDIUM'',
                 range = vscode_Range lineNumber 0 lineNumber (length ln)\<rparr>
      else None)"

definition checkKeyboardShortcuts :: "string \<Rightarrow> nat \<Rightarrow> AccessibilityIssue option" where
  "checkKeyboardShortcuts ln lineNumber =
     (let trimmedLine = trim ln in
      if str_includes trimmedLine ''onkeydown''
         \<and> (str_includes trimmedLine ''keyCode'' \<or> str_includes trimmedLine ''key''
              \<or> str_includes trimmedLine ''which'')
      then Some \<lparr>line = lineNumber + 1,
                 issue = ''Keyboard shortcut detected - ensure users can turn off or remap shortcuts'',
                 severity = ''MEDIUM'',
                 range = vscode_Range lineNumber 0 lineNumber (length ln)\<rparr>
      else None)"

definition checkAriaKeyboardNavigation :: "string \<Rightarrow> nat \<Rightarrow> AccessibilityIssue option" where
  \<open>checkAriaKeyboardNavigation ln lineNumber =
     (let trimmedLine = trim ln in
      if str_includes trimmedLine ''role=''
         \<and> (str_includes trimmedLine ''role="menu"'' \<or> str_includes trimmedLine ''role="menubar"''
              \<or> str_includes trimmedLine ''role="tablist"'' \<or> str_includes trimmedLine ''role="grid"'')
      then (if \<not> str_includes trimmedLine ''tabindex='' \<and> \<not> str_includes trimmedLine ''onkeydown''
            then Some \<lparr>line = lineNumber + 1,
                       issue = ''ARIA role requires keyboard navigation - add proper keyboard event handlers'',
                       severity = ''HIGH'',
                       range = vscode_Range lineNumber 0 lineNumber (length ln)\<rparr>
            else None)
      else None)\<close>

definition checkFormKeyboardNavigation :: "string \<Rightarrow> nat \<Rightarrow> AccessibilityIssue option" where
  "checkFormKeyboardNavigation ln lineNumber =
     (let trimmedLine = trim ln in
      if (str_includes trimmedLine ''<select'' \<or> str_includes trimmedLine ''<input'')
         \<and> \<not> str_includes trimmedLine ''tabindex=''
         \<and> \<not> str_includes trimmedLine ''disabled''
      then Some \<lparr>line = lineNumber + 1,
                 issue = ''Form element should be keyboard accessible - ensure proper tabindex and keyboard support'',
                 severity = ''MEDIUM'',
                 range = vscode_Range lineNumber 0 lineNumber (length ln)\<rparr>
      else None)"

definition checkKeyboardNavigation :: "string \<Rightarrow> nat \<Rightarrow> string \<Rightarrow> AccessibilityIssue list" where
  "checkKeyboardNavigation ln lineNumber fullText =
     pushChecks [checkKeyboardAccessibility ln lineNumber,
                 checkKeyboardTrap ln lineNumber,
                 checkMissingKeyboardHandlers ln lineNumber,
                 checkKeyboardNavigationOrder ln lineNumber,
                 checkMissingSkipLinks ln lineNumber fullText,
                 checkKeyboardShortcuts ln lineNumber,
                 checkAriaKeyboardNavigation ln lineNumber,
                 checkFormKeyboardNavigation ln lineNumber] []"

section \<open>FocusManagementChecker\<close>

definition checkFocusOrder :: "string \<Rightarrow> nat \<Rightarrow> AccessibilityIssue option" where
  \<open>checkFocusOrder ln lineNumber =
     (let trimmedLine = trim ln in
      case str_match trimmedLine re_positive_tabindex of
        None \<Rightarrow> None
      | Some positiveTabIndexMatch \<Rightarrow>
          (let tabIndexValue = positiveTabIndexMatch ! 1 in
           Some \<lparr>line = lineNumber + 1,
                 issue = ''Positive tabindex="'' @ tabIndexValue @ ''" disrupts natural focus order - use tabindex="0" or negative values'',
                 severity = ''HIGH'',
                 range = vscode_Range lineNumber 0 lineNumber (length ln)\<rparr>))\<close>

definition checkFocusTrap :: "string \<Rightarrow> nat \<Rightarrow> AccessibilityIssue option" where
  \<open>checkFocusTrap ln lineNumber =
     (let trimmedLine = trim ln in
      if str_includes trimmedLine ''role="dialog"'' \<or> str_includes trimmedLine ''role="alertdialog"''
         \<or> str_includes trimmedLine ''modal'' \<or> str_includes trimmedLine ''popup''
      then (if \<not> str_includes trimmedLine ''onkeydown'' \<and> \<not> str_includes trimmedLine ''onkeyup''
            then Some \<lparr>line = lineNumber + 1,
                       issue = ''Modal/dialog element missing focus trap management - add keyboard handlers for focus control'',
                       severity = ''HIGH'',
                       range = vscode_Range lineNumber 0 lineNumber (length ln)\<rparr>
            else None)
      else None)\<close>

definition checkMissingFocusIndicators :: "string \<Rightarrow> nat \<Rightarrow> AccessibilityIssue option" where
  "checkMissingFocusIndicators ln lineNumber =
     (let trimmedLine = trim ln in
      if str_includes trimmedLine '':focus''
         \<and> (str_includes trimmedLine ''outline: none'' \<or> str_includes trimmedLine ''outline: 0'')
      then Some \<lparr>line = lineNumber + 1,
                 issue = ''Focus outline removed - ensure alternative focus indicator is provided'',
                 severity = ''HIGH'',
                 range = vscode_Range lineNumber 0 lineNumber (length ln)\<rparr>
      else None)"

definition checkDynamicFocusManagement :: "string \<Rightarrow> nat \<Rightarrow> AccessibilityIssue option" where
  "checkDynamicFocusManagement ln lineNumber =
     (let trimmedLine = trim ln in
      if str_includes trimmedLine ''innerHTML'' \<or> str_includes trimmedLine ''appendChild''
         \<or> str_includes trimmedLine ''insertBefore'' \<or> str_includes trimmedLine ''replaceChild''
      then Some \<lparr>line = lineNumber + 1,
                 issue = ''Dynamic content manipulation detected - ensure focus management when content changes'',
                 severity = ''MEDIUM'',
                 range = vscode_Range lineNumber 0 lineNumber (length ln)\<rparr>
      else None)"

definition checkAriaFocusManagement :: "string \<Rightarrow> nat \<Rightarrow> AccessibilityIssue option" where
  \<open>checkAriaFocusManagement ln lineNumber =
     (let trimmedLine = trim ln in
      if str_includes trimmedLine ''role=''
         \<and> (str_includes trimmedLine ''role="menu"'' \<or> str_includes trimmedLine ''role="menubar"''
              \<or> str_includes trimmedLine ''role="tablist"'' \<or> str_includes trimmedLine ''role="grid"''
              \<or> str_includes trimmedLine ''role="tree"'' \<or> str_includes trimmedLine ''role="listbox"'')
      then (if \<not> str_includes trimmedLine ''aria-activedescendant''
               \<and> \<not> str_includes trimmedLine ''tabindex=''
            then Some \<lparr>line = lineNumber + 1,
                       issue = ''ARIA component missing focus management - add aria-activedescendant or proper tabindex'',
                       severity = ''HIGH'',
                       range = vscode_Range lineNumber 0 lineNumber (length ln)\<rparr>
            else None)
      else None)\<close>

definition checkFormFocusManagement :: "string \<Rightarrow> nat \<Rightarrow> AccessibilityIssue option" where
  "checkFormFocusManagement ln lineNumber =
     (let trimmedLine = trim ln in
      if (str_includes trimmedLine ''<input'' \<or> str_includes trimmedLine ''<select''
          \<or> str_includes trimmedLine ''<textarea'')
         \<and> (str_includes trimmedLine ''error'' \<or> str_includes trimmedLine ''invalid''
              \<or> str_includes trimmedLine ''required'')
      then (if \<not> str_includes trimmedLine ''aria-invalid''
               \<and> \<not> str_includes trimmedLine ''aria-describedby''
            then Some \<lparr>line = lineNumber + 1,
                       issue = ''Form validation missing focus management - add aria-invalid and aria-describedby for error states'',
                       severity = ''MEDIUM'',
                       range = vscode_Range lineNumber 0 lineNumber (length ln)\<rparr>
            else None)
      else None)"

definition checkSPAFocusManagement :: "string \<Rightarrow> nat \<Rightarrow> AccessibilityIssue option" where
  "checkSPAFocusManagement ln lineNumber =
     (let trimmedLine = trim ln in
      if str_includes trimmedLine ''router'' \<or> str_includes trimmedLine ''navigate''
         \<or> str_includes trimmedLine ''history.pushState''
         \<or> str_includes trimmedLine ''history.replaceState''
      then Some \<lparr>line = lineNumber + 1,
                 issue = ''SPA navigation detected - ensure focus management when route changes'',
                 severity = ''MEDIUM'',
                 range = vscode_Range lineNumber 0 lineNumber (length ln)\<rparr>
      else None)"

definition checkCollapsibleFocusManagement :: "string \<Rightarrow> nat \<Rightarrow> AccessibilityIssue option" where
  "checkCollapsibleFocusManagement ln lineNumber =
     (let trimmedLine = trim ln in
      if str_includes trimmedLine ''aria-expanded'' \<or> str_includes trimmedLine ''collapsible''
         \<or> str_includes trimmedLine ''accordion'' \<or> str_includes trimmedLine ''dropdown''
      then (if \<not> str_includes trimmedLine ''onkeydown'' \<and> \<not> str_includes trimmedLine ''onkeyup''
            then Some \<lparr>line = lineNumber + 1,
                       issue = ''Collapsible content missing keyboard focus management - add keyboard handlers'',
                       severity = ''MEDIUM'',
                       range = vscode_Range lineNumber 0 lineNumber (length ln)\<rparr>
            else None)
      else None)"

definition checkTableFocusManagement :: "string \<Rightarrow> nat \<Rightarrow> AccessibilityIssue option" where
  "checkTableFocusManagement ln lineNumber =
     (let trimmedLine = trim ln in
      if str_includes trimmedLine ''<table''
         \<and> (str_includes trimmedLine ''sortable'' \<or> str_includes trimmedLine ''filterable''
              \<or> str_includes trimmedLine ''editable'' \<or> str_includes trimmedLine ''selectable'')
      then (if \<not> str_includes trimmedLine ''role='' \<and> \<not> str_includes trimmedLine ''tabindex=''
            then Some \<lparr>line = lineNumber + 1,
                       issue = ''Interactive table missing focus management - add proper ARIA roles and tabindex'',
                       severity = ''MEDIUM'',
                       range = vscode_Range lineNumber 0 lineNumber (length ln)\<rparr>
            else None)
      else None)"

definition checkFocusManagement :: "string \<Rightarrow> nat \<Rightarrow> AccessibilityIssue list" where
  "checkFocusManagement ln lineNumber =
     pushChecks [checkFocusOrder ln lineNumber,
                 checkFocusTrap ln lineNumber,
                 checkMissingFocusIndicators ln lineNumber,
                 checkDynamicFocusManagement ln lineNumber,
                 checkAriaFocusManagement ln lineNumber,
                 checkFormFocusManagement ln lineNumber,
                 checkSPAFocusManagement ln lineNumber,
                 checkCollapsibleFocusManagement ln lineNumber,
                 checkTableFocusManagement ln lineNumber] []"

section \<open>LabelNameConsistencyChecker\<close>

text \<open>\<open>/aria-label=["']([^"']+)["']/\<close>\<close>

definition re_aria_label :: RegExp where
  "re_aria_label =
     \<lparr>pieces = lits ''aria-label='' @ [quoteChar, GroupOpen, notQuotePlus, GroupClose, quoteChar],
      ignoreCase = False\<rparr>"

definition checkLabelNameConsistencyIssue :: "string \<Rightarrow> nat \<Rightarrow> AccessibilityIssue option" where
  "checkLabelNameConsistencyIssue ln lineNumber =
     (let trimmedLine = trim ln in
      if str_includes trimmedLine ''aria-label=''
         \<and> (str_includes trimmedLine ''<button'' \<or> str_includes trimmedLine ''<a''
              \<or> str_includes trimmedLine ''<input'')
      then (let visibleText =
                  (if str_includes trimmedLine ''<button''
                   then (case str_match trimmedLine re_button_content of
                           None \<Rightarrow> []
                         | Some buttonMatch \<Rightarrow> trim (buttonMatch ! 1))
                   else if str_includes trimmedLine ''<a''
                   then (case str_match trimmedLine re_link_content of
                           None \<Rightarrow> []
                         | Some linkMatch \<Rightarrow> trim (linkMatch ! 1))
                   else [])
            in case str_match trimmedLine re_aria_label of
                 None \<Rightarrow> None
               | Some ariaLabelMatch \<Rightarrow>
                   if visibleText \<noteq> []
                   then (let ariaLabelValue = trim (ariaLabelMatch ! 1) in
                         if \<not> str_includes (toLowerCase ariaLabelValue) (toLowerCase visibleText)
                            \<and> \<not> str_includes (toLowerCase visibleText) (toLowerCase ariaLabelValue)
                         then Some \<lparr>line = lineNumber + 1,
                                    issue = ''Label-name inconsistency - aria-label should contain the visible text or be consistent with it'',
                                    severity = ''HIGH'',
                                    range = vscode_Range lineNumber 0 lineNumber (length ln)\<rparr>
                         else None)
                   else None)
      else None)"

definition checkMissingAccessibleNames :: "string \<Rightarrow> nat \<Rightarrow> AccessibilityIssue option" where
  "checkMissingAccessibleNames ln lineNumber =
     (let trimmedLine = trim ln in
      if (str_includes trimmedLine ''<button'' \<or> str_includes trimmedLine ''<a''
          \<or> str_includes trimmedLine ''<input'')
         \<and> \<not> str_includes trimmedLine ''aria-label'' \<and> \<not> str_includes trimmedLine ''aria-labelledby''
         \<and> \<not> str_includes trimmedLine ''title=''
      then (let hasVisibleText =
                  (if str_includes trimmedLine ''<button''
                   then (case str_match trimmedLine re_button_content of
                           None \<Rightarrow> False
                         | Some buttonMatch \<Rightarrow> 0 < length (trim (buttonMatch ! 1)))
                   else if str_includes trimmedLine ''<a''
                   then (case str_match trimmedLine re_link_content of
                           None \<Rightarrow> False
                         | Some linkMatch \<Rightarrow> 0 < length (trim (linkMatch ! 1)))
                   else False)
            in if \<not> hasVisibleText
               then Some \<lparr>line = lineNumber + 1,
                          issue = ''Interactive element missing accessible name - add aria-label, aria-labelledby, or visible text'',
                          severity = ''HIGH'',
                          range = vscode_Range lineNumber 0 lineNumber (length ln)\<rparr>
               else None)
      else None)"

definition checkRedundantAccessibleNames :: "string \<Rightarrow> nat \<Rightarrow> AccessibilityIssue option" where
  "checkRedundantAccessibleNames ln lineNumber =
     (let trimmedLine = trim ln in
      if str_includes trimmedLine ''aria-label=''
         \<and> (str_includes trimmedLine ''<button'' \<or> str_includes trimmedLine ''<a'')
      then (let visibleText =
                  (if str_includes trimmedLine ''<button''
                   then (case str_match trimmedLine re_button_content of
                           None \<Rightarrow> []
                         | Some buttonMatch \<Rightarrow> trim (buttonMatch ! 1))
                   else if str_includes trimmedLine ''<a''
                   then (case str_match trimmedLine re_link_content of
                           None \<Rightarrow> []
                         | Some linkMatch \<Rightarrow> trim (linkMatch ! 1))
                   else [])
            in case str_match trimmedLine re_aria_label of
                 None \<Rightarrow> None
               | Some ariaLabelMatch \<Rightarrow>
                   if visibleText \<noteq> []
                   then (let ariaLabelValue = trim (ariaLabelMatch ! 1) in
                         if toLowerCase ariaLabelValue = toLowerCase visibleText
                         then Some \<lparr>line = lineNumber + 1,
                                    issue = ''Redundant accessible name - aria-label is identical to visible text'',
                                    severity = ''MEDIUM'',
                                    range = vscode_Range lineNumber 0 lineNumber (length ln)\<rparr>
                         else None)
                   else None)
      else None)"

definition checkConflictingAccessibleNames :: "string \<Rightarrow> nat \<Rightarrow> AccessibilityIssue option" where
  "checkConflictingAccessibleNames ln lineNumber =
     (let trimmedLine = trim ln in
      if str_includes trimmedLine ''aria-label='' \<and> str_includes trimmedLine ''aria-labelledby=''
      then Some \<lparr>line = lineNumber + 1,
                 issue = ''Conflicting accessible names - element has both aria-label and aria-labelledby'',
                 severity = ''HIGH'',
                 range = vscode_Range lineNumber 0 lineNumber (length ln)\<rparr>
      else None)"

definition checkEmptyAccessibleNames :: "string \<Rightarrow> nat \<Rightarrow> AccessibilityIssue option" where
  "checkEmptyAccessibleNames ln lineNumber =
     (let trimmedLine = trim ln in
      if str_includes trimmedLine (''aria-label='' @ [dq, dq])
         \<or> str_includes trimmedLine (''aria-label='' @ [sq, sq])
         \<or> str_includes trimmedLine (''aria-label='' @ [dq, CHR '' '', dq])
         \<or> str_includes trimmedLine (''aria-label='' @ [sq, CHR '' '', sq])
      then Some \<lparr>line = lineNumber + 1,
                 issue = ''Empty accessible name - aria-label is empty or contains only whitespace'',
                 severity = ''HIGH'',
                 range = vscode_Range lineNumber 0 lineNumber (length ln)\<rparr>
      else None)"

definition checkAccessibleNamesOnNonInteractive :: "string \<Rightarrow> nat \<Rightarrow> AccessibilityIssue option" where
  "checkAccessibleNamesOnNonInteractive ln lineNumber =
     (let trimmedLine = trim ln in
      if str_includes trimmedLine ''aria-label=''
         \<and> (str_includes trimmedLine ''<div'' \<or> str_includes trimmedLine ''<span''
              \<or> str_includes trimmedLine ''<p'')
         \<and> \<not> str_includes trimmedLine ''role='' \<and> \<not> str_includes trimmedLine ''tabindex=''
      then Some \<lparr>line = lineNumber + 1,
                 issue = ''Non-interactive element with aria-label - add role attribute or use semantic element'',
                 severity = ''MEDIUM'',
                 range = vscode_Range lineNumber 0 lineNumber (length ln)\<rparr>
      else None)"

definition checkFormElementAccessibleNames :: "string \<Rightarrow> nat \<Rightarrow> AccessibilityIssue option" where
  "checkFormElementAccessibleNames ln lineNumber =
     (let trimmedLine = trim ln in
      if (str_includes trimmedLine ''<input'' \<or> str_includes trimmedLine ''<select''
          \<or> str_includes trimmedLine ''<textarea'')
         \<and> \<not> str_includes trimmedLine ''aria-label'' \<and> \<not> str_includes trimmedLine ''aria-labelledby''
         \<and> \<not> str_includes trimmedLine ''title='' \<and> \<not> str_includes trimmedLine ''placeholder=''
      then (if \<not> str_includes trimmedLine ''id='' \<or> \<not> str_includes trimmedLine ''for=''
            then Some \<lparr>line = lineNumber + 1,
                       issue = ''Form element missing accessible name - add label, aria-label, or aria-labelledby'',
                       severity = ''HIGH'',
                       range = vscode_Range lineNumber 0 lineNumber (length ln)\<rparr>
            else None)
      else None)"

definition checkCustomControlAccessibleNames :: "string \<Rightarrow> nat \<Rightarrow> AccessibilityIssue option" where
  \<open>checkCustomControlAccessibleNames ln lineNumber =
     (let trimmedLine = trim ln in
      if str_includes trimmedLine ''role=''
         \<and> (str_includes trimmedLine ''role="button"'' \<or> str_includes trimmedLine ''role="link"''
              \<or> str_includes trimmedLine ''role="menuitem"'' \<or> str_includes trimmedLine ''role="tab"''
              \<or> str_includes trimmedLine ''role="option"'' \<or> str_includes trimmedLine ''role="checkbox"'')
         \<and> \<not> str_includes trimmedLine ''aria-label'' \<and> \<not> str_includes trimmedLine ''aria-labelledby''
      then (let hasVisibleText =
                  (if str_includes trimmedLine ''>'' \<and> str_includes trimmedLine ''</''
                   then (case str_match trimmedLine re_text_between_tags of
                           None \<Rightarrow> False
                         | Some textMatch \<Rightarrow> 0 < length (trim (textMatch ! 1)))
                   else False)
            in if \<not> hasVisibleText
               then Some \<lparr>line = lineNumber + 1,
                          issue = ''Custom control missing accessible name - add aria-label, aria-labelledby, or visible text'',
                          severity = ''HIGH'',
                          range = vscode_Range lineNumber 0 lineNumber (length ln)\<rparr>
               else None)
      else None)\<close>

definition checkImageAccessibleNames :: "string \<Rightarrow> nat \<Rightarrow> AccessibilityIssue option" where
  "checkImageAccessibleNames ln lineNumber =
     (let trimmedLine = trim ln in
      if str_includes trimmedLine ''<img''
         \<and> \<not> str_includes trimmedLine ''alt='' \<and> \<not> str_includes trimmedLine ''aria-label=''
         \<and> \<not> str_includes trimmedLine ''aria-labelledby=''
      then Some \<lparr>line = lineNumber + 1,
                 issue = ''Image missing accessible name - add alt, aria-label, or aria-labelledby'',
                 severity = ''HIGH'',
                 range = vscode_Range lineNumber 0 lineNumber (length ln)\<rparr>
      else None)"

definition checkLabelNameConsistency :: "string \<Rightarrow> nat \<Rightarrow> AccessibilityIssue list" where
  "checkLabelNameConsistency ln lineNumber =
     pushChecks [checkLabelNameConsistencyIssue ln lineNumber,
                 checkMissingAccessibleNames ln lineNumber,
                 checkRedundantAccessibleNames ln lineNumber,
                 checkConflictingAccessibleNames ln lineNumber,
                 checkEmptyAccessibleNames ln lineNumber,
                 checkAccessibleNamesOnNonInteractive ln lineNumber,
                 checkFormElementAccessibleNames ln lineNumber,
                 checkCustomControlAccessibleNames ln lineNumber,
                 checkImageAccessibleNames ln lineNumber] []"

section \<open>InputPurposeChecker\<close>

definition AUTOCOMPLETE_VALUES :: "string list" where
  "AUTOCOMPLETE_VALUES =
    [''name'', ''honorific-prefix'', ''given-name'', ''additional-name'', ''family-name'', ''honorific-suffix'',
     ''nickname'', ''email'', ''username'', ''new-password'', ''current-password'', ''one-time-code'',
     ''organization-title'', ''organization'', ''street-address'', ''address-line1'', ''address-line2'',
     ''address-line3'', ''address-level1'', ''address-level2'', ''address-level3'', ''address-level4'',
     ''country'', ''country-name'', ''postal-code'', ''cc-name'', ''cc-given-name'', ''cc-additional-name'',
     ''cc-family-name'', ''cc-number'', ''cc-exp'', ''cc-exp-month'', ''cc-exp-year'', ''cc-csc'', ''cc-type'',
     ''transaction-currency'', ''transaction-amount'', ''language'', ''bday'', ''bday-day'', ''bday-month'',
     ''bday-year'', ''sex'', ''tel'', ''tel-country-code'', ''tel-national'', ''tel-area-code'', ''tel-local'',
     ''tel-local-prefix'', ''tel-local-suffix'', ''tel-extension'', ''url'', ''photo'', ''webauthn'']"

text \<open>\<open>/autocomplete=["']([^"']+)["']/\<close>\<close>

definition re_autocomplete :: RegExp where
  "re_autocomplete =
     \<lparr>pieces = lits ''autocomplete='' @ [quoteChar, GroupOpen, notQuotePlus, GroupClose, quoteChar],
      ignoreCase = False\<rparr>"

text \<open>\<open>/type=["']([^"']+)["']/\<close>\<close>

definition re_type :: RegExp where
  "re_type =
     \<lparr>pieces = lits ''type='' @ [quoteChar, GroupOpen, notQuotePlus, GroupClose, quoteChar],
      ignoreCase = False\<rparr>"

definition checkMissingAutocomplete :: "string \<Rightarrow> nat \<Rightarrow> AccessibilityIssue option" where
  "checkMissingAutocomplete ln lineNumber =
     (let trimmedLine = trim ln in
      if (str_includes trimmedLine ''<input'' \<or> str_includes trimmedLine ''<select''
          \<or> str_includes trimmedLine ''<textarea'')
         \<and> \<not> str_includes trimmedLine ''autocomplete=''
         \<and> \<not> str_includes trimmedLine ''disabled''
         \<and> \<not> str_includes trimmedLine ''readonly''
      then Some \<lparr>line = lineNumber + 1,
                 issue = ''Form input missing autocomplete attribute - add autocomplete for user information fields'',
                 severity = ''HIGH'',
                 range = vscode_Range lineNumber 0 lineNumber (length ln)\<rparr>
      else None)"

definition checkInvalidAutocomplete :: "string \<Rightarrow> nat \<Rightarrow> AccessibilityIssue option" where
  \<open>checkInvalidAutocomplete ln lineNumber =
     (let trimmedLine = trim ln in
      if str_includes trimmedLine ''autocomplete=''
      then (case str_match trimmedLine re_autocomplete of
              None \<Rightarrow> None
            | Some autocompleteMatch \<Rightarrow>
                (let v = autocompleteMatch ! 1 in
                 if v \<noteq> ''off'' \<and> v \<notin> set AUTOCOMPLETE_VALUES
                 then Some \<lparr>line = lineNumber + 1,
                            issue = ''Invalid autocomplete value "'' @ v @ ''" - use standard autocomplete values or "off"'',
                            severity = ''HIGH'',
                            range = vscode_Range lineNumber 0 lineNumber (length ln)\<rparr>
                 else None))
      else None)\<close>

definition checkInputTypeAutocompleteMismatch :: "string \<Rightarrow> nat \<Rightarrow> AccessibilityIssue option" where
  \<open>checkInputTypeAutocompleteMismatch ln lineNumber =
     (let trimmedLine = trim ln in
      if str_includes trimmedLine ''<input'' \<and> str_includes trimmedLine ''autocomplete=''
      then (case str_match trimmedLine re_type of
              None \<Rightarrow> None
            | Some typeMatch \<Rightarrow>
                (case str_match trimmedLine re_autocomplete of
                   None \<Rightarrow> None
                 | Some autocompleteMatch \<Rightarrow>
                     (let inputType = typeMatch ! 1;
                          autocompleteValue = autocompleteMatch ! 1
                      in if inputType = ''email'' \<and> \<not> str_includes autocompleteValue ''email''
                         then Some \<lparr>line = lineNumber + 1,
                                    issue = ''Email input should have autocomplete="email" or related email field'',
                                    severity = ''MEDIUM'',
                                    range = vscode_Range lineNumber 0 lineNumber (length ln)\<rparr>
                         else if inputType = ''password'' \<and> \<not> str_includes autocompleteValue ''password''
                         then Some \<lparr>line = lineNumber + 1,
                                    issue = ''Password input should have autocomplete="current-password" or "new-password"'',
                                    severity = ''MEDIUM'',
                                    range = vscode_Range lineNumber 0 lineNumber (length ln)\<rparr>
                         else None)))
      else None)\<close>

definition checkPersonalInformationFields :: "string \<Rightarrow> nat \<Rightarrow> AccessibilityIssue option" where
  "checkPersonalInformationFields ln lineNumber =
     (let trimmedLine = trim ln in
      if str_includes trimmedLine ''<input''
         \<and> (str_includes trimmedLine ''name='' \<or> str_includes trimmedLine ''id='')
         \<and> \<not> str_includes trimmedLine ''autocomplete=''
      then (let fieldName = toLowerCase trimmedLine in
            if str_includes fieldName ''name'' \<or> str_includes fieldName ''email''
               \<or> str_includes fieldName ''phone'' \<or> str_includes fieldName ''address''
               \<or> str_includes fieldName ''city'' \<or> str_includes fieldName ''state''
               \<or> str_includes fieldName ''zip'' \<or> str_includes fieldName ''country''
               \<or> str_includes fieldName ''birth'' \<or> str_includes fieldName ''gender''
               \<or> str_includes fieldName ''age''
            then Some \<lparr>line = lineNumber + 1,
                       issue = ''Personal information field missing autocomplete attribute - add appropriate autocomplete value'',
                       severity = ''HIGH'',
                       range = vscode_Range lineNumber 0 lineNumber (length ln)\<rparr>
            else None)
      else None)"

definition checkFinancialFields :: "string \<Rightarrow> nat \<Rightarrow> AccessibilityIssue option" where
  "checkFinancialFields ln lineNumber =
     (let trimmedLine = trim ln in
      if str_includes trimmedLine ''<input''
         \<and> (str_includes trimmedLine ''name='' \<or> str_includes trimmedLine ''id='')
         \<and> \<not> str_includes trimmedLine ''autocomplete=''
      then (let fieldName = toLowerCase trimmedLine in
            if str_includes fieldName ''card'' \<or> str_includes fieldName ''credit''
               \<or> str_includes fieldName ''debit'' \<or> str_includes fieldName ''cvv''
               \<or> str_includes fieldName ''cvc'' \<or> str_includes fieldName ''expiry''
               \<or> str_includes fieldName ''amount'' \<or> str_includes fieldName ''currency''
            then Some \<lparr>line = lineNumber + 1,
                       issue = ''Financial field missing autocomplete attribute - add appropriate autocomplete value'',
                       severity = ''HIGH'',
                       range = vscode_Range lineNumber 0 lineNumber (length ln)\<rparr>
            else None)
      else None)"

definition checkAuthenticationFields :: "string \<Rightarrow> nat \<Rightarrow> AccessibilityIssue option" where
  "checkAuthenticationFields ln lineNumber =
     (let trimmedLine = trim ln in
      if str_includes trimmedLine ''<input''
         \<and> (str_includes trimmedLine ''name='' \<or> str_includes trimmedLine ''id='')
         \<and> \<not> str_includes trimmedLine ''autocomplete=''
      then (let fieldName = toLowerCase trimmedLine in
            if str_includes fieldName ''username'' \<or> str_includes fieldName ''login''
               \<or> str_includes fieldName ''password'' \<or> str_includes fieldName ''otp''
               \<or> str_includes fieldName ''verification'' \<or> str_includes fieldName ''code''
            then Some \<lparr>line = lineNumber + 1,
                       issue = ''Authentication field missing autocomplete attribute - add appropriate autocomplete value'',
                       severity = ''HIGH'',
                       range = vscode_Range lineNumber 0 lineNumber (length ln)\<rparr>
            else None)
      else None)"

definition checkContactFields :: "string \<Rightarrow> nat \<Rightarrow> AccessibilityIssue option" where
  "checkContactFields ln lineNumber =
     (let trimmedLine = trim ln in
      if str_includes trimmedLine ''<input''
         \<and> (str_includes trimmedLine ''name='' \<or> str_includes trimmedLine ''id='')
         \<and> \<not> str_includes trimmedLine ''autocomplete=''
      then (let fieldName = toLowerCase trimmedLine in
            if str_includes fieldName ''phone'' \<or> str_includes fieldName ''tel''
               \<or> str_includes fieldName ''mobile'' \<or> str_includes fieldName ''fax''
               \<or> str_includes fieldName ''website'' \<or> str_includes fieldName ''url''
            then Some \<lparr>line = lineNumber + 1,
                       issue = ''Contact field missing autocomplete attribute - add appropriate autocomplete value'',
                       severity = ''MEDIUM'',
                       range = vscode_Range lineNumber 0 lineNumber (length ln)\<rparr>
            else None)
      else None)"

definition checkAddressFields :: "string \<Rightarrow> nat \<Rightarrow> AccessibilityIssue option" where
  "checkAddressFields ln lineNumber =
     (let trimmedLine = trim ln in
      if str_includes trimmedLine ''<input''
         \<and> (str_includes trimmedLine ''name='' \<or> str_includes trimmedLine ''id='')
         \<and> \<not> str_includes trimmedLine ''autocomplete=''
      then (let fieldName = toLowerCase trimmedLine in
            if str_includes fieldName ''street'' \<or> str_includes fieldName ''address''
               \<or> str_includes fieldName ''city'' \<or> str_includes fieldName ''state''
               \<or> str_includes fieldName ''province'' \<or> str_includes fieldName ''zip''
               \<or> str_includes fieldName ''postal'' \<or> str_includes fieldName ''country''
            then Some \<lparr>line = lineNumber + 1,
                       issue = ''Address field missing autocomplete attribute - add appropriate autocomplete value'',
                       severity = ''HIGH'',
                       range = vscode_Range lineNumber 0 lineNumber (length ln)\<rparr>
            else None)
      else None)"

definition checkAutocompleteOffOnUserFields :: "string \<Rightarrow> nat \<Rightarrow> AccessibilityIssue option" where
  \<open>checkAutocompleteOffOnUserFields ln lineNumber =
     (let trimmedLine = trim ln in
      if str_includes trimmedLine ''autocomplete="off"''
         \<or> str_includes trimmedLine (''autocomplete='' @ [sq] @ ''off'' @ [sq])
      then (let fieldName = toLowerCase trimmedLine in
            if str_includes fieldName ''name'' \<or> str_includes fieldName ''email''
               \<or> str_includes fieldName ''phone'' \<or> str_includes fieldName ''address''
               \<or> str_includes fieldName ''birth'' \<or> str_includes fieldName ''gender''
            then Some \<lparr>line = lineNumber + 1,
                       issue = ''User information field has autocomplete="off" - consider using appropriate autocomplete value'',
                       severity = ''MEDIUM'',
                       range = vscode_Range lineNumber 0 lineNumber (length ln)\<rparr>
            else None)
      else None)\<close>

definition checkInputPurpose :: "string \<Rightarrow> nat \<Rightarrow> AccessibilityIssue list" where
  "checkInputPurpose ln lineNumber =
     pushChecks [checkMissingAutocomplete ln lineNumber,
                 checkInvalidAutocomplete ln lineNumber,
                 checkInputTypeAutocompleteMismatch ln lineNumber,
                 checkPersonalInformationFields ln lineNumber,
                 checkFinancialFields ln lineNumber,
                 checkAuthenticationFields ln lineNumber,
                 checkContactFields ln lineNumber,
                 checkAddressFields ln lineNumber,
                 checkAutocompleteOffOnUserFields ln lineNumber] []"

section \<open>ColorContrastChecker\<close>

definition checkColorContrastIssue :: "string \<Rightarrow> nat \<Rightarrow> AccessibilityIssue option" where
  "checkColorContrastIssue ln lineNumber =
     (let trimmedLine = trim ln in
      if str_includes trimmedLine ''color:'' \<or> str_includes trimmedLine ''background-color:''
      then Some \<lparr>line = lineNumber + 1,
                 issue = ''Color contrast validation needed - ensure text has sufficient contrast ratio (4.5:1 for normal text, 3:1 for large text)'',
                 severity = ''HIGH'',
                 range = vscode_Range lineNumber 0 lineNumber (length ln)\<rparr>
      else if str_includes trimmedLine ''style=''
              \<and> (str_includes trimmedLine ''color:'' \<or> str_includes trimmedLine ''background-color:'')
      then Some \<lparr>line = lineNumber + 1,
                 issue = ''Inline color styles detected - verify contrast ratio meets WCAG 2.1 AA standards'',
                 severity = ''HIGH'',
                 range = vscode_Range lineNumber 0 lineNumber (length ln)\<rparr>
      else None)"

definition checkColorOnlyInformation :: "string \<Rightarrow> nat \<Rightarrow> AccessibilityIssue option" where
  "checkColorOnlyInformation ln lineNumber =
     (let trimmedLine = trim ln in
      if str_includes trimmedLine ''color:''
         \<and> (str_includes trimmedLine ''red'' \<or> str_includes trimmedLine ''green''
              \<or> str_includes trimmedLine ''blue'' \<or> str_includes trimmedLine ''yellow'')
         \<and> \<not> str_includes trimmedLine ''aria-label'' \<and> \<not> str_includes trimmedLine ''title=''
      then Some \<lparr>line = lineNumber + 1,
                 issue = ''Color-only information detected - ensure information is not conveyed by color alone'',
                 severity = ''HIGH'',
                 range = vscode_Range lineNumber 0 lineNumber (length ln)\<rparr>
      else None)"

definition checkNonTextContrast :: "string \<Rightarrow> nat \<Rightarrow> AccessibilityIssue option" where
  "checkNonTextContrast ln lineNumber =
     (let trimmedLine = trim ln in
      if str_includes trimmedLine ''border:'' \<or> str_includes trimmedLine ''outline:''
         \<or> str_includes trimmedLine ''box-shadow:'' \<or> str_includes trimmedLine ''background:''
      then Some \<lparr>line = lineNumber + 1,
                 issue = ''UI component styling detected - ensure sufficient contrast ratio (3:1) for visual elements'',
                 severity = ''MEDIUM'',
                 range = vscode_Range lineNumber 0 lineNumber (length ln)\<rparr>
      else None)"

definition checkFocusIndicatorContrast :: "string \<Rightarrow> nat \<Rightarrow> AccessibilityIssue option" where
  "checkFocusIndicatorContrast ln lineNumber =
     (let trimmedLine = trim ln in
      if str_includes trimmedLine '':focus'' \<or> str_includes trimmedLine '':focus-visible''
      then (if str_includes trimmedLine ''outline: none'' \<or> str_includes trimmedLine ''outline: 0''
            then Some \<lparr>line = lineNumber + 1,
                       issue = ''Focus outline removed - ensure alternative focus indicator has sufficient contrast'',
                       severity = ''HIGH'',
                       range = vscode_Range lineNumber 0 lineNumber (length ln)\<rparr>
            else None)
      else None)"

definition checkTextSpacing :: "string \<Rightarrow> nat \<Rightarrow> AccessibilityIssue option" where
  "checkTextSpacing ln lineNumber =
     (let trimmedLine = trim ln in
      if str_includes trimmedLine ''line-height:'' \<or> str_includes trimmedLine ''letter-spacing:''
         \<or> str_includes trimmedLine ''word-spacing:'' \<or> str_includes trimmedLine ''text-indent:''
      then Some \<lparr>line = lineNumber + 1,
                 issue = ''Text spacing detected - ensure content remains accessible when spacing is adjusted'',
                 severity = ''MEDIUM'',
                 range = vscode_Range lineNumber 0 lineNumber (length ln)\<rparr>
      else None)"

definition checkColorContrastIssues :: "string \<Rightarrow> nat \<Rightarrow> AccessibilityIssue list" where
  "checkColorContrastIssues ln lineNumber =
     pushChecks [checkColorContrastIssue ln lineNumber,
                 checkColorOnlyInformation ln lineNumber,
                 checkNonTextContrast ln lineNumber,
                 checkFocusIndicatorContrast ln lineNumber,
                 checkTextSpacing ln lineNumber] []"

section \<open>AccessibilityChecker: the aggregator\<close>


datatype DiagnosticSeverity = Error | Warning | Information | Hint

record Diagnostic =
  diag_range :: Range
  message :: string
  diag_severity :: DiagnosticSeverity
  source :: string

record TextDocument =
  uri :: string
  getText :: string

definition getSeverity :: "string \<Rightarrow> DiagnosticSeverity" where
  "getSeverity sev =
     (if sev = ''HIGH'' then Error
      else if sev = ''MEDIUM'' then Warning
      else if sev = ''LOW'' then Information
      else Information)"

definition createDiagnostic :: "Range \<Rightarrow> string \<Rightarrow> DiagnosticSeverity \<Rightarrow> Diagnostic" where
  "createDiagnostic r msg sev =
     \<lparr>diag_range = r, message = msg, diag_severity = sev, source = ''MARSA11Y Checker''\<rparr>"

text \<open>The six family runners on one line, their results spread into one array.\<close>

definition allIssues :: "string \<Rightarrow> nat \<Rightarrow> string \<Rightarrow> AccessibilityIssue list" where
  "allIssues ln lineNumber text =
     (let imageIssues = checkImages ln lineNumber;
          formIssues = checkFormElements ln lineNumber;
          otherIssues = checkOtherAccessibility ln lineNumber text;
          ariaRoleIssues = checkAriaLabelAndRole ln lineNumber text;
          tabIndexIssues = checkTabIndex ln lineNumber;
          semanticHtmlIssues = checkSemanticHtml ln lineNumber text
      in imageIssues @ formIssues @ otherIssues @ ariaRoleIssues @ tabIndexIssues @ semanticHtmlIssues)"

text \<open>The inner \<open>forEach\<close>: each issue is pushed with its diagnostic.\<close>

fun pushIssues :: "AccessibilityIssue list \<Rightarrow> AccessibilityIssue list \<times> Diagnostic list
    \<Rightarrow> AccessibilityIssue list \<times> Diagnostic list" where
  "pushIssues [] acc = acc"
| "pushIssues (i # rest) (issues, diagnostics) =
     pushIssues rest
       (issues @ [i],
        diagnostics @ [createDiagnostic (range i) (issue i) (getSeverity (severity i))])"

text \<open>The outer \<open>forEach\<close> over the lines, with the running index.\<close>

fun forEachLine :: "string list \<Rightarrow> nat \<Rightarrow> string \<Rightarrow> AccessibilityIssue list \<times> Diagnostic list
    \<Rightarrow> AccessibilityIssue list \<times> Diagnostic list" where
  "forEachLine [] index text acc = acc"
| "forEachLine (ln # rest) index text acc =
     forEachLine rest (index + 1) text (pushIssues (allIssues ln index text) acc)"

text \<open>
  The run on a document: the collected issues (the list the source logs) and the
  diagnostic collection with the document's entry replaced.
\<close>

definition checkAccessibilityIssues :: "TextDocument \<Rightarrow> (string \<rightharpoonup> Diagnostic list)
    \<Rightarrow> AccessibilityIssue list \<times> (string \<rightharpoonup> Diagnostic list)" where
  "checkAccessibilityIssues document diagnosticCollection =
     (let text = getText document;
          lines = split_lines text;
          (issues, diagnostics) = forEachLine lines 0 text ([], [])
      in (issues, diagnosticCollection(uri document \<mapsto> diagnostics)))"

section \<open>AltTagAutoFixer\<close>

text \<open>
  The repair workflow awaits one external call. Its surroundings are parameters of the
  model: the configured API key, whether constructing the client throws, and, for each
  prompt, the outcome of the awaited chat completion: it throws, or it yields
  \<open>completion.choices[0]?.message?.content\<close>, which is absent when the chain is cut.
  The state holds what the class keeps and shows: whether the static client exists, and
  the error messages shown to the user.
\<close>

datatype ApiOutcome = ApiThrows string | ApiCompletion "string option"

record FixerEnv =
  openaiApiKey :: "string option"
  clientError :: "string option"
  createCompletion :: "string \<Rightarrow> ApiOutcome"

record FixerState =
  openai :: bool
  errorMessages :: "string list"

record AltFixResult =
  success :: bool
  altText :: "string option"
  error :: "string option"

record WorkspaceEdit =
  edit_uri :: string
  edit_range :: Range
  newText :: string

definition showErrorMessage :: "string \<Rightarrow> FixerState \<Rightarrow> FixerState" where
  "showErrorMessage msg st = st\<lparr>errorMessages := errorMessages st @ [msg]\<rparr>"

definition initializeOpenAI :: "FixerEnv \<Rightarrow> FixerState \<Rightarrow> bool \<times> FixerState" where
  "initializeOpenAI env st =
     (if openai st then (True, st)
      else (case openaiApiKey env of
              None \<Rightarrow>
                (False, showErrorMessage
                   ''OpenAI API key not found. Please set marsa11yfix.openaiApiKey in your VS Code settings.'' st)
            | Some apiKey \<Rightarrow>
                if apiKey = []
                then (False, showErrorMessage
                   ''OpenAI API key not found. Please set marsa11yfix.openaiApiKey in your VS Code settings.'' st)
                else (case clientError env of
                        None \<Rightarrow> (True, st\<lparr>openai := True\<rparr>)
                      | Some e \<Rightarrow>
                          (False, showErrorMessage (''Failed to initialize OpenAI client: '' @ e) st))))"

definition buildPrompt :: "string \<Rightarrow> string option \<Rightarrow> string" where
  \<open>buildPrompt imageSrc context =
     (let prompt0 = ''Generate alt text for this image: '' @ imageSrc;
          prompt1 = (case context of
                       None \<Rightarrow> prompt0
                     | Some c \<Rightarrow> if c = [] then prompt0
                                else prompt0 @ [CHR 0x0A, CHR 0x0A] @ ''Context: '' @ c)
      in prompt1 @ [CHR 0x0A, CHR 0x0A]
         @ ''Provide a concise, descriptive alt text that describes what the image shows. If the image is purely decorative, return "decorative".'')\<close>

definition generateAltText :: "FixerEnv \<Rightarrow> FixerState \<Rightarrow> string \<Rightarrow> string option
    \<Rightarrow> AltFixResult \<times> FixerState" where
  "generateAltText env st imageSrc context =
     (case initializeOpenAI env st of
        (False, st1) \<Rightarrow>
          (\<lparr>success = False, altText = None, error = Some ''OpenAI not initialized''\<rparr>, st1)
      | (True, st1) \<Rightarrow>
          (let prompt = buildPrompt imageSrc context in
           case createCompletion env prompt of
             ApiThrows e \<Rightarrow>
               (\<lparr>success = False, altText = None, error = Some (''OpenAI API error: '' @ e)\<rparr>, st1)
           | ApiCompletion content \<Rightarrow>
               (let alt = map_option trim content in
                if alt = None \<or> alt = Some []
                then (\<lparr>success = False, altText = None, error = Some ''No alt text generated''\<rparr>, st1)
                else (\<lparr>success = True, altText = alt, error = None\<rparr>, st1))))"

text \<open>\<open>/<img[^>]*src=["']([^"']+)["'][^>]*>/i\<close>\<close>

definition re_img_src :: RegExp where
  "re_img_src =
     \<lparr>pieces = lits ''<img'' @ [Star (NotClass [CChar (CHR ''>'')])] @ lits ''src=''
                @ [quoteChar, GroupOpen, notQuotePlus, GroupClose, quoteChar,
                   Star (NotClass [CChar (CHR ''>'')]), One (Lit (CHR ''>''))],
      ignoreCase = True\<rparr>"

text \<open>\<open>indexOf\<close> with a start position; \<open>None\<close> is the source's \<open>-1\<close>.\<close>

fun indexOfAt :: "string \<Rightarrow> string \<Rightarrow> nat \<Rightarrow> nat option" where
  "indexOfAt [] sub pos = (if sub = [] then Some pos else None)"
| "indexOfAt (c # cs) sub pos =
     (if startsWith (c # cs) sub then Some pos else indexOfAt cs sub (pos + 1))"

definition indexOf :: "string \<Rightarrow> string \<Rightarrow> nat \<Rightarrow> nat option" where
  "indexOf s sub fromIndex =
     (let f = min fromIndex (length s) in indexOfAt (drop f s) sub f)"

definition fixSpecificImageTag :: "FixerEnv \<Rightarrow> FixerState \<Rightarrow> TextDocument \<Rightarrow> nat \<Rightarrow> string
    \<Rightarrow> WorkspaceEdit option \<times> FixerState" where
  \<open>fixSpecificImageTag env st document lineNumber lineText =
     (let trimmedLine = trim lineText in
      if \<not> str_includes trimmedLine ''<img'' \<or> str_includes trimmedLine ''alt=''
      then (None, st)
      else (case str_match trimmedLine re_img_src of
              None \<Rightarrow> (None, st)
            | Some imgTagMatch \<Rightarrow>
                (let imageSrc = imgTagMatch ! 1 in
                 case generateAltText env st imageSrc None of
                   (result, st1) \<Rightarrow>
                     if \<not> success result \<or> altText result = None \<or> altText result = Some []
                     then (None,
                           showErrorMessage
                             (''Failed to generate alt text: ''
                              @ (case error result of None \<Rightarrow> ''undefined'' | Some e \<Rightarrow> e)) st1)
                     else (case indexOf lineText ''<img'' 0 of
                             None \<Rightarrow> (None, st1)
                           | Some imgTagStart \<Rightarrow>
                               (case indexOf lineText ''>'' imgTagStart of
                                  None \<Rightarrow> (None, st1)
                                | Some imgTagEnd \<Rightarrow>
                                    (let beforeAlt = take imgTagEnd lineText;
                                         afterAlt = drop imgTagEnd lineText;
                                         newLine = beforeAlt @ '' alt="''
                                                   @ (case altText result of None \<Rightarrow> [] | Some a \<Rightarrow> a)
                                                   @ ''"'' @ afterAlt
                                     in (Some \<lparr>edit_uri = uri document,
                                               edit_range = vscode_Range lineNumber 0 lineNumber (length lineText),
                                               newText = newLine\<rparr>, st1)))))))\<close>

text \<open>
  The caller, \<open>ImageChecker.autoFixSpecificImage\<close>, hands a non-null edit to the host,
  which replaces the line of the edit's range; with \<open>null\<close> it only shows a message.
\<close>

definition applyEdit :: "WorkspaceEdit option \<Rightarrow> string list \<Rightarrow> string list" where
  "applyEdit edit docLines =
     (case edit of
        None \<Rightarrow> docLines
      | Some e \<Rightarrow> docLines[startLine (edit_range e) := newText e])"

section \<open>The whole-line span\<close>

text \<open>
  The span property of one issue reported for line \<open>ln\<close> at index
  \<open>lineNumber\<close>: the display line is the index plus one, and the range runs from
  column 0 to the length of the untrimmed line, on that line.
\<close>

definition wholeLine :: "string \<Rightarrow> nat \<Rightarrow> AccessibilityIssue \<Rightarrow> bool" where
  "wholeLine ln lineNumber x =
     (line x = lineNumber + 1
      \<and> range x = \<lparr>startLine = lineNumber, startCharacter = 0,
                    endLine = lineNumber, endCharacter = length ln\<rparr>)"

definition wholeLineOpt :: "string \<Rightarrow> nat \<Rightarrow> AccessibilityIssue option \<Rightarrow> bool" where
  "wholeLineOpt ln lineNumber r = (case r of None \<Rightarrow> True | Some x \<Rightarrow> wholeLine ln lineNumber x)"

section \<open>The order the specification gives the result\<close>

text \<open>
  The registry as the specification describes it: the families in the order the
  aggregator calls them (image, form, other, ARIA and role, tab index, semantic HTML),
  each with its detectors in the order its runner lists them. A detector that does not
  read the full text ignores that argument.
\<close>

type_synonym Detector = "string \<Rightarrow> nat \<Rightarrow> string \<Rightarrow> AccessibilityIssue option"

definition registry :: "Detector list list" where
  "registry =
    [[(\<lambda>ln lineNumber fullText. checkImageAltAttributes ln lineNumber),
      (\<lambda>ln lineNumber fullText. checkEmptyAltAttributes ln lineNumber)],
     [(\<lambda>ln lineNumber fullText. checkFormInputLabels ln lineNumber),
      (\<lambda>ln lineNumber fullText. checkFormLabels ln lineNumber)],
     [checkHeadingStructure,
      (\<lambda>ln lineNumber fullText. checkHtmlLangAttribute_other ln lineNumber),
      (\<lambda>ln lineNumber fullText. checkKeyboardAccessibility_other ln lineNumber),
      (\<lambda>ln lineNumber fullText. checkColorOnlyInformation_other ln lineNumber),
      (\<lambda>ln lineNumber fullText. checkFocusIndicators ln lineNumber)],
     [(\<lambda>ln lineNumber fullText. checkMissingAriaLabel ln lineNumber),
      (\<lambda>ln lineNumber fullText. checkEmptyAriaLabel ln lineNumber),
      (\<lambda>ln lineNumber fullText. checkRedundantAriaLabel ln lineNumber),
      (\<lambda>ln lineNumber fullText. checkInvalidRole ln lineNumber),
      (\<lambda>ln lineNumber fullText. checkRedundantRole ln lineNumber),
      checkMissingAriaLabelledbyReference,
      checkMissingAriaDescribedbyReference,
      (\<lambda>ln lineNumber fullText. checkMissingAriaExpanded ln lineNumber),
      (\<lambda>ln lineNumber fullText. checkIncorrectAriaExpanded ln lineNumber),
      (\<lambda>ln lineNumber fullText. checkMissingAriaHiddenOnDecorative ln lineNumber),
      (\<lambda>ln lineNumber fullText. checkConflictingAriaHiddenAndRole ln lineNumber),
      (\<lambda>ln lineNumber fullText. checkMissingAriaDisabled ln lineNumber),
      (\<lambda>ln lineNumber fullText. checkMissingAriaRequired ln lineNumber),
      (\<lambda>ln lineNumber fullText. checkMissingAriaInvalid ln lineNumber),
      (\<lambda>ln lineNumber fullText. checkEmptyButtonElements ln lineNumber)],
     [(\<lambda>ln lineNumber fullText. checkNegativeTabIndex ln lineNumber),
      (\<lambda>ln lineNumber fullText. checkTabIndexZeroOnNonInteractive ln lineNumber),
      (\<lambda>ln lineNumber fullText. checkMissingTabIndexOnCustomInteractive ln lineNumber),
      (\<lambda>ln lineNumber fullText. checkTabIndexOnPresentationRole ln lineNumber),
      (\<lambda>ln lineNumber fullText. checkTabIndexOnNoneRole ln lineNumber),
      (\<lambda>ln lineNumber fullText. checkTabIndexOnAriaHidden ln lineNumber),
      (\<lambda>ln lineNumber fullText. checkRedundantTabIndexOnFocusable ln lineNumber),
      (\<lambda>ln lineNumber fullText. checkPositiveTabIndex ln lineNumber),
      (\<lambda>ln lineNumber fullText. checkMissingTabIndexOnClickable ln lineNumber),
      (\<lambda>ln lineNumber fullText. checkDisabledElementWithTabIndex ln lineNumber),
      (\<lambda>ln lineNumber fullText. checkTabIndexOnHiddenElement ln lineNumber),
      (\<lambda>ln lineNumber fullText. checkMissingTabIndexOnModalTrigger ln lineNumber),
      (\<lambda>ln lineNumber fullText. checkMissingTabIndexOnCustomFormControl ln lineNumber),
      (\<lambda>ln lineNumber fullText. checkTabIndexOnDecorativeElement ln lineNumber),
      (\<lambda>ln lineNumber fullText. checkInconsistentTabIndexUsage ln lineNumber),
      (\<lambda>ln lineNumber fullText. checkTabIndexOnNonInteractiveElement ln lineNumber)],
     [checkHeadingHierarchy,
      (\<lambda>ln lineNumber fullText. checkHtmlLangAttribute ln lineNumber),
      (\<lambda>ln lineNumber fullText. checkListStructure ln lineNumber),
      (\<lambda>ln lineNumber fullText. checkTableStructure ln lineNumber),
      (\<lambda>ln lineNumber fullText. checkFormStructure ln lineNumber),
      (\<lambda>ln lineNumber fullText. checkButtonUsage ln lineNumber),
      (\<lambda>ln lineNumber fullText. checkLinkUsage ln lineNumber),
      (\<lambda>ln lineNumber fullText. checkLandmarkUsage ln lineNumber),
      (\<lambda>ln lineNumber fullText. checkSectioningElements ln lineNumber),
      (\<lambda>ln lineNumber fullText. checkNavigationStructure ln lineNumber),
      checkDocumentStructure]]"


definition toDiagnostic :: "AccessibilityIssue \<Rightarrow> Diagnostic" where
  "toDiagnostic i = createDiagnostic (range i) (issue i) (getSeverity (severity i))"

text \<open>
  The detectors of the five families the aggregator does not call (keyboard navigation,
  focus management, label and name consistency, input purpose, colour contrast), and
  the list of every detector of the repository.
\<close>

definition unregistered :: "Detector list list" where
  "unregistered =
    [[(\<lambda>ln lineNumber fullText. checkKeyboardAccessibility ln lineNumber),
      (\<lambda>ln lineNumber fullText. checkKeyboardTrap ln lineNumber),
      (\<lambda>ln lineNumber fullText. checkMissingKeyboardHandlers ln lineNumber),
      (\<lambda>ln lineNumber fullText. checkKeyboardNavigationOrder ln lineNumber),
      checkMissingSkipLinks,
      (\<lambda>ln lineNumber fullText. checkKeyboardShortcuts ln lineNumber),
      (\<lambda>ln lineNumber fullText. checkAriaKeyboardNavigation ln lineNumber),
      (\<lambda>ln lineNumber fullText. checkFormKeyboardNavigation ln lineNumber)],
     [(\<lambda>ln lineNumber fullText. checkFocusOrder ln lineNumber),
      (\<lambda>ln lineNumber fullText. checkFocusTrap ln lineNumber),
      (\<lambda>ln lineNumber fullText. checkMissingFocusIndicators ln lineNumber),
      (\<lambda>ln lineNumber fullText. checkDynamicFocusManagement ln lineNumber),
      (\<lambda>ln lineNumber fullText. checkAriaFocusManagement ln lineNumber),
      (\<lambda>ln lineNumber fullText. checkFormFocusManagement ln lineNumber),
      (\<lambda>ln lineNumber fullText. checkSPAFocusManagement ln lineNumber),
      (\<lambda>ln lineNumber fullText. checkCollapsibleFocusManagement ln lineNumber),
      (\<lambda>ln lineNumber fullText. checkTableFocusManagement ln lineNumber)],
     [(\<lambda>ln lineNumber fullText. checkLabelNameConsistencyIssue ln lineNumber),
      (\<lambda>ln lineNumber fullText. checkMissingAccessibleNames ln lineNumber),
      (\<lambda>ln lineNumber fullText. checkRedundantAccessibleNames ln lineNumber),
      (\<lambda>ln lineNumber fullText. checkConflictingAccessibleNames ln lineNumber),
      (\<lambda>ln lineNumber fullText. checkEmptyAccessibleNames ln lineNumber),
      (\<lambda>ln lineNumber fullText. checkAccessibleNamesOnNonInteractive ln lineNumber),
      (\<lambda>ln lineNumber fullText. checkFormElementAccessibleNames ln lineNumber),
      (\<lambda>ln lineNumber fullText. checkCustomControlAccessibleNames ln lineNumber),
      (\<lambda>ln lineNumber fullText. checkImageAccessibleNames ln lineNumber)],
     [(\<lambda>ln lineNumber fullText. checkMissingAutocomplete ln lineNumber),
      (\<lambda>ln lineNumber fullText. checkInvalidAutocomplete ln lineNumber),
      (\<lambda>ln lineNumber fullText. checkInputTypeAutocompleteMismatch ln lineNumber),
      (\<lambda>ln lineNumber fullText. checkPersonalInformationFields ln lineNumber),
      (\<lambda>ln lineNumber fullText. checkFinancialFields ln lineNumber),
      (\<lambda>ln lineNumber fullText. checkAuthenticationFields ln lineNumber),
      (\<lambda>ln lineNumber fullText. checkContactFields ln lineNumber),
      (\<lambda>ln lineNumber fullText. checkAddressFields ln lineNumber),
      (\<lambda>ln lineNumber fullText. checkAutocompleteOffOnUserFields ln lineNumber)],
     [(\<lambda>ln lineNumber fullText. checkColorContrastIssue ln lineNumber),
      (\<lambda>ln lineNumber fullText. checkColorOnlyInformation ln lineNumber),
      (\<lambda>ln lineNumber fullText. checkNonTextContrast ln lineNumber),
      (\<lambda>ln lineNumber fullText. checkFocusIndicatorContrast ln lineNumber),
      (\<lambda>ln lineNumber fullText. checkTextSpacing ln lineNumber)]]"

definition allDetectors :: "Detector list" where
  "allDetectors = concat (registry @ unregistered)"

section \<open>Facts about the string operations\<close>

lemma startsWith_iff: "startsWith s p \<longleftrightarrow> (\<exists>ss. s = p @ ss)"
  by (induction s p rule: startsWith.induct) auto

lemma str_includes_iff: "str_includes s sub \<longleftrightarrow> (\<exists>ps ss. s = ps @ sub @ ss)"
proof (induction s)
  case Nil
  then show ?case by auto
next
  case (Cons c cs)
  show ?case
  proof
    assume "str_includes (c # cs) sub"
    then consider "startsWith (c # cs) sub" | "str_includes cs sub" by auto
    then show "\<exists>ps ss. c # cs = ps @ sub @ ss"
    proof cases
      case 1
      then obtain ss where "c # cs = sub @ ss" by (auto simp: startsWith_iff)
      then have "c # cs = [] @ sub @ ss" by simp
      then show ?thesis by blast
    next
      case 2
      then obtain ps ss where "cs = ps @ sub @ ss" using Cons.IH by blast
      then have "c # cs = (c # ps) @ sub @ ss" by simp
      then show ?thesis by blast
    qed
  next
    assume "\<exists>ps ss. c # cs = ps @ sub @ ss"
    then obtain ps ss where eq: "c # cs = ps @ sub @ ss" by blast
    show "str_includes (c # cs) sub"
    proof (cases ps)
      case Nil
      with eq have "startsWith (c # cs) sub" by (auto simp: startsWith_iff)
      then show ?thesis by simp
    next
      case (Cons p ps')
      with eq have "cs = ps' @ sub @ ss" by simp
      then have "str_includes cs sub" using Cons.IH by blast
      then show ?thesis by simp
    qed
  qed
qed

lemma str_includes_dropWhile:
  assumes "sub \<noteq> []" and "\<not> P (hd sub)"
  shows "str_includes (dropWhile P s) sub = str_includes s sub"
proof (induction s)
  case Nil
  then show ?case by simp
next
  case (Cons c cs)
  show ?case
  proof (cases "P c")
    case True
    have "\<not> startsWith (c # cs) sub"
      using assms True by (cases sub) auto
    with True Cons.IH show ?thesis by simp
  next
    case False
    then show ?thesis by simp
  qed
qed

lemma str_includes_rev: "str_includes (rev s) (rev sub) = str_includes s sub"
proof -
  have "(\<exists>ps ss. rev s = ps @ rev sub @ ss) \<longleftrightarrow> (\<exists>ps ss. s = ps @ sub @ ss)"
  proof
    assume "\<exists>ps ss. rev s = ps @ rev sub @ ss"
    then obtain ps ss where "rev s = ps @ rev sub @ ss" by blast
    then have "rev (rev s) = rev (ps @ rev sub @ ss)" by simp
    then have "s = rev ss @ sub @ rev ps" by simp
    then show "\<exists>ps ss. s = ps @ sub @ ss" by blast
  next
    assume "\<exists>ps ss. s = ps @ sub @ ss"
    then obtain ps ss where "s = ps @ sub @ ss" by blast
    then have "rev s = rev ss @ rev sub @ rev ps" by simp
    then show "\<exists>ps ss. rev s = ps @ rev sub @ ss" by blast
  qed
  then show ?thesis by (simp add: str_includes_iff)
qed

lemma str_includes_trim:
  assumes "sub \<noteq> []" and "\<not> isWhiteSpace (hd sub)" and "\<not> isWhiteSpace (last sub)"
  shows "str_includes (trim s) sub = str_includes s sub"
proof -
  have r: "rev sub \<noteq> []" "\<not> isWhiteSpace (hd (rev sub))"
    using assms by (simp_all add: hd_rev)
  let ?x = "dropWhile isWhiteSpace (rev (dropWhile isWhiteSpace s))"
  have "str_includes (trim s) sub = str_includes (rev ?x) (rev (rev sub))"
    by (simp add: trim_def)
  also have "\<dots> = str_includes ?x (rev sub)"
    by (rule str_includes_rev)
  also have "\<dots> = str_includes (rev (dropWhile isWhiteSpace s)) (rev sub)"
    using r by (rule str_includes_dropWhile)
  also have "\<dots> = str_includes (dropWhile isWhiteSpace s) sub"
    by (rule str_includes_rev)
  also have "\<dots> = str_includes s sub"
    using assms(1,2) by (rule str_includes_dropWhile)
  finally show ?thesis .
qed

lemma trim_sublist: "\<exists>ps ss. s = ps @ trim s @ ss"
proof -
  let ?d = "dropWhile isWhiteSpace s"
  have 1: "s = takeWhile isWhiteSpace s @ ?d" by simp
  have "rev (takeWhile isWhiteSpace (rev ?d) @ dropWhile isWhiteSpace (rev ?d)) = rev (rev ?d)"
    by (simp only: takeWhile_dropWhile_id)
  then have 2: "?d = trim s @ rev (takeWhile isWhiteSpace (rev ?d))"
    by (simp only: rev_append rev_rev_ident trim_def)
  from 1 2 have "s = takeWhile isWhiteSpace s @ trim s @ rev (takeWhile isWhiteSpace (rev ?d))"
    by simp
  then show ?thesis by blast
qed

lemma str_includes_mono:
  assumes "t = ps @ l @ ss" and "str_includes l sub"
  shows "str_includes t sub"
proof -
  from assms(2) obtain p2 s2 where "l = p2 @ sub @ s2" by (auto simp: str_includes_iff)
  with assms(1) have "t = (ps @ p2) @ sub @ (s2 @ ss)" by simp
  then show ?thesis unfolding str_includes_iff by blast
qed

lemma str_includes_trimD: "str_includes (trim s) sub \<Longrightarrow> str_includes s sub"
  using trim_sublist [of s] str_includes_mono by blast

lemma split_lines_nonempty: "split_lines t \<noteq> []"
  by (induction t) (auto split: list.splits)

lemma split_lines_hd_prefix: "split_lines t = l0 # ls \<Longrightarrow> \<exists>ss. t = l0 @ ss"
proof (induction t arbitrary: l0 ls)
  case Nil
  then show ?case by simp
next
  case (Cons c cs)
  show ?case
  proof (cases "c = CHR 0x0A")
    case True
    with Cons.prems show ?thesis by simp
  next
    case False
    obtain k ks where sp: "split_lines cs = k # ks"
      using split_lines_nonempty [of cs] by (cases "split_lines cs") auto
    with False Cons.prems have l0: "l0 = c # k" by simp
    from sp obtain ss where "cs = k @ ss" using Cons.IH by blast
    with l0 show ?thesis by simp
  qed
qed

lemma split_lines_sublist: "l \<in> set (split_lines t) \<Longrightarrow> \<exists>ps ss. t = ps @ l @ ss"
proof (induction t arbitrary: l)
  case Nil
  then show ?case by simp
next
  case (Cons c cs)
  show ?case
  proof (cases "c = CHR 0x0A")
    case True
    with Cons.prems have "l = [] \<or> l \<in> set (split_lines cs)" by simp
    then show ?thesis
    proof
      assume "l = []"
      then have "c # cs = [] @ l @ (c # cs)" by simp
      then show ?thesis by blast
    next
      assume "l \<in> set (split_lines cs)"
      then obtain ps ss where "cs = ps @ l @ ss" using Cons.IH by blast
      then have "c # cs = (c # ps) @ l @ ss" by simp
      then show ?thesis by blast
    qed
  next
    case False
    obtain l0 ls where sp: "split_lines cs = l0 # ls"
      using split_lines_nonempty [of cs] by (cases "split_lines cs") auto
    with False Cons.prems have "l = c # l0 \<or> l \<in> set ls" by simp
    then show ?thesis
    proof
      assume l: "l = c # l0"
      have "l0 \<in> set (split_lines cs)" using sp by simp
      then obtain ps ss where eq: "cs = ps @ l0 @ ss" using Cons.IH by blast
      from sp obtain ss where "cs = l0 @ ss" using split_lines_hd_prefix by blast
      with l have "c # cs = [] @ l @ ss" by simp
      then show ?thesis by blast
    next
      assume "l \<in> set ls"
      then have "l \<in> set (split_lines cs)" using sp by simp
      then obtain ps ss where "cs = ps @ l @ ss" using Cons.IH by blast
      then have "c # cs = (c # ps) @ l @ ss" by simp
      then show ?thesis by blast
    qed
  qed
qed

lemma split_lines_no_line_feed: "l \<in> set (split_lines t) \<Longrightarrow> CHR 0x0A \<notin> set l"
proof (induction t arbitrary: l)
  case Nil
  then show ?case by simp
next
  case (Cons c cs)
  obtain k ks where sp: "split_lines cs = k # ks"
    using split_lines_nonempty [of cs] by (cases "split_lines cs") auto
  show ?case
  proof (cases "c = CHR 0x0A")
    case True
    with Cons show ?thesis by auto
  next
    case False
    with Cons.prems sp have "l = c # k \<or> l \<in> set ks" by simp
    then show ?thesis
    proof
      assume "l = c # k"
      moreover have "CHR 0x0A \<notin> set k" using Cons.IH [of k] sp by simp
      ultimately show ?thesis using False by auto
    next
      assume "l \<in> set ks"
      then show ?thesis using Cons.IH [of l] sp by simp
    qed
  qed
qed

lemma split_lines_join:
  "concat (map (\<lambda>l. l @ [CHR 0x0A]) (split_lines t)) = t @ [CHR 0x0A]"
proof (induction t)
  case Nil
  then show ?case by simp
next
  case (Cons c cs)
  obtain k ks where sp: "split_lines cs = k # ks"
    using split_lines_nonempty [of cs] by (cases "split_lines cs") auto
  with Cons show ?case by (cases "c = CHR 0x0A") auto
qed

lemma str_includes_line_imp_text:
  assumes "ln \<in> set (split_lines fullText)" and "str_includes (trim ln) sub"
  shows "str_includes fullText sub"
proof -
  from assms(2) have "str_includes ln sub" by (rule str_includes_trimD)
  moreover from assms(1) obtain ps ss where "fullText = ps @ ln @ ss"
    using split_lines_sublist by blast
  ultimately show ?thesis using str_includes_mono by blast
qed

lemma pushChecks_eq:
  "pushChecks checks issues = issues @ map the (filter (\<lambda>c. c \<noteq> None) checks)"
  by (induction checks issues rule: pushChecks.induct) simp_all

section \<open>A match of a pattern with a group has its capture\<close>

lemma matchHere_keeps_capture:
  "matchHere ic ps s pos opn cap = Some (rest, cap') \<Longrightarrow> opn \<noteq> None \<Longrightarrow> cap \<noteq> None
   \<Longrightarrow> cap' \<noteq> None"
  by (induction ic ps s pos opn cap rule: matchHere.induct)
     (auto split: if_splits option.splits)

lemma matchHere_closes:
  "matchHere ic ps s pos opn cap = Some (rest, cap') \<Longrightarrow> opn \<noteq> None \<Longrightarrow> GroupClose \<in> set ps
   \<Longrightarrow> cap' \<noteq> None"
proof (induction ic ps s pos opn cap rule: matchHere.induct)
  case (11 ic ps s pos opn cap)
  then show ?case
    using matchHere_keeps_capture by (cases opn) fastforce+
qed (auto split: if_splits option.splits)

lemma matchHere_opens:
  "matchHere ic ps s pos opn cap = Some (rest, cap') \<Longrightarrow> hasGroup ps \<Longrightarrow> cap' \<noteq> None"
proof (induction ic ps s pos opn cap rule: matchHere.induct)
  case (10 ic ps s pos opn cap)
  then show ?case using matchHere_closes by fastforce
qed (auto split: if_splits option.splits)

lemma searchFrom_length:
  "searchFrom ic ps s pos = Some m \<Longrightarrow> hasGroup ps \<Longrightarrow> length m = 2"
  by (induction ic ps s pos rule: searchFrom.induct)
     (auto split: option.splits dest: matchHere_opens)

lemma str_match_group:
  "str_match s re = Some m \<Longrightarrow> hasGroup (pieces re) \<Longrightarrow> length m = 2"
  unfolding str_match_def by (rule searchFrom_length)

text \<open>Every pattern whose match is read at index 1 has the group.\<close>

lemma patterns_read_at_1_have_group:
  "list_all (\<lambda>re. hasGroup (pieces re))
     [re_button_content, re_link_content, re_text_between_tags, re_role, re_aria_labelledby,
      re_aria_describedby, re_aria_expanded, re_negative_tabindex, re_positive_tabindex,
      re_tabindex, re_heading, re_aria_label, re_autocomplete, re_type, re_img_src]"
  by (simp add: re_button_content_def re_link_content_def re_text_between_tags_def re_role_def
      re_aria_labelledby_def re_aria_describedby_def re_aria_expanded_def
      re_negative_tabindex_def re_positive_tabindex_def re_tabindex_def re_heading_def
      re_aria_label_def re_autocomplete_def re_type_def re_img_src_def lits_def)

section \<open>Unfolding the detectors on concrete lines\<close>

lemmas regex_defs = str_match_def regexp_test_def str_match_global_length_def lits_def
  inRange_def toLowerCase_def toLowerCase_char_def toUpperCase_char_def

lemmas aria_defs = checkAriaLabelAndRole_def checkMissingAriaLabel_def checkEmptyAriaLabel_def
  checkRedundantAriaLabel_def checkInvalidRole_def checkRedundantRole_def
  checkMissingAriaLabelledbyReference_def checkMissingAriaDescribedbyReference_def
  checkMissingAriaExpanded_def checkIncorrectAriaExpanded_def
  checkMissingAriaHiddenOnDecorative_def checkConflictingAriaHiddenAndRole_def
  checkMissingAriaDisabled_def checkMissingAriaRequired_def checkMissingAriaInvalid_def
  checkEmptyButtonElements_def INTERACTIVE_ELEMENTS_def VALID_ROLES_def
  re_button_content_def re_link_content_def re_text_between_tags_def re_role_def
  re_aria_labelledby_def re_aria_describedby_def re_aria_expanded_def re_blank_def

lemmas tabindex_defs = checkTabIndex_def checkNegativeTabIndex_def
  checkTabIndexZeroOnNonInteractive_def checkMissingTabIndexOnCustomInteractive_def
  checkRedundantTabIndexOnFocusable_def checkPositiveTabIndex_def
  checkMissingTabIndexOnClickable_def checkDisabledElementWithTabIndex_def
  checkTabIndexOnHiddenElement_def checkTabIndexOnDecorativeElement_def
  checkInconsistentTabIndexUsage_def checkMissingTabIndexOnModalTrigger_def
  checkTabIndexOnPresentationRole_def checkTabIndexOnNoneRole_def checkTabIndexOnAriaHidden_def
  checkMissingTabIndexOnCustomFormControl_def checkTabIndexOnNonInteractiveElement_def
  NATURALLY_FOCUSABLE_def NON_FOCUSABLE_def
  re_negative_tabindex_def re_positive_tabindex_def re_tabindex_def

lemmas image_defs = checkImages_def checkImageAltAttributes_def checkEmptyAltAttributes_def

lemmas form_defs = checkFormElements_def checkFormInputLabels_def checkFormLabels_def

lemmas other_defs = checkOtherAccessibility_def checkHeadingStructure_def
  checkHtmlLangAttribute_other_def checkKeyboardAccessibility_other_def
  checkColorOnlyInformation_other_def checkFocusIndicators_def

lemmas semantic_defs = checkSemanticHtml_def checkHeadingHierarchy_def checkHtmlLangAttribute_def
  checkListStructure_def checkTableStructure_def checkFormStructure_def checkButtonUsage_def
  checkLinkUsage_def checkLandmarkUsage_def checkSectioningElements_def
  checkNavigationStructure_def checkDocumentStructure_def
  re_h1_open_def re_heading_def re_button_element_def re_link_element_def
  parseInt_def show_int_def isDigit_def digitsValue_def arrow_def

section \<open>The severity classifier\<close>

text \<open>
  C3. \<open>getSeverity\<close> is a total function on strings: it sends HIGH to the error level,
  MEDIUM to the warning level, LOW to the informational level and every other string to
  the informational level; the three levels reached by HIGH, MEDIUM and LOW are pairwise
  distinct.
\<close>

theorem C3_getSeverity_total:
  "getSeverity ''HIGH'' = Error
   \<and> getSeverity ''MEDIUM'' = Warning
   \<and> getSeverity ''LOW'' = Information
   \<and> (sev \<noteq> ''HIGH'' \<and> sev \<noteq> ''MEDIUM'' \<and> sev \<noteq> ''LOW'' \<longrightarrow> getSeverity sev = Information)
   \<and> getSeverity ''HIGH'' \<noteq> getSeverity ''MEDIUM''
   \<and> getSeverity ''HIGH'' \<noteq> getSeverity ''LOW''
   \<and> getSeverity ''MEDIUM'' \<noteq> getSeverity ''LOW''"
  by (simp add: getSeverity_def)

theorem C3_getSeverity_total_witness:
  "''CRITICAL'' \<noteq> ''HIGH'' \<and> ''CRITICAL'' \<noteq> ''MEDIUM'' \<and> ''CRITICAL'' \<noteq> ''LOW''
   \<and> getSeverity ''CRITICAL'' = Information"
  using C3_getSeverity_total [of "''CRITICAL''"] by simp

section \<open>The image family\<close>

text \<open>
  C2. A line whose trimmed text contains \<open><img\<close> and no \<open>alt=\<close> gets exactly one
  issue from the image family, of severity HIGH, with the missing-alt message. A line
  containing \<open>alt=""\<close> or \<open>alt=''\<close> gets exactly one issue from the image family, of
  severity MEDIUM, with the empty-alt message, and the missing-alt detector returns
  nothing on it.
\<close>

theorem C2_image_family:
  "(str_includes (trim ln) ''<img'' \<and> \<not> str_includes (trim ln) ''alt='' \<longrightarrow>
      (\<exists>x. checkImages ln n = [x] \<and> severity x = ''HIGH''
           \<and> issue x = ''Missing alt attribute on image....''))
   \<and> (str_includes ln (''alt='' @ [dq, dq]) \<or> str_includes ln (''alt='' @ [sq, sq]) \<longrightarrow>
      (\<exists>x. checkImages ln n = [x] \<and> severity x = ''MEDIUM''
           \<and> issue x = ''Empty alt attribute - consider if image is decorative or needs description'')
      \<and> checkImageAltAttributes ln n = None)"
proof (intro conjI impI)
  assume a: "str_includes (trim ln) ''<img'' \<and> \<not> str_includes (trim ln) ''alt=''"
  have "\<not> str_includes (trim ln) (''alt='' @ [dq, dq])"
  proof
    assume "str_includes (trim ln) (''alt='' @ [dq, dq])"
    then obtain ps ss where "trim ln = ps @ (''alt='' @ [dq, dq]) @ ss"
      by (auto simp: str_includes_iff)
    then have "trim ln = ps @ ''alt='' @ ([dq, dq] @ ss)" by simp
    then have "str_includes (trim ln) ''alt=''" unfolding str_includes_iff by blast
    with a show False by simp
  qed
  moreover have "\<not> str_includes (trim ln) (''alt='' @ [sq, sq])"
  proof
    assume "str_includes (trim ln) (''alt='' @ [sq, sq])"
    then obtain ps ss where "trim ln = ps @ (''alt='' @ [sq, sq]) @ ss"
      by (auto simp: str_includes_iff)
    then have "trim ln = ps @ ''alt='' @ ([sq, sq] @ ss)" by simp
    then have "str_includes (trim ln) ''alt=''" unfolding str_includes_iff by blast
    with a show False by simp
  qed
  ultimately show "\<exists>x. checkImages ln n = [x] \<and> severity x = ''HIGH''
      \<and> issue x = ''Missing alt attribute on image....''"
    using a by (simp add: checkImages_def checkImageAltAttributes_def checkEmptyAltAttributes_def)
next
  assume b: "str_includes ln (''alt='' @ [dq, dq]) \<or> str_includes ln (''alt='' @ [sq, sq])"
  have t1: "str_includes (trim ln) (''alt='' @ [dq, dq]) = str_includes ln (''alt='' @ [dq, dq])"
    by (rule str_includes_trim) (simp_all add: isWhiteSpace_def)
  have t2: "str_includes (trim ln) (''alt='' @ [sq, sq]) = str_includes ln (''alt='' @ [sq, sq])"
    by (rule str_includes_trim) (simp_all add: isWhiteSpace_def)
  from b t1 t2 have e: "str_includes (trim ln) (''alt='' @ [dq, dq])
      \<or> str_includes (trim ln) (''alt='' @ [sq, sq])" by simp
  then obtain q ps ss where "trim ln = ps @ (''alt='' @ [q, q]) @ ss"
    by (auto simp: str_includes_iff)
  then have "trim ln = ps @ ''alt='' @ ([q, q] @ ss)" by simp
  then have alt: "str_includes (trim ln) ''alt=''" unfolding str_includes_iff by blast
  then show none: "checkImageAltAttributes ln n = None"
    by (simp add: checkImageAltAttributes_def)
  show "\<exists>x. checkImages ln n = [x] \<and> severity x = ''MEDIUM''
      \<and> issue x = ''Empty alt attribute - consider if image is decorative or needs description''"
    using e none by (auto simp: checkImages_def checkEmptyAltAttributes_def)
qed

theorem C2_image_family_witness:
  \<open>(\<exists>x. checkImages ''  <img src="x.png">'' 4 = [x] \<and> severity x = ''HIGH''
        \<and> issue x = ''Missing alt attribute on image....'')
   \<and> (\<exists>x. checkImages ''<img src="x.png" alt="">'' 0 = [x] \<and> severity x = ''MEDIUM''
        \<and> issue x = ''Empty alt attribute - consider if image is decorative or needs description'')
   \<and> checkImageAltAttributes ''<img src="x.png" alt="">'' 0 = None\<close>
proof -
  have h1: \<open>str_includes (trim ''  <img src="x.png">'') ''<img''
      \<and> \<not> str_includes (trim ''  <img src="x.png">'') ''alt=''\<close>
    by (simp add: trim_def isWhiteSpace_def)
  have h2: \<open>str_includes ''<img src="x.png" alt="">'' (''alt='' @ [dq, dq])
      \<or> str_includes ''<img src="x.png" alt="">'' (''alt='' @ [sq, sq])\<close>
    by simp
  from h1 h2 show ?thesis
    using C2_image_family [of \<open>''  <img src="x.png">''\<close> 4]
      C2_image_family [of \<open>''<img src="x.png" alt="">''\<close> 0]
    by blast
qed

section \<open>The heading detector of the other family\<close>

text \<open>
  C10. Called as the aggregator calls it, on a line of the text it is given as
  \<open>fullText\<close>, \<open>checkHeadingStructure\<close> returns nothing: it reports only when the
  trimmed line contains \<open><h1>\<close> and the full text does not, and a line of the text is
  part of the text. So no issue of the other family on such a line carries the message
  "Multiple h1 tags found - page should have only one h1".
\<close>

theorem C10_checkHeadingStructure_unreachable:
  assumes "ln \<in> set (split_lines fullText)"
  shows "checkHeadingStructure ln n fullText = None
     \<and> (\<forall>x \<in> set (checkOtherAccessibility ln n fullText).
           issue x \<noteq> ''Multiple h1 tags found - page should have only one h1'')"
proof
  have "str_includes (trim ln) ''<h1>'' \<Longrightarrow> str_includes fullText ''<h1>''"
    using assms by (rule str_includes_line_imp_text)
  then show none: "checkHeadingStructure ln n fullText = None"
    by (auto simp: checkHeadingStructure_def Let_def)
  show "\<forall>x \<in> set (checkOtherAccessibility ln n fullText).
           issue x \<noteq> ''Multiple h1 tags found - page should have only one h1''"
    unfolding checkOtherAccessibility_def pushChecks_eq none
    by (auto simp: checkHtmlLangAttribute_other_def checkKeyboardAccessibility_other_def
        checkColorOnlyInformation_other_def checkFocusIndicators_def Let_def)
qed

theorem C10_checkHeadingStructure_unreachable_witness:
  "''<h1>Title</h1>'' \<in> set (split_lines (''<h1>Title</h1>'' @ [CHR 0x0A] @ ''<p>x</p>''))
   \<and> checkHeadingStructure ''<h1>Title</h1>'' 0 (''<h1>Title</h1>'' @ [CHR 0x0A] @ ''<p>x</p>'') = None"
proof -
  have h: "''<h1>Title</h1>'' \<in> set (split_lines (''<h1>Title</h1>'' @ [CHR 0x0A] @ ''<p>x</p>''))"
    by simp
  from h show ?thesis
    using C10_checkHeadingStructure_unreachable [OF h, of 0] by blast
qed

section \<open>Every detector reports the whole line\<close>

lemma wholeLineOpt_None: "wholeLineOpt ln n None"
  by (simp add: wholeLineOpt_def)

lemma wholeLineOpt_Some:
  "wholeLineOpt ln n (Some \<lparr>line = n + 1, issue = t, severity = s,
                            range = vscode_Range n 0 n (length ln)\<rparr>)"
  by (simp add: wholeLineOpt_def wholeLine_def vscode_Range_def)

lemma wholeLineOpt_if:
  "wholeLineOpt ln n a \<Longrightarrow> wholeLineOpt ln n b \<Longrightarrow> wholeLineOpt ln n (if c then a else b)"
  by simp

lemma wholeLineOpt_case:
  "wholeLineOpt ln n a \<Longrightarrow> (\<And>v. wholeLineOpt ln n (f v))
   \<Longrightarrow> wholeLineOpt ln n (case m of None \<Rightarrow> a | Some v \<Rightarrow> f v)"
  by (cases m) simp_all

lemma wholeLineOpt_first:
  "wholeLineOpt ln n m \<Longrightarrow> wholeLineOpt ln n b
   \<Longrightarrow> wholeLineOpt ln n (case m of None \<Rightarrow> b | Some found \<Rightarrow> Some found)"
  by (cases m) simp_all

lemmas wholeLineOpt_intros =
  wholeLineOpt_None wholeLineOpt_Some wholeLineOpt_if wholeLineOpt_case

lemma pushChecks_wholeLine:
  assumes "\<forall>c \<in> set checks. wholeLineOpt ln n c"
  shows "\<forall>x \<in> set (pushChecks checks []). wholeLine ln n x"
  using assms unfolding pushChecks_eq by (auto simp: wholeLineOpt_def)

lemma span_checkImageAltAttributes: "wholeLineOpt ln n (checkImageAltAttributes ln n)"
  unfolding checkImageAltAttributes_def Let_def by (intro wholeLineOpt_intros)

lemma span_checkEmptyAltAttributes: "wholeLineOpt ln n (checkEmptyAltAttributes ln n)"
  unfolding checkEmptyAltAttributes_def Let_def by (intro wholeLineOpt_intros)

lemma span_checkMissingAriaLabel: "wholeLineOpt ln n (checkMissingAriaLabel ln n)"
  unfolding checkMissingAriaLabel_def Let_def by (intro wholeLineOpt_intros)

lemma span_checkEmptyAriaLabel: "wholeLineOpt ln n (checkEmptyAriaLabel ln n)"
  unfolding checkEmptyAriaLabel_def Let_def by (intro wholeLineOpt_intros)

lemma span_checkRedundantAriaLabel: "wholeLineOpt ln n (checkRedundantAriaLabel ln n)"
  unfolding checkRedundantAriaLabel_def Let_def by (intro wholeLineOpt_intros)

lemma span_checkInvalidRole: "wholeLineOpt ln n (checkInvalidRole ln n)"
  unfolding checkInvalidRole_def Let_def by (intro wholeLineOpt_intros)

lemma span_checkRedundantRole: "wholeLineOpt ln n (checkRedundantRole ln n)"
  unfolding checkRedundantRole_def Let_def by (intro wholeLineOpt_intros)

lemma span_checkMissingAriaLabelledbyReference: "wholeLineOpt ln n (checkMissingAriaLabelledbyReference ln n t)"
  unfolding checkMissingAriaLabelledbyReference_def Let_def by (intro wholeLineOpt_intros)

lemma span_checkMissingAriaDescribedbyReference: "wholeLineOpt ln n (checkMissingAriaDescribedbyReference ln n t)"
  unfolding checkMissingAriaDescribedbyReference_def Let_def by (intro wholeLineOpt_intros)

lemma span_checkMissingAriaExpanded: "wholeLineOpt ln n (checkMissingAriaExpanded ln n)"
  unfolding checkMissingAriaExpanded_def Let_def by (intro wholeLineOpt_intros)

lemma span_checkIncorrectAriaExpanded: "wholeLineOpt ln n (checkIncorrectAriaExpanded ln n)"
  unfolding checkIncorrectAriaExpanded_def Let_def by (intro wholeLineOpt_intros)

lemma span_checkMissingAriaHiddenOnDecorative: "wholeLineOpt ln n (checkMissingAriaHiddenOnDecorative ln n)"
  unfolding checkMissingAriaHiddenOnDecorative_def Let_def by (intro wholeLineOpt_intros)

lemma span_checkConflictingAriaHiddenAndRole: "wholeLineOpt ln n (checkConflictingAriaHiddenAndRole ln n)"
  unfolding checkConflictingAriaHiddenAndRole_def Let_def by (intro wholeLineOpt_intros)

lemma span_checkMissingAriaDisabled: "wholeLineOpt ln n (checkMissingAriaDisabled ln n)"
  unfolding checkMissingAriaDisabled_def Let_def by (intro wholeLineOpt_intros)

lemma span_checkMissingAriaRequired: "wholeLineOpt ln n (checkMissingAriaRequired ln n)"
  unfolding checkMissingAriaRequired_def Let_def by (intro wholeLineOpt_intros)

lemma span_checkMissingAriaInvalid: "wholeLineOpt ln n (checkMissingAriaInvalid ln n)"
  unfolding checkMissingAriaInvalid_def Let_def by (intro wholeLineOpt_intros)

lemma span_checkEmptyButtonElements: "wholeLineOpt ln n (checkEmptyButtonElements ln n)"
  unfolding checkEmptyButtonElements_def Let_def by (intro wholeLineOpt_intros)

lemma span_checkNegativeTabIndex: "wholeLineOpt ln n (checkNegativeTabIndex ln n)"
  unfolding checkNegativeTabIndex_def Let_def by (intro wholeLineOpt_intros)

lemma span_checkTabIndexZeroOnNonInteractive: "wholeLineOpt ln n (checkTabIndexZeroOnNonInteractive ln n)"
  unfolding checkTabIndexZeroOnNonInteractive_def Let_def by (intro wholeLineOpt_intros)

lemma span_checkMissingTabIndexOnCustomInteractive: "wholeLineOpt ln n (checkMissingTabIndexOnCustomInteractive ln n)"
  unfolding checkMissingTabIndexOnCustomInteractive_def Let_def by (intro wholeLineOpt_intros)

lemma span_checkRedundantTabIndexOnFocusable: "wholeLineOpt ln n (checkRedundantTabIndexOnFocusable ln n)"
  unfolding checkRedundantTabIndexOnFocusable_def Let_def by (intro wholeLineOpt_intros)

lemma span_checkPositiveTabIndex: "wholeLineOpt ln n (checkPositiveTabIndex ln n)"
  unfolding checkPositiveTabIndex_def Let_def by (intro wholeLineOpt_intros)

lemma span_checkMissingTabIndexOnClickable: "wholeLineOpt ln n (checkMissingTabIndexOnClickable ln n)"
  unfolding checkMissingTabIndexOnClickable_def Let_def by (intro wholeLineOpt_intros)

lemma span_checkDisabledElementWithTabIndex: "wholeLineOpt ln n (checkDisabledElementWithTabIndex ln n)"
  unfolding checkDisabledElementWithTabIndex_def Let_def by (intro wholeLineOpt_intros)

lemma span_checkTabIndexOnHiddenElement: "wholeLineOpt ln n (checkTabIndexOnHiddenElement ln n)"
  unfolding checkTabIndexOnHiddenElement_def Let_def by (intro wholeLineOpt_intros)

lemma span_checkTabIndexOnDecorativeElement: "wholeLineOpt ln n (checkTabIndexOnDecorativeElement ln n)"
  unfolding checkTabIndexOnDecorativeElement_def Let_def by (intro wholeLineOpt_intros)

lemma span_checkInconsistentTabIndexUsage: "wholeLineOpt ln n (checkInconsistentTabIndexUsage ln n)"
  unfolding checkInconsistentTabIndexUsage_def Let_def by (intro wholeLineOpt_intros)

lemma span_checkMissingTabIndexOnModalTrigger: "wholeLineOpt ln n (checkMissingTabIndexOnModalTrigger ln n)"
  unfolding checkMissingTabIndexOnModalTrigger_def Let_def by (intro wholeLineOpt_intros)

lemma span_checkTabIndexOnPresentationRole: "wholeLineOpt ln n (checkTabIndexOnPresentationRole ln n)"
  unfolding checkTabIndexOnPresentationRole_def Let_def by (intro wholeLineOpt_intros)

lemma span_checkTabIndexOnNoneRole: "wholeLineOpt ln n (checkTabIndexOnNoneRole ln n)"
  unfolding checkTabIndexOnNoneRole_def Let_def by (intro wholeLineOpt_intros)

lemma span_checkTabIndexOnAriaHidden: "wholeLineOpt ln n (checkTabIndexOnAriaHidden ln n)"
  unfolding checkTabIndexOnAriaHidden_def Let_def by (intro wholeLineOpt_intros)

lemma span_checkMissingTabIndexOnCustomFormControl: "wholeLineOpt ln n (checkMissingTabIndexOnCustomFormControl ln n)"
  unfolding checkMissingTabIndexOnCustomFormControl_def Let_def by (intro wholeLineOpt_intros)

lemma span_checkTabIndexOnNonInteractiveElement: "wholeLineOpt ln n (checkTabIndexOnNonInteractiveElement ln n)"
  unfolding checkTabIndexOnNonInteractiveElement_def Let_def by (intro wholeLineOpt_intros)

lemma span_checkFormInputLabels: "wholeLineOpt ln n (checkFormInputLabels ln n)"
  unfolding checkFormInputLabels_def Let_def by (intro wholeLineOpt_intros)

lemma span_checkFormLabels: "wholeLineOpt ln n (checkFormLabels ln n)"
  unfolding checkFormLabels_def Let_def by (intro wholeLineOpt_intros)

lemma span_checkHeadingStructure: "wholeLineOpt ln n (checkHeadingStructure ln n t)"
  unfolding checkHeadingStructure_def Let_def by (intro wholeLineOpt_intros)

lemma span_checkHtmlLangAttribute_other: "wholeLineOpt ln n (checkHtmlLangAttribute_other ln n)"
  unfolding checkHtmlLangAttribute_other_def Let_def by (intro wholeLineOpt_intros)

lemma span_checkKeyboardAccessibility_other: "wholeLineOpt ln n (checkKeyboardAccessibility_other ln n)"
  unfolding checkKeyboardAccessibility_other_def Let_def by (intro wholeLineOpt_intros)

lemma span_checkColorOnlyInformation_other: "wholeLineOpt ln n (checkColorOnlyInformation_other ln n)"
  unfolding checkColorOnlyInformation_other_def Let_def by (intro wholeLineOpt_intros)

lemma span_checkFocusIndicators: "wholeLineOpt ln n (checkFocusIndicators ln n)"
  unfolding checkFocusIndicators_def Let_def by (intro wholeLineOpt_intros)

lemma span_checkHeadingHierarchy: "wholeLineOpt ln n (checkHeadingHierarchy ln n t)"
  unfolding checkHeadingHierarchy_def Let_def by (intro wholeLineOpt_first wholeLineOpt_intros)

lemma span_checkHtmlLangAttribute: "wholeLineOpt ln n (checkHtmlLangAttribute ln n)"
  unfolding checkHtmlLangAttribute_def Let_def by (intro wholeLineOpt_intros)

lemma span_checkListStructure: "wholeLineOpt ln n (checkListStructure ln n)"
  unfolding checkListStructure_def Let_def by (intro wholeLineOpt_intros)

lemma span_checkTableStructure: "wholeLineOpt ln n (checkTableStructure ln n)"
  unfolding checkTableStructure_def Let_def by (intro wholeLineOpt_intros)

lemma span_checkFormStructure: "wholeLineOpt ln n (checkFormStructure ln n)"
  unfolding checkFormStructure_def Let_def by (intro wholeLineOpt_intros)

lemma span_checkButtonUsage: "wholeLineOpt ln n (checkButtonUsage ln n)"
  unfolding checkButtonUsage_def Let_def by (intro wholeLineOpt_intros)

lemma span_checkLinkUsage: "wholeLineOpt ln n (checkLinkUsage ln n)"
  unfolding checkLinkUsage_def Let_def by (intro wholeLineOpt_intros)

lemma span_checkLandmarkUsage: "wholeLineOpt ln n (checkLandmarkUsage ln n)"
  unfolding checkLandmarkUsage_def Let_def by (intro wholeLineOpt_intros)

lemma span_checkSectioningElements: "wholeLineOpt ln n (checkSectioningElements ln n)"
  unfolding checkSectioningElements_def Let_def by (intro wholeLineOpt_intros)

lemma span_checkNavigationStructure: "wholeLineOpt ln n (checkNavigationStructure ln n)"
  unfolding checkNavigationStructure_def Let_def by (intro wholeLineOpt_intros)

lemma span_checkDocumentStructure: "wholeLineOpt ln n (checkDocumentStructure ln n t)"
  unfolding checkDocumentStructure_def Let_def by (intro wholeLineOpt_intros)

lemma span_checkKeyboardAccessibility: "wholeLineOpt ln n (checkKeyboardAccessibility ln n)"
  unfolding checkKeyboardAccessibility_def Let_def by (intro wholeLineOpt_intros)

lemma span_checkKeyboardTrap: "wholeLineOpt ln n (checkKeyboardTrap ln n)"
  unfolding checkKeyboardTrap_def Let_def by (intro wholeLineOpt_intros)

lemma span_checkMissingKeyboardHandlers: "wholeLineOpt ln n (checkMissingKeyboardHandlers ln n)"
  unfolding checkMissingKeyboardHandlers_def Let_def by (intro wholeLineOpt_intros)

lemma span_checkKeyboardNavigationOrder: "wholeLineOpt ln n (checkKeyboardNavigationOrder ln n)"
  unfolding checkKeyboardNavigationOrder_def Let_def by (intro wholeLineOpt_intros)

lemma span_checkMissingSkipLinks: "wholeLineOpt ln n (checkMissingSkipLinks ln n t)"
  unfolding checkMissingSkipLinks_def Let_def by (intro wholeLineOpt_intros)

lemma span_checkKeyboardShortcuts: "wholeLineOpt ln n (checkKeyboardShortcuts ln n)"
  unfolding checkKeyboardShortcuts_def Let_def by (intro wholeLineOpt_intros)

lemma span_checkAriaKeyboardNavigation: "wholeLineOpt ln n (checkAriaKeyboardNavigation ln n)"
  unfolding checkAriaKeyboardNavigation_def Let_def by (intro wholeLineOpt_intros)

lemma span_checkFormKeyboardNavigation: "wholeLineOpt ln n (checkFormKeyboardNavigation ln n)"
  unfolding checkFormKeyboardNavigation_def Let_def by (intro wholeLineOpt_intros)

lemma span_checkFocusOrder: "wholeLineOpt ln n (checkFocusOrder ln n)"
  unfolding checkFocusOrder_def Let_def by (intro wholeLineOpt_intros)

lemma span_checkFocusTrap: "wholeLineOpt ln n (checkFocusTrap ln n)"
  unfolding checkFocusTrap_def Let_def by (intro wholeLineOpt_intros)

lemma span_checkMissingFocusIndicators: "wholeLineOpt ln n (checkMissingFocusIndicators ln n)"
  unfolding checkMissingFocusIndicators_def Let_def by (intro wholeLineOpt_intros)

lemma span_checkDynamicFocusManagement: "wholeLineOpt ln n (checkDynamicFocusManagement ln n)"
  unfolding checkDynamicFocusManagement_def Let_def by (intro wholeLineOpt_intros)

lemma span_checkAriaFocusManagement: "wholeLineOpt ln n (checkAriaFocusManagement ln n)"
  unfolding checkAriaFocusManagement_def Let_def by (intro wholeLineOpt_intros)

lemma span_checkFormFocusManagement: "wholeLineOpt ln n (checkFormFocusManagement ln n)"
  unfolding checkFormFocusManagement_def Let_def by (intro wholeLineOpt_intros)

lemma span_checkSPAFocusManagement: "wholeLineOpt ln n (checkSPAFocusManagement ln n)"
  unfolding checkSPAFocusManagement_def Let_def by (intro wholeLineOpt_intros)

lemma span_checkCollapsibleFocusManagement: "wholeLineOpt ln n (checkCollapsibleFocusManagement ln n)"
  unfolding checkCollapsibleFocusManagement_def Let_def by (intro wholeLineOpt_intros)

lemma span_checkTableFocusManagement: "wholeLineOpt ln n (checkTableFocusManagement ln n)"
  unfolding checkTableFocusManagement_def Let_def by (intro wholeLineOpt_intros)

lemma span_checkLabelNameConsistencyIssue: "wholeLineOpt ln n (checkLabelNameConsistencyIssue ln n)"
  unfolding checkLabelNameConsistencyIssue_def Let_def by (intro wholeLineOpt_intros)

lemma span_checkMissingAccessibleNames: "wholeLineOpt ln n (checkMissingAccessibleNames ln n)"
  unfolding checkMissingAccessibleNames_def Let_def by (intro wholeLineOpt_intros)

lemma span_checkRedundantAccessibleNames: "wholeLineOpt ln n (checkRedundantAccessibleNames ln n)"
  unfolding checkRedundantAccessibleNames_def Let_def by (intro wholeLineOpt_intros)

lemma span_checkConflictingAccessibleNames: "wholeLineOpt ln n (checkConflictingAccessibleNames ln n)"
  unfolding checkConflictingAccessibleNames_def Let_def by (intro wholeLineOpt_intros)

lemma span_checkEmptyAccessibleNames: "wholeLineOpt ln n (checkEmptyAccessibleNames ln n)"
  unfolding checkEmptyAccessibleNames_def Let_def by (intro wholeLineOpt_intros)

lemma span_checkAccessibleNamesOnNonInteractive: "wholeLineOpt ln n (checkAccessibleNamesOnNonInteractive ln n)"
  unfolding checkAccessibleNamesOnNonInteractive_def Let_def by (intro wholeLineOpt_intros)

lemma span_checkFormElementAccessibleNames: "wholeLineOpt ln n (checkFormElementAccessibleNames ln n)"
  unfolding checkFormElementAccessibleNames_def Let_def by (intro wholeLineOpt_intros)

lemma span_checkCustomControlAccessibleNames: "wholeLineOpt ln n (checkCustomControlAccessibleNames ln n)"
  unfolding checkCustomControlAccessibleNames_def Let_def by (intro wholeLineOpt_intros)

lemma span_checkImageAccessibleNames: "wholeLineOpt ln n (checkImageAccessibleNames ln n)"
  unfolding checkImageAccessibleNames_def Let_def by (intro wholeLineOpt_intros)

lemma span_checkMissingAutocomplete: "wholeLineOpt ln n (checkMissingAutocomplete ln n)"
  unfolding checkMissingAutocomplete_def Let_def by (intro wholeLineOpt_intros)

lemma span_checkInvalidAutocomplete: "wholeLineOpt ln n (checkInvalidAutocomplete ln n)"
  unfolding checkInvalidAutocomplete_def Let_def by (intro wholeLineOpt_intros)

lemma span_checkInputTypeAutocompleteMismatch: "wholeLineOpt ln n (checkInputTypeAutocompleteMismatch ln n)"
  unfolding checkInputTypeAutocompleteMismatch_def Let_def by (intro wholeLineOpt_intros)

lemma span_checkPersonalInformationFields: "wholeLineOpt ln n (checkPersonalInformationFields ln n)"
  unfolding checkPersonalInformationFields_def Let_def by (intro wholeLineOpt_intros)

lemma span_checkFinancialFields: "wholeLineOpt ln n (checkFinancialFields ln n)"
  unfolding checkFinancialFields_def Let_def by (intro wholeLineOpt_intros)

lemma span_checkAuthenticationFields: "wholeLineOpt ln n (checkAuthenticationFields ln n)"
  unfolding checkAuthenticationFields_def Let_def by (intro wholeLineOpt_intros)

lemma span_checkContactFields: "wholeLineOpt ln n (checkContactFields ln n)"
  unfolding checkContactFields_def Let_def by (intro wholeLineOpt_intros)

lemma span_checkAddressFields: "wholeLineOpt ln n (checkAddressFields ln n)"
  unfolding checkAddressFields_def Let_def by (intro wholeLineOpt_intros)

lemma span_checkAutocompleteOffOnUserFields: "wholeLineOpt ln n (checkAutocompleteOffOnUserFields ln n)"
  unfolding checkAutocompleteOffOnUserFields_def Let_def by (intro wholeLineOpt_intros)

lemma span_checkColorContrastIssue: "wholeLineOpt ln n (checkColorContrastIssue ln n)"
  unfolding checkColorContrastIssue_def Let_def by (intro wholeLineOpt_intros)

lemma span_checkColorOnlyInformation: "wholeLineOpt ln n (checkColorOnlyInformation ln n)"
  unfolding checkColorOnlyInformation_def Let_def by (intro wholeLineOpt_intros)

lemma span_checkNonTextContrast: "wholeLineOpt ln n (checkNonTextContrast ln n)"
  unfolding checkNonTextContrast_def Let_def by (intro wholeLineOpt_intros)

lemma span_checkFocusIndicatorContrast: "wholeLineOpt ln n (checkFocusIndicatorContrast ln n)"
  unfolding checkFocusIndicatorContrast_def Let_def by (intro wholeLineOpt_intros)

lemma span_checkTextSpacing: "wholeLineOpt ln n (checkTextSpacing ln n)"
  unfolding checkTextSpacing_def Let_def by (intro wholeLineOpt_intros)

lemma span_checkImages: "\<forall>x \<in> set (checkImages ln n). wholeLine ln n x"
  unfolding checkImages_def by (rule pushChecks_wholeLine) (simp add: span_checkImageAltAttributes span_checkEmptyAltAttributes)

lemma span_checkAriaLabelAndRole: "\<forall>x \<in> set (checkAriaLabelAndRole ln n t). wholeLine ln n x"
  unfolding checkAriaLabelAndRole_def by (rule pushChecks_wholeLine) (simp add: span_checkMissingAriaLabel span_checkEmptyAriaLabel span_checkRedundantAriaLabel span_checkInvalidRole span_checkRedundantRole span_checkMissingAriaLabelledbyReference span_checkMissingAriaDescribedbyReference span_checkMissingAriaExpanded span_checkIncorrectAriaExpanded span_checkMissingAriaHiddenOnDecorative span_checkConflictingAriaHiddenAndRole span_checkMissingAriaDisabled span_checkMissingAriaRequired span_checkMissingAriaInvalid span_checkEmptyButtonElements)

lemma span_checkTabIndex: "\<forall>x \<in> set (checkTabIndex ln n). wholeLine ln n x"
  unfolding checkTabIndex_def by (rule pushChecks_wholeLine) (simp add: span_checkNegativeTabIndex span_checkTabIndexZeroOnNonInteractive span_checkMissingTabIndexOnCustomInteractive span_checkTabIndexOnPresentationRole span_checkTabIndexOnNoneRole span_checkTabIndexOnAriaHidden span_checkRedundantTabIndexOnFocusable span_checkPositiveTabIndex span_checkMissingTabIndexOnClickable span_checkDisabledElementWithTabIndex span_checkTabIndexOnHiddenElement span_checkMissingTabIndexOnModalTrigger span_checkMissingTabIndexOnCustomFormControl span_checkTabIndexOnDecorativeElement span_checkInconsistentTabIndexUsage span_checkTabIndexOnNonInteractiveElement)

lemma span_checkFormElements: "\<forall>x \<in> set (checkFormElements ln n). wholeLine ln n x"
  unfolding checkFormElements_def by (rule pushChecks_wholeLine) (simp add: span_checkFormInputLabels span_checkFormLabels)

lemma span_checkOtherAccessibility: "\<forall>x \<in> set (checkOtherAccessibility ln n t). wholeLine ln n x"
  unfolding checkOtherAccessibility_def by (rule pushChecks_wholeLine) (simp add: span_checkHeadingStructure span_checkHtmlLangAttribute_other span_checkKeyboardAccessibility_other span_checkColorOnlyInformation_other span_checkFocusIndicators)

lemma span_checkSemanticHtml: "\<forall>x \<in> set (checkSemanticHtml ln n t). wholeLine ln n x"
  unfolding checkSemanticHtml_def by (rule pushChecks_wholeLine) (simp add: span_checkHeadingHierarchy span_checkHtmlLangAttribute span_checkListStructure span_checkTableStructure span_checkFormStructure span_checkButtonUsage span_checkLinkUsage span_checkLandmarkUsage span_checkSectioningElements span_checkNavigationStructure span_checkDocumentStructure)

lemma span_checkKeyboardNavigation: "\<forall>x \<in> set (checkKeyboardNavigation ln n t). wholeLine ln n x"
  unfolding checkKeyboardNavigation_def by (rule pushChecks_wholeLine) (simp add: span_checkKeyboardAccessibility span_checkKeyboardTrap span_checkMissingKeyboardHandlers span_checkKeyboardNavigationOrder span_checkMissingSkipLinks span_checkKeyboardShortcuts span_checkAriaKeyboardNavigation span_checkFormKeyboardNavigation)

lemma span_checkFocusManagement: "\<forall>x \<in> set (checkFocusManagement ln n). wholeLine ln n x"
  unfolding checkFocusManagement_def by (rule pushChecks_wholeLine) (simp add: span_checkFocusOrder span_checkFocusTrap span_checkMissingFocusIndicators span_checkDynamicFocusManagement span_checkAriaFocusManagement span_checkFormFocusManagement span_checkSPAFocusManagement span_checkCollapsibleFocusManagement span_checkTableFocusManagement)

lemma span_checkLabelNameConsistency: "\<forall>x \<in> set (checkLabelNameConsistency ln n). wholeLine ln n x"
  unfolding checkLabelNameConsistency_def by (rule pushChecks_wholeLine) (simp add: span_checkLabelNameConsistencyIssue span_checkMissingAccessibleNames span_checkRedundantAccessibleNames span_checkConflictingAccessibleNames span_checkEmptyAccessibleNames span_checkAccessibleNamesOnNonInteractive span_checkFormElementAccessibleNames span_checkCustomControlAccessibleNames span_checkImageAccessibleNames)

lemma span_checkInputPurpose: "\<forall>x \<in> set (checkInputPurpose ln n). wholeLine ln n x"
  unfolding checkInputPurpose_def by (rule pushChecks_wholeLine) (simp add: span_checkMissingAutocomplete span_checkInvalidAutocomplete span_checkInputTypeAutocompleteMismatch span_checkPersonalInformationFields span_checkFinancialFields span_checkAuthenticationFields span_checkContactFields span_checkAddressFields span_checkAutocompleteOffOnUserFields)

lemma span_checkColorContrastIssues: "\<forall>x \<in> set (checkColorContrastIssues ln n). wholeLine ln n x"
  unfolding checkColorContrastIssues_def by (rule pushChecks_wholeLine) (simp add: span_checkColorContrastIssue span_checkColorOnlyInformation span_checkNonTextContrast span_checkFocusIndicatorContrast span_checkTextSpacing)

section \<open>The aggregator\<close>

lemma pushChecks_concat:
  "pushChecks checks [] = concat (map (\<lambda>c. case c of None \<Rightarrow> [] | Some x \<Rightarrow> [x]) checks)"
  unfolding pushChecks_eq by (induction checks) auto

lemma pushIssues_eq:
  "pushIssues new (issues, diagnostics) = (issues @ new, diagnostics @ map toDiagnostic new)"
  by (induction new arbitrary: issues diagnostics) (simp_all add: toDiagnostic_def)

lemma forEachLine_eq:
  "forEachLine lines index text (issues, diagnostics) =
     (issues @ concat (map (\<lambda>(i, ln). allIssues ln i text) (enumerate index lines)),
      diagnostics @ map toDiagnostic (concat (map (\<lambda>(i, ln). allIssues ln i text) (enumerate index lines))))"
  by (induction lines arbitrary: index issues diagnostics) (simp_all add: pushIssues_eq)


lemma allIssues_registry:
  "allIssues ln n text =
     concat (map (\<lambda>family.
       concat (map (\<lambda>detector. (case detector ln n text of None \<Rightarrow> [] | Some x \<Rightarrow> [x])) family))
       registry)"
  by (simp add: allIssues_def registry_def checkImages_def checkFormElements_def
      checkOtherAccessibility_def checkAriaLabelAndRole_def checkTabIndex_def
      checkSemanticHtml_def pushChecks_concat)

lemma issues_enumerate:
  "fst (checkAccessibilityIssues document dc) =
     concat (map (\<lambda>(i, ln). allIssues ln i (getText document))
                 (enumerate 0 (split_lines (getText document))))"
  by (simp add: checkAccessibilityIssues_def forEachLine_eq Let_def)


lemma diagnostics_replaced:
  "snd (checkAccessibilityIssues document dc) =
     dc(uri document \<mapsto> map toDiagnostic (fst (checkAccessibilityIssues document dc)))"
  by (simp add: checkAccessibilityIssues_def forEachLine_eq Let_def)

lemma allDetectors_wholeLine:
  "d \<in> set allDetectors \<Longrightarrow> wholeLineOpt ln n (d ln n t)"
  unfolding allDetectors_def registry_def unregistered_def
  by (auto simp: span_checkImageAltAttributes span_checkEmptyAltAttributes span_checkMissingAriaLabel span_checkEmptyAriaLabel span_checkRedundantAriaLabel span_checkInvalidRole span_checkRedundantRole span_checkMissingAriaLabelledbyReference span_checkMissingAriaDescribedbyReference span_checkMissingAriaExpanded span_checkIncorrectAriaExpanded span_checkMissingAriaHiddenOnDecorative span_checkConflictingAriaHiddenAndRole span_checkMissingAriaDisabled span_checkMissingAriaRequired span_checkMissingAriaInvalid span_checkEmptyButtonElements span_checkNegativeTabIndex span_checkTabIndexZeroOnNonInteractive span_checkMissingTabIndexOnCustomInteractive span_checkRedundantTabIndexOnFocusable span_checkPositiveTabIndex span_checkMissingTabIndexOnClickable span_checkDisabledElementWithTabIndex span_checkTabIndexOnHiddenElement span_checkTabIndexOnDecorativeElement span_checkInconsistentTabIndexUsage span_checkMissingTabIndexOnModalTrigger span_checkTabIndexOnPresentationRole span_checkTabIndexOnNoneRole span_checkTabIndexOnAriaHidden span_checkMissingTabIndexOnCustomFormControl span_checkTabIndexOnNonInteractiveElement span_checkFormInputLabels span_checkFormLabels span_checkHeadingStructure span_checkHtmlLangAttribute_other span_checkKeyboardAccessibility_other span_checkColorOnlyInformation_other span_checkFocusIndicators span_checkHeadingHierarchy span_checkHtmlLangAttribute span_checkListStructure span_checkTableStructure span_checkFormStructure span_checkButtonUsage span_checkLinkUsage span_checkLandmarkUsage span_checkSectioningElements span_checkNavigationStructure span_checkDocumentStructure span_checkKeyboardAccessibility span_checkKeyboardTrap span_checkMissingKeyboardHandlers span_checkKeyboardNavigationOrder span_checkMissingSkipLinks span_checkKeyboardShortcuts span_checkAriaKeyboardNavigation span_checkFormKeyboardNavigation span_checkFocusOrder span_checkFocusTrap span_checkMissingFocusIndicators span_checkDynamicFocusManagement span_checkAriaFocusManagement span_checkFormFocusManagement span_checkSPAFocusManagement span_checkCollapsibleFocusManagement span_checkTableFocusManagement span_checkLabelNameConsistencyIssue span_checkMissingAccessibleNames span_checkRedundantAccessibleNames span_checkConflictingAccessibleNames span_checkEmptyAccessibleNames span_checkAccessibleNamesOnNonInteractive span_checkFormElementAccessibleNames span_checkCustomControlAccessibleNames span_checkImageAccessibleNames span_checkMissingAutocomplete span_checkInvalidAutocomplete span_checkInputTypeAutocompleteMismatch span_checkPersonalInformationFields span_checkFinancialFields span_checkAuthenticationFields span_checkContactFields span_checkAddressFields span_checkAutocompleteOffOnUserFields span_checkColorContrastIssue span_checkColorOnlyInformation span_checkNonTextContrast span_checkFocusIndicatorContrast span_checkTextSpacing)

lemma allIssues_wholeLine:
  assumes "x \<in> set (allIssues ln n text)"
  shows "wholeLine ln n x"
proof -
  from assms obtain family d where f: "family \<in> set registry" and d: "d \<in> set family"
    and x: "d ln n text = Some x"
    unfolding allIssues_registry by (auto split: option.splits)
  from f d have "d \<in> set allDetectors" by (auto simp: allDetectors_def)
  then have "wholeLineOpt ln n (d ln n text)" by (rule allDetectors_wholeLine)
  with x show ?thesis by (simp add: wholeLineOpt_def)
qed




lemma issue_of_some_line:
  assumes "y \<in> set (fst (checkAccessibilityIssues document dc))"
  shows "\<exists>i < length (split_lines (getText document)).
           wholeLine (split_lines (getText document) ! i) i y"
proof -
  from assms obtain i ln where il: "(i, ln) \<in> set (enumerate 0 (split_lines (getText document)))"
    and y: "y \<in> set (allIssues ln i (getText document))"
    unfolding issues_enumerate by auto
  from il have "i < length (split_lines (getText document))"
    and "ln = split_lines (getText document) ! i"
    by (auto simp: in_set_enumerate_eq)
  with y show ?thesis using allIssues_wholeLine by blast
qed


lemma split_two_lines:
  \<open>split_lines (''<img src="a.png">'' @ [CHR 0x0A] @ ''<label>Name</label>'')
     = [''<img src="a.png">'', ''<label>Name</label>'']\<close>
  by simp



text \<open>
  C9. Whatever any detector of the repository returns for a line carries the index plus
  one as its display line and the span from column 0 to the length of the untrimmed line
  on that line; so does every issue of an aggregator run, for the line it was reported on.
\<close>

theorem C9_whole_line_span:
  "(d \<in> set allDetectors \<and> d ln n t = Some x \<longrightarrow>
      line x = n + 1
      \<and> range x = \<lparr>startLine = n, startCharacter = 0, endLine = n, endCharacter = length ln\<rparr>)
   \<and> (y \<in> set (fst (checkAccessibilityIssues document dc)) \<longrightarrow>
      (\<exists>i < length (split_lines (getText document)).
         line y = i + 1
         \<and> range y = \<lparr>startLine = i, startCharacter = 0, endLine = i,
                        endCharacter = length (split_lines (getText document) ! i)\<rparr>))"
proof (intro conjI impI)
  assume a: "d \<in> set allDetectors \<and> d ln n t = Some x"
  then have "wholeLineOpt ln n (d ln n t)" using allDetectors_wholeLine by blast
  with a have "wholeLine ln n x" by (simp add: wholeLineOpt_def)
  then show "line x = n + 1" and
    "range x = \<lparr>startLine = n, startCharacter = 0, endLine = n, endCharacter = length ln\<rparr>"
    by (simp_all add: wholeLine_def)
next
  assume "y \<in> set (fst (checkAccessibilityIssues document dc))"
  then show "\<exists>i < length (split_lines (getText document)).
         line y = i + 1
         \<and> range y = \<lparr>startLine = i, startCharacter = 0, endLine = i,
                        endCharacter = length (split_lines (getText document) ! i)\<rparr>"
    using issue_of_some_line [of y document dc] by (simp add: wholeLine_def)
qed

theorem C9_whole_line_span_witness:
  \<open>(\<lambda>ln lineNumber fullText. checkPositiveTabIndex ln lineNumber) \<in> set allDetectors
   \<and> (\<exists>x. checkPositiveTabIndex ''  <a href="#" tabindex="5">go</a>  '' 7 = Some x
          \<and> line x = 8
          \<and> range x = \<lparr>startLine = 7, startCharacter = 0, endLine = 7, endCharacter = 35\<rparr>)\<close>
proof -
  let ?d = "(\<lambda>ln lineNumber fullText. checkPositiveTabIndex ln lineNumber) :: Detector"
  have m: "?d \<in> set allDetectors"
    by (simp add: allDetectors_def registry_def)
  obtain x where x: \<open>checkPositiveTabIndex ''  <a href="#" tabindex="5">go</a>  '' 7 = Some x\<close>
    by (simp add: checkPositiveTabIndex_def re_positive_tabindex_def regex_defs trim_def
        isWhiteSpace_def Let_def)
  from m x have \<open>?d \<in> set allDetectors \<and> ?d ''  <a href="#" tabindex="5">go</a>  '' 7 [] = Some x\<close>
    by simp
  then have \<open>line x = 7 + 1
      \<and> range x = \<lparr>startLine = 7, startCharacter = 0, endLine = 7,
                     endCharacter = length ''  <a href="#" tabindex="5">go</a>  ''\<rparr>\<close>
    using C9_whole_line_span [of ?d \<open>''  <a href="#" tabindex="5">go</a>  ''\<close> 7 "[]" x]
    by blast
  with m x show ?thesis by simp
qed

section \<open>The detectors on the lines the specification tests\<close>

lemma trim_button_text:
  \<open>trim ''<button onclick="f()">Click me</button>'' = ''<button onclick="f()">Click me</button>''\<close>
  by (simp add: trim_def isWhiteSpace_def)

lemma trim_button_empty:
  \<open>trim ''<button onclick="f()"></button>'' = ''<button onclick="f()"></button>''\<close>
  by (simp add: trim_def isWhiteSpace_def)

lemma trim_button_generic:
  \<open>trim ''<button aria-label="button">Submit</button>'' = ''<button aria-label="button">Submit</button>''\<close>
  by (simp add: trim_def isWhiteSpace_def)

lemma trim_button_empty_label:
  \<open>trim ''<button aria-label="">Click me</button>'' = ''<button aria-label="">Click me</button>''\<close>
  by (simp add: trim_def isWhiteSpace_def)

lemma trim_div_tabindex:
  \<open>trim ''<div role="button" onclick="f()" tabindex="5">X</div>''
     = ''<div role="button" onclick="f()" tabindex="5">X</div>''\<close>
  by (simp add: trim_def isWhiteSpace_def)

text \<open>
  C4. On \<open><button onclick="f()">Click me</button>\<close> the ARIA family returns no
  issue. On \<open><button onclick="f()"></button>\<close> it returns two issues, both HIGH: the
  missing-accessible-name issue of \<open>checkMissingAriaLabel\<close> and the empty-button issue
  of \<open>checkEmptyButtonElements\<close>; the specification and the repository's test expect
  the first one alone.
\<close>

theorem C4_empty_button_reported_twice:
  \<open>checkAriaLabelAndRole ''<button onclick="f()">Click me</button>'' n t = []
   \<and> checkAriaLabelAndRole ''<button onclick="f()"></button>'' n t =
     [\<lparr>line = n + 1,
       issue = ''Interactive element missing accessible name (aria-label, aria-labelledby, or visible text)'',
       severity = ''HIGH'',
       range = \<lparr>startLine = n, startCharacter = 0, endLine = n, endCharacter = 31\<rparr>\<rparr>,
      \<lparr>line = n + 1,
       issue = ''Empty button element needs accessible name (aria-label, aria-labelledby, or visible text)'',
       severity = ''HIGH'',
       range = \<lparr>startLine = n, startCharacter = 0, endLine = n, endCharacter = 31\<rparr>\<rparr>]\<close>
proof
  show \<open>checkAriaLabelAndRole ''<button onclick="f()">Click me</button>'' n t = []\<close>
    by (simp add: aria_defs regex_defs trim_button_text Let_def isWhiteSpace_def trim_def)
  show \<open>checkAriaLabelAndRole ''<button onclick="f()"></button>'' n t =
     [\<lparr>line = n + 1,
       issue = ''Interactive element missing accessible name (aria-label, aria-labelledby, or visible text)'',
       severity = ''HIGH'',
       range = \<lparr>startLine = n, startCharacter = 0, endLine = n, endCharacter = 31\<rparr>\<rparr>,
      \<lparr>line = n + 1,
       issue = ''Empty button element needs accessible name (aria-label, aria-labelledby, or visible text)'',
       severity = ''HIGH'',
       range = \<lparr>startLine = n, startCharacter = 0, endLine = n, endCharacter = 31\<rparr>\<rparr>]\<close>
    by (simp add: aria_defs regex_defs trim_button_empty Let_def isWhiteSpace_def trim_def
        vscode_Range_def)
qed

text \<open>
  C6. On \<open><button aria-label="button">Submit</button>\<close> the ARIA family returns
  exactly one issue, of severity MEDIUM; its text is the redundant-label message of
  \<open>checkRedundantAriaLabel\<close>, and does not mention generic text, which the specification
  and the repository's test expect.
\<close>

theorem C6_generic_label_reported_as_redundant:
  \<open>checkAriaLabelAndRole ''<button aria-label="button">Submit</button>'' n t =
     [\<lparr>line = n + 1,
       issue = ''Redundant aria-label when visible text already provides accessible name'',
       severity = ''MEDIUM'',
       range = \<lparr>startLine = n, startCharacter = 0, endLine = n, endCharacter = 43\<rparr>\<rparr>]
   \<and> \<not> str_includes ''Redundant aria-label when visible text already provides accessible name''
          ''generic''\<close>
proof
  show \<open>checkAriaLabelAndRole ''<button aria-label="button">Submit</button>'' n t =
     [\<lparr>line = n + 1,
       issue = ''Redundant aria-label when visible text already provides accessible name'',
       severity = ''MEDIUM'',
       range = \<lparr>startLine = n, startCharacter = 0, endLine = n, endCharacter = 43\<rparr>\<rparr>]\<close>
    by (simp add: aria_defs regex_defs trim_button_generic Let_def isWhiteSpace_def trim_def
        vscode_Range_def)
  show \<open>\<not> str_includes ''Redundant aria-label when visible text already provides accessible name''
          ''generic''\<close>
    by simp
qed

text \<open>
  C7. On \<open><button aria-label="">Click me</button>\<close> the ARIA family returns two
  issues: the HIGH empty-label issue of \<open>checkEmptyAriaLabel\<close> and the MEDIUM
  redundant-label issue of \<open>checkRedundantAriaLabel\<close>; the specification and the
  repository's test expect the first one alone.
\<close>

theorem C7_empty_label_also_reported_redundant:
  \<open>checkAriaLabelAndRole ''<button aria-label="">Click me</button>'' n t =
     [\<lparr>line = n + 1,
       issue = ''Empty or whitespace-only aria-label provides no accessible name'',
       severity = ''HIGH'',
       range = \<lparr>startLine = n, startCharacter = 0, endLine = n, endCharacter = 39\<rparr>\<rparr>,
      \<lparr>line = n + 1,
       issue = ''Redundant aria-label when visible text already provides accessible name'',
       severity = ''MEDIUM'',
       range = \<lparr>startLine = n, startCharacter = 0, endLine = n, endCharacter = 39\<rparr>\<rparr>]\<close>
  by (simp add: aria_defs regex_defs trim_button_empty_label Let_def isWhiteSpace_def trim_def
      vscode_Range_def)

lemma div_tabindex_images:
  \<open>checkImages ''<div role="button" onclick="f()" tabindex="5">X</div>'' n = []\<close>
  by (simp add: image_defs trim_div_tabindex Let_def)

lemma div_tabindex_form:
  \<open>checkFormElements ''<div role="button" onclick="f()" tabindex="5">X</div>'' n = []\<close>
  by (simp add: form_defs trim_div_tabindex Let_def)

lemma div_tabindex_other:
  \<open>checkOtherAccessibility ''<div role="button" onclick="f()" tabindex="5">X</div>'' n
     ''<div role="button" onclick="f()" tabindex="5">X</div>'' = []\<close>
  by (simp add: other_defs trim_div_tabindex Let_def)

lemma div_tabindex_aria:
  \<open>checkAriaLabelAndRole ''<div role="button" onclick="f()" tabindex="5">X</div>'' n
     ''<div role="button" onclick="f()" tabindex="5">X</div>'' =
     [\<lparr>line = n + 1, issue = ''Collapsible element missing aria-expanded attribute'',
       severity = ''MEDIUM'',
       range = \<lparr>startLine = n, startCharacter = 0, endLine = n, endCharacter = 53\<rparr>\<rparr>]\<close>
  by (simp add: aria_defs regex_defs trim_div_tabindex Let_def vscode_Range_def)

lemma div_tabindex_tabindex:
  \<open>checkTabIndex ''<div role="button" onclick="f()" tabindex="5">X</div>'' n =
     [\<lparr>line = n + 1,
       issue = ''Positive tabindex="5" disrupts natural tab order - use tabindex="0" or negative values only'',
       severity = ''MEDIUM'',
       range = \<lparr>startLine = n, startCharacter = 0, endLine = n, endCharacter = 53\<rparr>\<rparr>]\<close>
  by (simp add: tabindex_defs regex_defs trim_div_tabindex Let_def vscode_Range_def)

lemma div_tabindex_semantic:
  \<open>checkSemanticHtml ''<div role="button" onclick="f()" tabindex="5">X</div>'' n
     ''<div role="button" onclick="f()" tabindex="5">X</div>'' = []\<close>
  by (simp add: semantic_defs regex_defs trim_div_tabindex Let_def vscode_Range_def)

text \<open>
  C5. The run of the aggregator on the one-line document
  \<open><div role="button" onclick="f()" tabindex="5">X</div>\<close> returns two issues, both
  MEDIUM (the missing \<open>aria-expanded\<close> and the positive tabindex); no issue of the run
  is HIGH, where the specification and the repository's test of the tab index family
  expect one.
\<close>

theorem C5_engine_run_without_high:
  \<open>fst (checkAccessibilityIssues
          \<lparr>uri = u, getText = ''<div role="button" onclick="f()" tabindex="5">X</div>''\<rparr> dc) =
     [\<lparr>line = 1, issue = ''Collapsible element missing aria-expanded attribute'',
       severity = ''MEDIUM'',
       range = \<lparr>startLine = 0, startCharacter = 0, endLine = 0, endCharacter = 53\<rparr>\<rparr>,
      \<lparr>line = 1,
       issue = ''Positive tabindex="5" disrupts natural tab order - use tabindex="0" or negative values only'',
       severity = ''MEDIUM'',
       range = \<lparr>startLine = 0, startCharacter = 0, endLine = 0, endCharacter = 53\<rparr>\<rparr>]
   \<and> filter (\<lambda>i. severity i = ''HIGH'')
        (fst (checkAccessibilityIssues
          \<lparr>uri = u, getText = ''<div role="button" onclick="f()" tabindex="5">X</div>''\<rparr> dc)) = []
   \<and> length (filter (\<lambda>i. severity i = ''MEDIUM'')
        (fst (checkAccessibilityIssues
          \<lparr>uri = u, getText = ''<div role="button" onclick="f()" tabindex="5">X</div>''\<rparr> dc))) = 2\<close>
proof -
  have run: \<open>fst (checkAccessibilityIssues
          \<lparr>uri = u, getText = ''<div role="button" onclick="f()" tabindex="5">X</div>''\<rparr> dc) =
     [\<lparr>line = 1, issue = ''Collapsible element missing aria-expanded attribute'',
       severity = ''MEDIUM'',
       range = \<lparr>startLine = 0, startCharacter = 0, endLine = 0, endCharacter = 53\<rparr>\<rparr>,
      \<lparr>line = 1,
       issue = ''Positive tabindex="5" disrupts natural tab order - use tabindex="0" or negative values only'',
       severity = ''MEDIUM'',
       range = \<lparr>startLine = 0, startCharacter = 0, endLine = 0, endCharacter = 53\<rparr>\<rparr>]\<close>
    by (simp add: checkAccessibilityIssues_def allIssues_def div_tabindex_images
        div_tabindex_form div_tabindex_other div_tabindex_aria div_tabindex_tabindex
        div_tabindex_semantic Let_def)
  show ?thesis unfolding run by simp
qed

section \<open>The repair workflow\<close>

lemma str_includes_trim_img: "str_includes (trim s) ''<img'' = str_includes s ''<img''"
  by (rule str_includes_trim) (simp_all add: isWhiteSpace_def)

lemma str_includes_trim_alt: "str_includes (trim s) ''alt='' = str_includes s ''alt=''"
  by (rule str_includes_trim) (simp_all add: isWhiteSpace_def)

lemma generateAltText_no_client:
  assumes "\<not> openai st"
    and "openaiApiKey env = None \<or> openaiApiKey env = Some [] \<or> clientError env \<noteq> None"
  shows "\<not> success (fst (generateAltText env st imageSrc context))"
  using assms
  by (auto simp: generateAltText_def initializeOpenAI_def split: option.splits)

lemma generateAltText_api_fails:
  assumes "case createCompletion env (buildPrompt imageSrc context) of
             ApiThrows e \<Rightarrow> True
           | ApiCompletion content \<Rightarrow> content = None \<or> map_option trim content = Some []"
  shows "\<not> success (fst (generateAltText env st imageSrc context))"
  using assms
  by (auto simp: generateAltText_def Let_def split: prod.splits ApiOutcome.splits bool.splits)

lemma fixSpecificImageTag_generation_fails:
  assumes "\<And>imgTagMatch. str_match (trim lineText) re_img_src = Some imgTagMatch
             \<Longrightarrow> \<not> success (fst (generateAltText env st (imgTagMatch ! 1) None))"
  shows "fst (fixSpecificImageTag env st document lineNumber lineText) = None"
proof -
  have "\<And>imgTagMatch r s. str_match (trim lineText) re_img_src = Some imgTagMatch
          \<Longrightarrow> generateAltText env st (imgTagMatch ! 1) None = (r, s) \<Longrightarrow> \<not> success r"
    using assms by (metis fst_conv)
  then show ?thesis
    by (auto simp: fixSpecificImageTag_def Let_def split: option.splits prod.splits)
qed

text \<open>
  C8. \<open>fixSpecificImageTag\<close> returns no edit when the line has no \<open><img\<close>, when it
  already has \<open>alt=\<close>, and when the generation of the alt text fails: no client can be
  set up (no API key, or the constructor throws), or the call made for the image of the
  line throws or yields a missing, empty or blank text. Nothing is then handed to the
  host, so the lines of the document stay as they are.
\<close>

theorem C8_fixSpecificImageTag_no_edit:
  assumes "\<not> str_includes lineText ''<img''
     \<or> str_includes lineText ''alt=''
     \<or> (\<not> openai st \<and> (openaiApiKey env = None \<or> openaiApiKey env = Some []
                        \<or> clientError env \<noteq> None))
     \<or> (\<forall>imgTagMatch. str_match (trim lineText) re_img_src = Some imgTagMatch \<longrightarrow>
          (case createCompletion env (buildPrompt (imgTagMatch ! 1) None) of
             ApiThrows e \<Rightarrow> True
           | ApiCompletion content \<Rightarrow> content = None \<or> map_option trim content = Some []))"
  shows "fst (fixSpecificImageTag env st document lineNumber lineText) = None
     \<and> applyEdit (fst (fixSpecificImageTag env st document lineNumber lineText)) docLines = docLines"
proof -
  have none: "fst (fixSpecificImageTag env st document lineNumber lineText) = None"
    using assms
  proof (elim disjE)
    assume "\<not> str_includes lineText ''<img''"
    then show ?thesis
      by (simp add: fixSpecificImageTag_def str_includes_trim_img)
  next
    assume "str_includes lineText ''alt=''"
    then show ?thesis
      by (simp add: fixSpecificImageTag_def str_includes_trim_alt)
  next
    assume "\<not> openai st \<and> (openaiApiKey env = None \<or> openaiApiKey env = Some []
                        \<or> clientError env \<noteq> None)"
    then have "\<And>imageSrc. \<not> success (fst (generateAltText env st imageSrc None))"
      using generateAltText_no_client by blast
    then show ?thesis by (intro fixSpecificImageTag_generation_fails)
  next
    assume "\<forall>imgTagMatch. str_match (trim lineText) re_img_src = Some imgTagMatch \<longrightarrow>
          (case createCompletion env (buildPrompt (imgTagMatch ! 1) None) of
             ApiThrows e \<Rightarrow> True
           | ApiCompletion content \<Rightarrow> content = None \<or> map_option trim content = Some [])"
    then have "\<And>imgTagMatch. str_match (trim lineText) re_img_src = Some imgTagMatch
             \<Longrightarrow> \<not> success (fst (generateAltText env st (imgTagMatch ! 1) None))"
      using generateAltText_api_fails by blast
    then show ?thesis by (rule fixSpecificImageTag_generation_fails)
  qed
  then show ?thesis by (simp add: applyEdit_def)
qed

theorem C8_fixSpecificImageTag_no_edit_witness:
  \<open>fst (fixSpecificImageTag
          \<lparr>openaiApiKey = Some ''key'', clientError = None,
           createCompletion = (\<lambda>prompt. ApiThrows ''timeout'')\<rparr>
          \<lparr>openai = False, errorMessages = []\<rparr>
          \<lparr>uri = ''page.html'', getText = ''<img src="x.png">''\<rparr> 0 ''<img src="x.png">'') = None
   \<and> applyEdit (fst (fixSpecificImageTag
          \<lparr>openaiApiKey = Some ''key'', clientError = None,
           createCompletion = (\<lambda>prompt. ApiThrows ''timeout'')\<rparr>
          \<lparr>openai = False, errorMessages = []\<rparr>
          \<lparr>uri = ''page.html'', getText = ''<img src="x.png">''\<rparr> 0 ''<img src="x.png">''))
        [''<img src="x.png">''] = [''<img src="x.png">'']\<close>
  by (rule C8_fixSpecificImageTag_no_edit) simp

text \<open>
  With a client and an answer the same line does get its edit: the generated text,
  trimmed, goes in front of the closing bracket of the tag.
\<close>

lemma trim_img_line: \<open>trim ''<img src="x.png">'' = ''<img src="x.png">''\<close>
  by (simp add: trim_def isWhiteSpace_def)

lemma match_img_line:
  \<open>str_match ''<img src="x.png">'' re_img_src = Some [''<img src="x.png">'', ''x.png'']\<close>
  by (simp add: regex_defs re_img_src_def)

lemma fixSpecificImageTag_inserts_alt:
  \<open>fst (fixSpecificImageTag
          \<lparr>openaiApiKey = Some ''key'', clientError = None,
           createCompletion = (\<lambda>prompt. ApiCompletion (Some '' A red kite ''))\<rparr>
          \<lparr>openai = False, errorMessages = []\<rparr>
          \<lparr>uri = ''page.html'', getText = ''<img src="x.png">''\<rparr> 0 ''<img src="x.png">'')
     = Some \<lparr>edit_uri = ''page.html'',
             edit_range = \<lparr>startLine = 0, startCharacter = 0, endLine = 0, endCharacter = 17\<rparr>,
             newText = ''<img src="x.png" alt="A red kite">''\<rparr>\<close>
  by (simp add: fixSpecificImageTag_def trim_img_line match_img_line generateAltText_def
      initializeOpenAI_def indexOf_def vscode_Range_def Let_def trim_def isWhiteSpace_def)

end
